theory Spec2Isabelle
  imports Main "HOL-Library.Word" "HOL-Library.Monad_Syntax"
begin

unbundle bit_operations_syntax

section \<open>MIFARE DESFire core (client/src/mifare/desfirecore.c)\<close>

text \<open>
  A shallow embedding of the functions of \<^verbatim>\<open>desfirecore.c\<close> that exchange frames with
  the card, select applications, authenticate, change keys and decode file settings.
  A C buffer together with its length is a byte list; a pointer that designates more
  bytes than the length passed with it is a byte list and a separate length. The
  context structure is a record that every function takes and returns. The card and
  the reader hardware are a script of replies, consumed one per frame handed to the
  transport, and a log of the frames handed over.
\<close>

subsection \<open>Bytes and buffers\<close>

type_synonym u8 = "8 word"
type_synonym u16 = "16 word"
type_synonym u32 = "32 word"
type_synonym bytes = "u8 list"

text \<open>\<^verbatim>\<open>memcpy(dst, src, n)\<close> onto the start of an array.\<close>

definition memcpy :: "bytes \<Rightarrow> bytes \<Rightarrow> nat \<Rightarrow> bytes" where
  "memcpy dst src n = take n src @ drop n dst"

text \<open>
  \<^verbatim>\<open>memcpy(&dst[off], src, n)\<close> into a zero-initialised array: the bytes before
  \<open>off\<close> that the list does not hold yet are the array's zeros.
\<close>

definition memcpy_at :: "bytes \<Rightarrow> nat \<Rightarrow> bytes \<Rightarrow> nat \<Rightarrow> bytes" where
  "memcpy_at dst off src n =
     take off (dst @ replicate (off - length dst) 0) @ take n src @ drop (off + n) dst"

subsection \<open>Result codes, status bytes and command bytes\<close>

text \<open>
  Modelled from the spec: the \<^verbatim>\<open>PM3_*\<close> result codes (\<^verbatim>\<open>pm3_cmd.h\<close>) and the
  \<^verbatim>\<open>MFDES_*\<close> bytes (\<^verbatim>\<open>protocols.h\<close>) are not under src/. The source itself uses
  \<open>0\<close> for success and \<open>-20\<close> for the APDU failure (\<^verbatim>\<open>DesfireChangeKey\<close>); the status
  and command bytes are those of the spec's wire formats.
\<close>

abbreviation (input) PM3_SUCCESS :: int where "PM3_SUCCESS \<equiv> 0"
abbreviation (input) PM3_EINVARG :: int where "PM3_EINVARG \<equiv> - 2"
abbreviation (input) PM3_ETIMEOUT :: int where "PM3_ETIMEOUT \<equiv> - 4"
abbreviation (input) PM3_ECARDEXCHANGE :: int where "PM3_ECARDEXCHANGE \<equiv> - 18"
abbreviation (input) PM3_EAPDU_ENCODEFAIL :: int where "PM3_EAPDU_ENCODEFAIL \<equiv> - 19"
abbreviation (input) PM3_EAPDU_FAIL :: int where "PM3_EAPDU_FAIL \<equiv> - 20"

abbreviation (input) MFDES_S_OPERATION_OK :: u8 where "MFDES_S_OPERATION_OK \<equiv> 0x00"
abbreviation (input) MFDES_S_NO_CHANGES :: u8 where "MFDES_S_NO_CHANGES \<equiv> 0x0C"
abbreviation (input) MFDES_S_SIGNATURE :: u8 where "MFDES_S_SIGNATURE \<equiv> 0x90"
abbreviation (input) MFDES_S_ADDITIONAL_FRAME :: u8 where "MFDES_S_ADDITIONAL_FRAME \<equiv> 0xAF"
abbreviation (input) MFDES_ADDITIONAL_FRAME :: u8 where "MFDES_ADDITIONAL_FRAME \<equiv> 0xAF"

abbreviation (input) MFDES_AUTHENTICATE :: u8 where "MFDES_AUTHENTICATE \<equiv> 0x0A"
abbreviation (input) MFDES_AUTHENTICATE_ISO :: u8 where "MFDES_AUTHENTICATE_ISO \<equiv> 0x1A"
abbreviation (input) MFDES_AUTHENTICATE_AES :: u8 where "MFDES_AUTHENTICATE_AES \<equiv> 0xAA"
abbreviation (input) MFDES_AUTHENTICATE_EV2F :: u8 where "MFDES_AUTHENTICATE_EV2F \<equiv> 0x71"
abbreviation (input) MFDES_AUTHENTICATE_EV2NF :: u8 where "MFDES_AUTHENTICATE_EV2NF \<equiv> 0x77"
abbreviation (input) MFDES_SELECT_APPLICATION :: u8 where "MFDES_SELECT_APPLICATION \<equiv> 0x5A"
abbreviation (input) MFDES_CHANGE_KEY :: u8 where "MFDES_CHANGE_KEY \<equiv> 0xC4"
abbreviation (input) MFDES_NATIVE_ISO7816_WRAP_CLA :: u8 where "MFDES_NATIVE_ISO7816_WRAP_CLA \<equiv> 0x90"

definition DESFIRE_GET_ISO_STATUS :: "u8 \<Rightarrow> u16" where
  "DESFIRE_GET_ISO_STATUS x = 0x9100 OR ucast x"

subsection \<open>The transport\<close>

text \<open>
  Modelled from the spec: the transport interface (\<^verbatim>\<open>ExchangeRAW14a\<close> and
  \<^verbatim>\<open>ExchangeAPDU14a\<close> of \<^verbatim>\<open>cmdhf14a.c\<close>) is not under src/. The spec gives it two
  operations that send \<open>N\<close> bytes and receive up to \<open>M\<close>, each with a result code.
  Here the card is the list \<open>replies\<close> of the answers it will give, one for each frame
  it is handed, and \<open>sent\<close> records the frames handed over. A card that has no answer
  left is a timeout. Dropping the field and the 50 ms pause that
  \<^verbatim>\<open>activate_field\<close> asks for leave no trace in either. \<open>exchanged\<close> is a history
  that no code reads: \<^verbatim>\<open>DesfireExchangeEx\<close> adds to it, for each command it carries out,
  the command byte and payload it was given and the status byte and response it gave back.
\<close>

record world =
  replies :: "(int \<times> bytes) list"
  sent :: "bytes list"
  exchanged :: "(u8 \<times> bytes \<times> u8 \<times> bytes) list"

definition ExchangeRAW14a :: "bytes \<Rightarrow> bool \<Rightarrow> u32 \<Rightarrow> world \<Rightarrow> (int \<times> bytes) \<times> world" where
  "ExchangeRAW14a datain activateField maxdataoutlen w =
     (case replies w of
        [] \<Rightarrow> ((PM3_ETIMEOUT, []), w\<lparr>sent := sent w @ [datain]\<rparr>)
      | (res, dataout) # rs \<Rightarrow>
          ((res, take (unat maxdataoutlen) dataout),
           w\<lparr>replies := rs, sent := sent w @ [datain]\<rparr>))"

definition ExchangeAPDU14a :: "bytes \<Rightarrow> bool \<Rightarrow> u32 \<Rightarrow> world \<Rightarrow> (int \<times> bytes) \<times> world" where
  "ExchangeAPDU14a datain activateField maxdataoutlen w =
     ExchangeRAW14a datain activateField maxdataoutlen w"

subsection \<open>DESFIRESendRaw\<close>

text \<open>
  A function of this file that calls the transport gives a pair: what it returns, and
  the world after it. What it returns is \<open>None\<close> when the call does not return: an
  access outside an array is undefined behaviour in C, and the model stops there. The
  world after it holds the frames handed to the transport until then.

  \<^verbatim>\<open>DESFIRESendRaw\<close> is static, and both calls pass the local array \<^verbatim>\<open>buf\<close> of
  \<open>255 * 5 = 1275\<close> bytes as \<^verbatim>\<open>result\<close> and \<^verbatim>\<open>sizeof(buf)\<close> as \<^verbatim>\<open>max_result_len\<close>:
  the model is the function on that array. The out-parameters \<^verbatim>\<open>result\<close>,
  \<^verbatim>\<open>*result_len\<close> and \<^verbatim>\<open>*respcode\<close> are the fields of the value returned.
  \<^verbatim>\<open>*result_len\<close> is a \<^verbatim>\<open>uint32_t\<close>, so \<^verbatim>\<open>*result_len -= 1 + 2\<close> is subtraction on
  32-bit words: for a reply of one or two bytes it gives \<open>0xFFFFFFFE\<close> or \<open>0xFFFFFFFF\<close>.
  \<^verbatim>\<open>memmove(&result[0], &result[1], *result_len)\<close> stays inside the array when
  \<open>1 + *result_len\<close> is at most 1275, which is so for every reply of three bytes or more
  (the transport delivers at most 1275); it then moves bytes that the transport
  delivered. For a reply of one or two bytes it runs far outside the array. The branch
  for an empty list below the length test is never taken.
\<close>

record raw_result =
  rr_res :: int
  rr_result :: bytes
  rr_result_len :: u32
  rr_respcode :: u8

abbreviation (input) sizeof_buf :: u32 where "sizeof_buf \<equiv> 1275"

definition DESFIRESendRaw :: "bool \<Rightarrow> bytes \<Rightarrow> world \<Rightarrow> raw_result option \<times> world" where
  "DESFIRESendRaw activate_field data w =
     (let ((res, result), w1) = ExchangeRAW14a data activate_field sizeof_buf w;
          result_len = (word_of_nat (length result) :: u32);
          early = \<lparr>rr_res = res, rr_result = result, rr_result_len = result_len,
                   rr_respcode = 0xFF\<rparr>
      in if res \<noteq> PM3_SUCCESS then (Some early, w1)
         else if result_len < 1 then (Some early, w1)
         else (case result of
                 [] \<Rightarrow> (Some early, w1)
               | rcode # moved \<Rightarrow>
                   (let result_len1 = result_len - (1 + 2)
                    in if unat sizeof_buf < 1 + unat result_len1 then (None, w1)
                       else (Some \<lparr>rr_res = (if rcode \<noteq> MFDES_S_OPERATION_OK \<and>
                                                rcode \<noteq> MFDES_S_SIGNATURE \<and>
                                                rcode \<noteq> MFDES_S_ADDITIONAL_FRAME \<and>
                                                rcode \<noteq> MFDES_S_NO_CHANGES
                                             then PM3_EAPDU_FAIL else PM3_SUCCESS),
                                  rr_result = take (unat result_len1) moved,
                                  rr_result_len = result_len1,
                                  rr_respcode = rcode\<rparr>, w1))))"

lemma DESFIRESendRaw_consumes:
  assumes "DESFIRESendRaw activate_field data w = (Some r, w1)" and "rr_res r = PM3_SUCCESS"
  shows "length (replies w1) < length (replies w)"
  using assms
  by (auto simp: DESFIRESendRaw_def ExchangeRAW14a_def Let_def
           split: list.splits prod.splits if_splits)

subsection \<open>The context and the helpers of other files\<close>

datatype DesfireCryptoAlgorythm = T_DES | T_3DES | T_3K3DES | T_AES
datatype DesfireSecureChannel = DACNone | DACd40 | DACEV1 | DACEV2
datatype DesfireCommandSet = DCCNative | DCCNativeISO | DCCISO
datatype DesfireCommunicationMode = DCMNone | DCMPlain | DCMMACed | DCMEncrypted

text \<open>
  Modelled from the spec: the structure \<^verbatim>\<open>DesfireContext\<close> (\<^verbatim>\<open>desfire_crypto.h\<close>) is
  not under src/. The record has the fields that \<^verbatim>\<open>desfirecore.c\<close> reads or writes,
  with the types of the spec's session state; the key and IV arrays are byte lists.
\<close>

record DesfireContext =
  keyNum :: u8
  keyType :: DesfireCryptoAlgorythm
  key :: bytes
  kdfAlgo :: u8
  kdfInputLen :: u8
  kdfInput :: bytes
  secureChannel :: DesfireSecureChannel
  cmdSet :: DesfireCommandSet
  commMode :: DesfireCommunicationMode
  appSelected :: bool
  IV :: bytes
  sessionKeyMAC :: bytes
  sessionKeyEnc :: bytes
  TI :: bytes
  cmdCntr :: u32

abbreviation (input) MFDES_KDF_ALGO_NONE :: u8 where "MFDES_KDF_ALGO_NONE \<equiv> 0"
abbreviation (input) MFDES_KDF_ALGO_AN10922 :: u8 where "MFDES_KDF_ALGO_AN10922 \<equiv> 1"
abbreviation (input) MFDES_KDF_ALGO_GALLAGHER :: u8 where "MFDES_KDF_ALGO_GALLAGHER \<equiv> 2"

text \<open>
  Modelled from the spec: \<^verbatim>\<open>DESFIRE_MAX_KEY_SIZE\<close>, \<^verbatim>\<open>desfire_get_key_length\<close>,
  \<^verbatim>\<open>DesfireClearSession\<close>, \<^verbatim>\<open>DesfireClearIV\<close> and \<^verbatim>\<open>DesfireIsAuthenticated\<close>
  (\<^verbatim>\<open>desfire_crypto.c\<close>) are not under src/. The spec: key lengths are 8, 16, 24 and
  16 bytes; a session exists exactly when the secure-channel variant is not None; a
  cleared session is unauthenticated with the session keys zeroed, an all-zero IV and
  the transaction identifier and command counter of a session created empty. The key
  number, key and algorithm stay: the source reads them after clearing.
\<close>

abbreviation (input) DESFIRE_MAX_KEY_SIZE :: nat where "DESFIRE_MAX_KEY_SIZE \<equiv> 24"

fun desfire_get_key_length :: "DesfireCryptoAlgorythm \<Rightarrow> nat" where
  "desfire_get_key_length T_DES = 8"
| "desfire_get_key_length T_3DES = 16"
| "desfire_get_key_length T_3K3DES = 24"
| "desfire_get_key_length T_AES = 16"

definition DesfireClearSession :: "DesfireContext \<Rightarrow> DesfireContext" where
  "DesfireClearSession ctx =
     ctx\<lparr>secureChannel := DACNone,
         IV := replicate DESFIRE_MAX_KEY_SIZE 0,
         sessionKeyMAC := replicate DESFIRE_MAX_KEY_SIZE 0,
         sessionKeyEnc := replicate DESFIRE_MAX_KEY_SIZE 0,
         TI := replicate 4 0,
         cmdCntr := 0\<rparr>"

definition DesfireClearIV :: "DesfireContext \<Rightarrow> DesfireContext" where
  "DesfireClearIV ctx = ctx\<lparr>IV := replicate DESFIRE_MAX_KEY_SIZE 0\<rparr>"

definition DesfireIsAuthenticated :: "DesfireContext \<Rightarrow> bool" where
  "DesfireIsAuthenticated ctx \<longleftrightarrow> secureChannel ctx \<noteq> DACNone"

text \<open>
  The structure \<^verbatim>\<open>sAPDU\<close> (\<^verbatim>\<open>iso7816/apduinfo.h\<close>, not under src/) with the fields
  the source sets; \<open>Lc\<close> is one byte, \<open>apdu_data\<close> the bytes its pointer designates.
\<close>

record sAPDU =
  CLA :: u8
  INS :: u8
  P1 :: u8
  P2 :: u8
  Lc :: u8
  apdu_data :: bytes

abbreviation (input) APDU_INCLUDE_LE_00 :: u16 where "APDU_INCLUDE_LE_00 \<equiv> 0x100"

text \<open>
  The key structure \<^verbatim>\<open>struct desfire_key\<close> (\<^verbatim>\<open>desfire_crypto.h\<close>, not under src/): the
  source reads its member \<open>data\<close> only; \<open>kother\<close> stands for the other members. An AES
  context of mbedtls is the bytes of its round keys.
\<close>

record desfire_key =
  kdata :: bytes
  kother :: bytes

text \<open>
  What \<^verbatim>\<open>desfirecore.c\<close> takes from other files without the spec fixing it is a
  field of \<open>env\<close>: the frame limit \<^verbatim>\<open>DESFIRE_TX_FRAME_MAX_LEN\<close>, the secure-channel codec
  of \<^verbatim>\<open>desfiresecurechan.c\<close> (it takes the context by pointer, so it returns the
  context), the APDU encoder (\<open>None\<close> when it reports an error), the helpers of
  \<^verbatim>\<open>DesfireChangeKey\<close> (the two CRCs, each giving the bytes it appends, the key-type code
  and the key-version encoding of DES keys), the mapping of file communication modes and
  the ciphers and key derivations of the authentication. A function that writes an array
  gives the array's new content; one that takes the IV by pointer gives the new IV with
  its output; \<open>None\<close> is a return value other than 0.
\<close>

record env =
  DESFIRE_TX_FRAME_MAX_LEN :: nat
  DesfireSecureChannelEncode :: "DesfireContext \<Rightarrow> u8 \<Rightarrow> bytes \<Rightarrow> nat \<Rightarrow> DesfireContext \<times> bytes"
  DesfireSecureChannelDecode :: "DesfireContext \<Rightarrow> bytes \<Rightarrow> nat \<Rightarrow> u8 \<Rightarrow> DesfireContext \<times> bytes"
  APDUEncodeS :: "sAPDU \<Rightarrow> bool \<Rightarrow> u16 \<Rightarrow> bytes option"
  iso14443a_crc :: "bytes \<Rightarrow> bytes"
  desfire_crc32 :: "bytes \<Rightarrow> bytes"
  DesfireKeyAlgoToType :: "DesfireCryptoAlgorythm \<Rightarrow> u8"
  DesfireDESKeySetVersion :: "bytes \<Rightarrow> DesfireCryptoAlgorythm \<Rightarrow> u8 \<Rightarrow> bytes"
  DesfireFileCommModeToCommMode :: "u8 \<Rightarrow> DesfireCommunicationMode"
  Desfire_aes_key_new :: "bytes \<Rightarrow> desfire_key"
  Desfire_3des_key_new_with_version :: "bytes \<Rightarrow> desfire_key"
  Desfire_des_key_new :: "bytes \<Rightarrow> desfire_key"
  Desfire_3k3des_key_new_with_version :: "bytes \<Rightarrow> desfire_key"
  mifare_kdf_an10922 :: "desfire_key \<Rightarrow> bytes \<Rightarrow> u8 \<Rightarrow> desfire_key"
  mbedtls_aes_setkey_dec :: "bytes \<Rightarrow> bytes option"
  mbedtls_aes_setkey_enc :: "bytes \<Rightarrow> bytes option"
  mbedtls_aes_crypt_cbc :: "bytes \<Rightarrow> bool \<Rightarrow> nat \<Rightarrow> bytes \<Rightarrow> bytes \<Rightarrow> bytes \<times> bytes"
  des_decrypt :: "bytes \<Rightarrow> bytes \<Rightarrow> bytes"
  des_decrypt_cbc :: "bytes \<Rightarrow> nat \<Rightarrow> bytes \<Rightarrow> bytes \<Rightarrow> bytes \<times> bytes"
  des_encrypt_cbc :: "bytes \<Rightarrow> nat \<Rightarrow> bytes \<Rightarrow> bytes \<Rightarrow> bytes \<times> bytes"
  des3_decrypt :: "bytes \<Rightarrow> bytes \<Rightarrow> nat \<Rightarrow> bytes"
  tdes_nxp_receive :: "bytes \<Rightarrow> nat \<Rightarrow> bytes \<Rightarrow> bytes \<Rightarrow> nat \<Rightarrow> bytes \<times> bytes"
  tdes_nxp_send :: "bytes \<Rightarrow> nat \<Rightarrow> bytes \<Rightarrow> bytes \<Rightarrow> nat \<Rightarrow> bytes \<times> bytes"
  Desfire_session_key_new :: "bytes \<Rightarrow> bytes \<Rightarrow> desfire_key \<Rightarrow> desfire_key"
  aes_decode :: "bytes \<Rightarrow> bytes \<Rightarrow> bytes \<Rightarrow> nat \<Rightarrow> (bytes \<times> bytes) option"
  aes_encode :: "bytes \<Rightarrow> bytes \<Rightarrow> bytes \<Rightarrow> nat \<Rightarrow> (bytes \<times> bytes) option"
  DesfireGenSessionKeyEV2 :: "bytes \<Rightarrow> bytes \<Rightarrow> bytes \<Rightarrow> bool \<Rightarrow> bytes \<Rightarrow> bytes"

subsection \<open>DESFIRESendApduEx\<close>

record apdu_result =
  ar_res :: int
  ar_result :: bytes
  ar_result_len :: u32
  ar_sw :: u16

text \<open>
  The two reads \<^verbatim>\<open>result[*result_len]\<close> and \<^verbatim>\<open>result[*result_len + 1]\<close> are inside the
  bytes delivered: they are its last two, the length being at least 2.
\<close>

definition DESFIRESendApduEx :: "env \<Rightarrow> bool \<Rightarrow> sAPDU \<Rightarrow> u16 \<Rightarrow> u32 \<Rightarrow> world \<Rightarrow> apdu_result \<times> world" where
  "DESFIRESendApduEx e activate_field apdu le max_result_len w =
     (case APDUEncodeS e apdu False le of
        None \<Rightarrow>
          (\<lparr>ar_res = PM3_EAPDU_ENCODEFAIL, ar_result = [], ar_result_len = 0, ar_sw = 0\<rparr>, w)
      | Some data \<Rightarrow>
          (let ((res, result), w1) = ExchangeAPDU14a data activate_field max_result_len w;
               result_len = (word_of_nat (length result) :: u32);
               early = \<lparr>ar_res = res, ar_result = result, ar_result_len = result_len,
                        ar_sw = 0\<rparr>
           in if res \<noteq> PM3_SUCCESS then (early, w1)
              else if result_len < 2 then (early, w1)
              else (let result_len1 = result_len - 2;
                        isw = push_bit 8 (ucast (result ! unat result_len1) :: u16) +
                              ucast (result ! (unat result_len1 + 1))
                    in (\<lparr>ar_res = (if isw \<noteq> 0x9000 \<and>
                                        isw \<noteq> DESFIRE_GET_ISO_STATUS MFDES_S_OPERATION_OK \<and>
                                        isw \<noteq> DESFIRE_GET_ISO_STATUS MFDES_S_SIGNATURE \<and>
                                        isw \<noteq> DESFIRE_GET_ISO_STATUS MFDES_S_ADDITIONAL_FRAME \<and>
                                        isw \<noteq> DESFIRE_GET_ISO_STATUS MFDES_S_NO_CHANGES
                                     then PM3_EAPDU_FAIL else PM3_SUCCESS),
                         ar_result = take (unat result_len1) result,
                         ar_result_len = result_len1,
                         ar_sw = isw\<rparr>, w1))))"

definition DESFIRESendApdu :: "env \<Rightarrow> bool \<Rightarrow> sAPDU \<Rightarrow> u32 \<Rightarrow> world \<Rightarrow> apdu_result \<times> world" where
  "DESFIRESendApdu e activate_field apdu max_result_len w =
     DESFIRESendApduEx e activate_field apdu APDU_INCLUDE_LE_00 max_result_len w"

lemma DESFIRESendApdu_consumes:
  assumes "DESFIRESendApdu e activate_field apdu m w = (r, w1)" and "ar_res r = PM3_SUCCESS"
  shows "length (replies w1) < length (replies w)"
  using assms
  by (auto simp: DESFIRESendApdu_def DESFIRESendApduEx_def ExchangeAPDU14a_def
                 ExchangeRAW14a_def Let_def
           split: list.splits prod.splits if_splits option.splits)

subsection \<open>DesfireExchangeNative\<close>

text \<open>
  The value returned holds the result code and the out-parameters \<^verbatim>\<open>*respcode\<close>,
  \<^verbatim>\<open>resp\<close> and \<^verbatim>\<open>*resplen\<close>; the callers pass all three, so the tests for null
  pointers are gone, and so is the unused \<^verbatim>\<open>ctx\<close>. \<open>buflen\<close>, \<open>pos\<close> and \<open>i\<close> are
  \<^verbatim>\<open>uint32_t\<close>.

  \<open>tx_native\<close> is the loop under \<^verbatim>\<open>// tx chaining\<close>. It returns what the last
  \<^verbatim>\<open>DESFIRESendRaw\<close> gave: a result code other than success is the \<^verbatim>\<open>return res\<close> inside the
  loop. Each round takes one reply of the card, so the loop ends with the replies; a card
  that acknowledges without end is not a list of replies.
\<close>

record exch_result =
  er_res :: int
  er_respcode :: u8
  er_resp :: bytes
  er_resplen :: nat

function tx_native :: "nat \<Rightarrow> bool \<Rightarrow> bytes \<Rightarrow> nat \<Rightarrow> nat \<Rightarrow> raw_result \<Rightarrow> world \<Rightarrow> raw_result option \<times> world" where
  "tx_native maxlen activate_field cdata cdatalen sentdatalen r w =
     (if cdatalen \<ge> sentdatalen then
        (let len = (if cdatalen - sentdatalen > maxlen then maxlen else cdatalen - sentdatalen);
             sendindx = (if sentdatalen > 0 then sentdatalen - 1 else sentdatalen);
             sendlen = (if sentdatalen > 0 then len + 1 else len);
             cdata1 = (if sentdatalen > 0 then cdata[sendindx := MFDES_ADDITIONAL_FRAME] else cdata);
             (x, w1) = DESFIRESendRaw activate_field (take sendlen (drop sendindx cdata1)) w
         in case x of
              None \<Rightarrow> (None, w1)
            | Some r1 \<Rightarrow>
                if rr_res r1 \<noteq> PM3_SUCCESS then (Some r1, w1)
                else if rr_respcode r1 \<noteq> MFDES_ADDITIONAL_FRAME \<or> rr_result_len r1 > 0
                     then (Some r1, w1)
                else tx_native maxlen activate_field cdata1 cdatalen (sentdatalen + len) r1 w1)
      else (Some r, w))"
  by pat_completeness auto
termination
proof (relation "measure (\<lambda>(maxlen, activate_field, cdata, cdatalen, sentdatalen, r, w). length (replies w))", goal_cases)
  case 1
  show ?case by simp
next
  case (2 maxlen activate_field cdata cdatalen sentdatalen r w len sendindx sendlen cdata1 p x w1 r1)
  then have "length (replies w1) < length (replies w)"
    by (metis DESFIRESendRaw_consumes)
  then show ?case by simp
qed

text \<open>
  \<open>rx_native\<close> is the loop \<^verbatim>\<open>while (rcode == MFDES_ADDITIONAL_FRAME)\<close>. It returns the
  result code, \<open>rcode\<close> as last stored in \<^verbatim>\<open>*respcode\<close>, \<open>resp\<close>, \<open>pos\<close> and \<open>i\<close>.
\<close>

function rx_native :: "nat \<Rightarrow> u8 \<Rightarrow> bytes \<Rightarrow> u32 \<Rightarrow> u32 \<Rightarrow> world \<Rightarrow> (int \<times> u8 \<times> bytes \<times> u32 \<times> u32) option \<times> world" where
  "rx_native splitbysize rcode resp pos i w =
     (if rcode = MFDES_ADDITIONAL_FRAME then
        (let (x, w1) = DESFIRESendRaw False [MFDES_ADDITIONAL_FRAME] w
         in case x of
              None \<Rightarrow> (None, w1)
            | Some r1 \<Rightarrow>
                if rr_res r1 \<noteq> PM3_SUCCESS then (Some (rr_res r1, rcode, resp, pos, i), w1)
                else
                  (let rcode1 = rr_respcode r1;
                       buflen = rr_result_len r1;
                       resp1 = (if splitbysize \<noteq> 0
                                then memcpy_at (memcpy_at resp (unat i * splitbysize) [ucast buflen] 1)
                                       (unat i * splitbysize + 1) (rr_result r1) (unat buflen)
                                else memcpy_at resp (unat pos) (rr_result r1) (unat buflen));
                       i1 = (if splitbysize \<noteq> 0 then i + 1 else i);
                       pos1 = pos + buflen
                   in if rcode1 \<noteq> MFDES_ADDITIONAL_FRAME
                      then (Some (PM3_SUCCESS, rcode1, resp1, pos1, i1), w1)
                      else rx_native splitbysize rcode1 resp1 pos1 i1 w1))
      else (Some (PM3_SUCCESS, rcode, resp, pos, i), w))"
  by pat_completeness auto
termination
proof (relation "measure (\<lambda>(splitbysize, rcode, resp, pos, i, w). length (replies w))", goal_cases)
  case 1
  show ?case by simp
next
  case (2 splitbysize rcode resp pos i w p x w1 r1 rcode1 buflen resp1 i1 pos1)
  then have "length (replies w1) < length (replies w)"
    by (metis DESFIRESendRaw_consumes)
  then show ?case by simp
qed

definition DesfireExchangeNative :: "env \<Rightarrow> bool \<Rightarrow> u8 \<Rightarrow> bytes \<Rightarrow> nat \<Rightarrow> bytes \<Rightarrow> bool \<Rightarrow> nat \<Rightarrow> world \<Rightarrow> exch_result option \<times> world" where
  "DesfireExchangeNative e activate_field cmd data datalen resp enable_chaining splitbysize w =
     (let cdata = cmd # take datalen data;
          cdatalen = datalen + 1;
          (x, w1) = tx_native (DESFIRE_TX_FRAME_MAX_LEN e) activate_field cdata cdatalen 0
                      \<lparr>rr_res = PM3_SUCCESS, rr_result = [], rr_result_len = 0, rr_respcode = 0xFF\<rparr> w
      in case x of
           None \<Rightarrow> (None, w1)
         | Some r \<Rightarrow>
             if rr_res r \<noteq> PM3_SUCCESS
             then (Some \<lparr>er_res = rr_res r, er_respcode = 0xFF, er_resp = resp, er_resplen = 0\<rparr>, w1)
             else
               (let buflen = rr_result_len r;
                    rcode = rr_respcode r;
                    resp1 = (if splitbysize \<noteq> 0
                             then memcpy_at (memcpy_at resp 0 [ucast buflen] 1) 1 (rr_result r) (unat buflen)
                             else memcpy_at resp 0 (rr_result r) (unat buflen));
                    pos = 0 + buflen
                in if \<not> enable_chaining
                   then (Some \<lparr>er_res = PM3_SUCCESS, er_respcode = rcode, er_resp = resp1,
                                er_resplen = (if rcode = MFDES_S_OPERATION_OK \<or> rcode = MFDES_ADDITIONAL_FRAME
                                              then unat pos else 0)\<rparr>, w1)
                   else
                     (case rx_native splitbysize rcode resp1 pos 1 w1 of
                        (None, w2) \<Rightarrow> (None, w2)
                      | (Some (res2, rcode2, resp2, pos2, i2), w2) \<Rightarrow>
                          if res2 \<noteq> PM3_SUCCESS
                          then (Some \<lparr>er_res = res2, er_respcode = rcode2, er_resp = resp2,
                                       er_resplen = 0\<rparr>, w2)
                          else (Some \<lparr>er_res = PM3_SUCCESS, er_respcode = rcode2, er_resp = resp2,
                                       er_resplen = (if splitbysize \<noteq> 0 then unat i2 else unat pos2)\<rparr>,
                                w2))))"

subsection \<open>DesfireExchangeISONative\<close>

text \<open>
  The same two loops over APDUs. \<^verbatim>\<open>apdu.Lc\<close> is one byte; \<^verbatim>\<open>apdu.INS\<close>, once set to
  \<^verbatim>\<open>MFDES_ADDITIONAL_FRAME\<close>, stays so. \<^verbatim>\<open>*respcode\<close> is written only for a status word
  \<^verbatim>\<open>0x91xx\<close>.
\<close>

function tx_iso :: "env \<Rightarrow> bool \<Rightarrow> sAPDU \<Rightarrow> bytes \<Rightarrow> nat \<Rightarrow> nat \<Rightarrow> apdu_result \<Rightarrow> world \<Rightarrow> apdu_result \<times> world" where
  "tx_iso e activate_field apdu data datalen sentdatalen r w =
     (if datalen \<ge> sentdatalen then
        (let apdu1 = apdu\<lparr>Lc := (if datalen - sentdatalen > DESFIRE_TX_FRAME_MAX_LEN e
                                 then word_of_nat (DESFIRE_TX_FRAME_MAX_LEN e)
                                 else word_of_nat (datalen - sentdatalen)),
                          apdu_data := drop sentdatalen data\<rparr>;
             apdu2 = (if sentdatalen > 0 then apdu1\<lparr>INS := MFDES_ADDITIONAL_FRAME\<rparr> else apdu1);
             (r1, w1) = DESFIRESendApdu e activate_field apdu2 1275 w
         in if ar_res r1 \<noteq> PM3_SUCCESS then (r1, w1)
            else if ar_sw r1 \<noteq> DESFIRE_GET_ISO_STATUS MFDES_ADDITIONAL_FRAME \<or> ar_result_len r1 > 0
                 then (r1, w1)
            else tx_iso e activate_field apdu2 data datalen (sentdatalen + unat (Lc apdu2)) r1 w1)
      else (r, w))"
  by pat_completeness auto
termination
proof (relation "measure (\<lambda>(e, activate_field, apdu, data, datalen, sentdatalen, r, w). length (replies w))", goal_cases)
  case 1
  show ?case by simp
next
  case (2 e activate_field apdu data datalen sentdatalen r w apdu1 apdu2 x r1 w1)
  then have "length (replies w1) < length (replies w)"
    by (metis DESFIRESendApdu_consumes)
  then show ?case by simp
qed

definition iso_respcode :: "u16 \<Rightarrow> u8 \<Rightarrow> u8" where
  "iso_respcode sw respcode = (if sw AND 0xFF00 = 0x9100 then ucast (sw AND 0xFF) else respcode)"

function rx_iso :: "env \<Rightarrow> nat \<Rightarrow> u16 \<Rightarrow> u8 \<Rightarrow> bytes \<Rightarrow> u32 \<Rightarrow> u32 \<Rightarrow> world \<Rightarrow> (int \<times> u8 \<times> bytes \<times> u32 \<times> u32) \<times> world" where
  "rx_iso e splitbysize sw respcode resp pos i w =
     (if sw = DESFIRE_GET_ISO_STATUS MFDES_ADDITIONAL_FRAME then
        (let apdu = \<lparr>CLA = MFDES_NATIVE_ISO7816_WRAP_CLA, INS = MFDES_ADDITIONAL_FRAME,
                     P1 = 0, P2 = 0, Lc = 0, apdu_data = []\<rparr>;
             (r1, w1) = DESFIRESendApdu e False apdu 1275 w
         in if ar_res r1 \<noteq> PM3_SUCCESS then ((ar_res r1, respcode, resp, pos, i), w1)
            else
              (let sw1 = ar_sw r1;
                   respcode1 = iso_respcode sw1 respcode;
                   buflen = ar_result_len r1;
                   resp1 = (if splitbysize \<noteq> 0
                            then memcpy_at (memcpy_at resp (unat i * splitbysize) [ucast buflen] 1)
                                   (unat i * splitbysize + 1) (ar_result r1) (unat buflen)
                            else memcpy_at resp (unat pos) (ar_result r1) (unat buflen));
                   i1 = (if splitbysize \<noteq> 0 then i + 1 else i);
                   pos1 = pos + buflen
               in if sw1 \<noteq> DESFIRE_GET_ISO_STATUS MFDES_ADDITIONAL_FRAME
                  then ((PM3_SUCCESS, respcode1, resp1, pos1, i1), w1)
                  else rx_iso e splitbysize sw1 respcode1 resp1 pos1 i1 w1))
      else ((PM3_SUCCESS, respcode, resp, pos, i), w))"
  by pat_completeness auto
termination
proof (relation "measure (\<lambda>(e, splitbysize, sw, respcode, resp, pos, i, w). length (replies w))", goal_cases)
  case 1
  show ?case by simp
next
  case (2 e splitbysize sw respcode resp pos i w apdu x r1 w1 sw1 respcode1 buflen resp1 i1 pos1)
  then have "length (replies w1) < length (replies w)"
    by (metis DESFIRESendApdu_consumes)
  then show ?case by simp
qed

definition DesfireExchangeISONative :: "env \<Rightarrow> bool \<Rightarrow> u8 \<Rightarrow> bytes \<Rightarrow> nat \<Rightarrow> bytes \<Rightarrow> bool \<Rightarrow> nat \<Rightarrow> world \<Rightarrow> exch_result \<times> world" where
  "DesfireExchangeISONative e activate_field cmd data datalen resp enable_chaining splitbysize w =
     (let apdu = \<lparr>CLA = MFDES_NATIVE_ISO7816_WRAP_CLA, INS = cmd, P1 = 0, P2 = 0,
                  Lc = word_of_nat datalen, apdu_data = data\<rparr>;
          (r, w1) = tx_iso e activate_field apdu data datalen 0
                      \<lparr>ar_res = PM3_SUCCESS, ar_result = [], ar_result_len = 0, ar_sw = 0\<rparr> w
      in if ar_res r \<noteq> PM3_SUCCESS
         then (\<lparr>er_res = ar_res r, er_respcode = 0xFF, er_resp = resp, er_resplen = 0\<rparr>, w1)
         else
           (let buflen = ar_result_len r;
                sw = ar_sw r;
                respcode = iso_respcode sw 0xFF;
                resp1 = (if splitbysize \<noteq> 0
                         then memcpy_at (memcpy_at resp 0 [ucast buflen] 1) 1 (ar_result r) (unat buflen)
                         else memcpy_at resp 0 (ar_result r) (unat buflen));
                pos = 0 + buflen
            in if \<not> enable_chaining
               then (\<lparr>er_res = PM3_SUCCESS, er_respcode = respcode, er_resp = resp1,
                      er_resplen = (if sw = DESFIRE_GET_ISO_STATUS MFDES_S_OPERATION_OK \<or>
                                       sw = DESFIRE_GET_ISO_STATUS MFDES_ADDITIONAL_FRAME
                                    then unat pos else 0)\<rparr>, w1)
               else
                 (let ((res2, respcode2, resp2, pos2, i2), w2) =
                        rx_iso e splitbysize sw respcode resp1 pos 1 w1
                  in if res2 \<noteq> PM3_SUCCESS
                     then (\<lparr>er_res = res2, er_respcode = respcode2, er_resp = resp2, er_resplen = 0\<rparr>, w2)
                     else (\<lparr>er_res = PM3_SUCCESS, er_respcode = respcode2, er_resp = resp2,
                            er_resplen = (if splitbysize \<noteq> 0 then unat i2 else unat pos2)\<rparr>, w2))))"

declare tx_native.simps [simp del] rx_native.simps [simp del]
declare tx_iso.simps [simp del] rx_iso.simps [simp del]

subsection \<open>DesfireExchangeEx\<close>

text \<open>
  The out-parameters \<^verbatim>\<open>*respcode\<close>, \<^verbatim>\<open>resp\<close> and \<^verbatim>\<open>*resplen\<close> keep what the caller put
  there when the function returns before writing them, so they are passed in and
  returned. The model is the function at \<^verbatim>\<open>splitbysize = 0\<close>, which is what selecting,
  authenticating and \<^verbatim>\<open>DesfireCommand\<close> pass; the re-packing of split responses is not
  part of it. \<^verbatim>\<open>PrintChannelModeWarning\<close> and \<^verbatim>\<open>DesfirePrintContext\<close> print only. The codec
  gives the bytes it writes, their number being the length it stores. When the exchange
  does not return, nothing is decoded and the history gets no entry.
\<close>

record xout =
  x_respcode :: u8
  x_resp :: bytes
  x_resplen :: nat

definition DesfireExchangeEx :: "env \<Rightarrow> bool \<Rightarrow> DesfireContext \<Rightarrow> u8 \<Rightarrow> bytes \<Rightarrow> nat \<Rightarrow> xout \<Rightarrow> bool \<Rightarrow> world \<Rightarrow> (int \<times> xout \<times> DesfireContext) option \<times> world" where
  "DesfireExchangeEx e activate_field ctx cmd data datalen out enable_chaining w =
     (case cmdSet ctx of
        DCCISO \<Rightarrow> (Some (PM3_EAPDU_FAIL, out, ctx), w)
      | _ \<Rightarrow>
          (let (ctx1, databuf) = DesfireSecureChannelEncode e ctx cmd data datalen;
               (x, w1) = (if cmdSet ctx1 = DCCNative
                          then DesfireExchangeNative e activate_field cmd databuf (length databuf)
                                 databuf enable_chaining 0 w
                          else (case DesfireExchangeISONative e activate_field cmd databuf
                                       (length databuf) databuf enable_chaining 0 w of
                                  (r, w1) \<Rightarrow> (Some r, w1)))
           in case x of
                None \<Rightarrow> (None, w1)
              | Some r \<Rightarrow>
                  (let (ctx2, resp) = DesfireSecureChannelDecode e ctx1 (er_resp r) (er_resplen r)
                                        (er_respcode r)
                   in (Some (er_res r,
                             \<lparr>x_respcode = er_respcode r, x_resp = resp, x_resplen = length resp\<rparr>,
                             ctx2),
                       w1\<lparr>exchanged := exchanged w1 @
                                    [(cmd, take datalen data, er_respcode r, resp)]\<rparr>))))"

subsection \<open>Selecting an application\<close>

text \<open>An AID is an array of three bytes; a null pointer is \<open>None\<close>.\<close>

type_synonym aid_bytes = "u8 \<times> u8 \<times> u8"

definition DesfireAIDUintToByte :: "u32 \<Rightarrow> aid_bytes" where
  "DesfireAIDUintToByte aid =
     (ucast (aid AND 0xFF), ucast (drop_bit 8 aid AND 0xFF), ucast (drop_bit 16 aid AND 0xFF))"

definition aid_data :: "aid_bytes \<Rightarrow> bytes" where
  "aid_data a = (case a of (a0, a1, a2) \<Rightarrow> [a0, a1, a2])"

definition DesfireSelectAID :: "env \<Rightarrow> DesfireContext \<Rightarrow> aid_bytes option \<Rightarrow> aid_bytes option \<Rightarrow> world \<Rightarrow> (int \<times> DesfireContext) option \<times> world" where
  "DesfireSelectAID e ctx aid1 aid2 w =
     (case aid1 of
        None \<Rightarrow> (Some (PM3_EINVARG, ctx), w)
      | Some (a0, a1, a2) \<Rightarrow>
          (let data = [a0, a1, a2] @ (case aid2 of None \<Rightarrow> [0, 0, 0] | Some a \<Rightarrow> aid_data a);
               ctx1 = ctx\<lparr>secureChannel := DACNone\<rparr>
           in case DesfireExchangeEx e True ctx1 MFDES_SELECT_APPLICATION data
                     (if aid2 = None then 3 else 6)
                     \<lparr>x_respcode = 0, x_resp = replicate 257 0, x_resplen = 0\<rparr> True w of
                (None, w1) \<Rightarrow> (None, w1)
              | (Some (res, out, ctx2), w1) \<Rightarrow>
                  if res = PM3_SUCCESS then
                    (if x_resplen out \<noteq> 0 then (Some (PM3_ECARDEXCHANGE, ctx2), w1)
                     else if x_respcode out \<noteq> MFDES_S_OPERATION_OK
                          then (Some (PM3_EAPDU_FAIL, ctx2), w1)
                     else (Some (PM3_SUCCESS,
                                 (DesfireClearSession ctx2)\<lparr>appSelected :=
                                    (a0 \<noteq> 0x00 \<or> a1 \<noteq> 0x00 \<or> a2 \<noteq> 0x00)\<rparr>),
                           w1))
                  else (Some (res, ctx2), w1)))"

definition DesfireSelectAIDHex :: "env \<Rightarrow> DesfireContext \<Rightarrow> u32 \<Rightarrow> bool \<Rightarrow> u32 \<Rightarrow> world \<Rightarrow> (int \<times> DesfireContext) option \<times> world" where
  "DesfireSelectAIDHex e ctx aid1 select_two aid2 w =
     DesfireSelectAID e ctx (Some (DesfireAIDUintToByte aid1))
       (if select_two then Some (DesfireAIDUintToByte aid2) else None) w"


subsection \<open>DesfireCommand and DesfireChangeKeyCmd\<close>

text \<open>
  \<^verbatim>\<open>DesfireCommandEx\<close> at \<^verbatim>\<open>splitbysize = 0\<close>, which is \<^verbatim>\<open>DesfireCommand\<close>. The result holds
  \<^verbatim>\<open>resp\<close> and \<^verbatim>\<open>*resplen\<close>: the length is set to 0 on entry, and \<^verbatim>\<open>resp\<close> keeps the
  caller's bytes unless the command succeeds.
\<close>

definition DesfireCommand :: "env \<Rightarrow> DesfireContext \<Rightarrow> u8 \<Rightarrow> bytes \<Rightarrow> nat \<Rightarrow> bytes \<Rightarrow> int \<Rightarrow> world \<Rightarrow> (int \<times> bytes \<times> nat \<times> DesfireContext) option \<times> world" where
  "DesfireCommand e dctx cmd data datalen resp checklength w =
     (case DesfireExchangeEx e False dctx cmd data datalen
             \<lparr>x_respcode = 0xFF, x_resp = replicate 257 0, x_resplen = 0\<rparr> True w of
        (None, w1) \<Rightarrow> (None, w1)
      | (Some (res, out, dctx1), w1) \<Rightarrow>
          if res \<noteq> PM3_SUCCESS then (Some (res, resp, 0, dctx1), w1)
          else if x_respcode out \<noteq> MFDES_S_OPERATION_OK
               then (Some (PM3_EAPDU_FAIL, resp, 0, dctx1), w1)
          else if checklength \<ge> 0 \<and> int (x_resplen out) \<noteq> checklength
               then (Some (PM3_EAPDU_FAIL, resp, 0, dctx1), w1)
          else (Some (PM3_SUCCESS, memcpy resp (x_resp out) (x_resplen out), x_resplen out, dctx1),
                w1))"

definition DesfireChangeKeyCmd :: "env \<Rightarrow> DesfireContext \<Rightarrow> bytes \<Rightarrow> nat \<Rightarrow> bytes \<Rightarrow> world \<Rightarrow> (int \<times> bytes \<times> nat \<times> DesfireContext) option \<times> world" where
  "DesfireChangeKeyCmd e dctx data len resp w = DesfireCommand e dctx MFDES_CHANGE_KEY data len resp (- 1) w"

subsection \<open>DesfireChangeKey\<close>

text \<open>
  \<^verbatim>\<open>bin_xor(d1, d2, len)\<close> (\<^verbatim>\<open>util.c\<close>, not under src/) is the bytewise exclusive or of
  the spec's \<open>newKey XOR oldKey\<close>, written into \<open>d1\<close>.
\<close>

definition bin_xor :: "bytes \<Rightarrow> bytes \<Rightarrow> nat \<Rightarrow> bytes" where
  "bin_xor d1 d2 len = map2 (XOR) (take len d1) (take len d2) @ drop len d1"

text \<open>
  The first half of \<^verbatim>\<open>DesfireChangeKey\<close>, up to \<^verbatim>\<open>// send command\<close>: it fills
  \<^verbatim>\<open>pckcdata\<close> and counts \<^verbatim>\<open>cdatalen\<close>. \<open>cdata\<close> is \<^verbatim>\<open>&pckcdata[2]\<close>, so a write
  at \<^verbatim>\<open>cdata[i]\<close> is a write at offset \<open>2 + i\<close> of \<open>pckcdata\<close>. \<open>ChangeKey_build\<close> gives
  \<open>pckcdata\<close> and \<open>cdatalen\<close>.
\<close>

definition ChangeKey_okeybuf :: "DesfireCryptoAlgorythm \<Rightarrow> bytes \<Rightarrow> bytes" where
  "ChangeKey_okeybuf oldkeytype oldkey =
     (let okeybuf = memcpy (replicate DESFIRE_MAX_KEY_SIZE 0) oldkey (desfire_get_key_length oldkeytype)
      in if oldkeytype = T_DES then memcpy_at okeybuf 8 oldkey 8 else okeybuf)"

definition ChangeKey_nkeybuf :: "env \<Rightarrow> DesfireCryptoAlgorythm \<Rightarrow> u32 \<Rightarrow> bytes \<Rightarrow> bytes" where
  "ChangeKey_nkeybuf e newkeytype newkeyver newkey =
     (let nkeybuf = memcpy (replicate DESFIRE_MAX_KEY_SIZE 0) newkey (desfire_get_key_length newkeytype);
          nkeybuf1 = (if newkeytype = T_DES then memcpy_at nkeybuf 8 newkey 8 else nkeybuf)
      in if newkeytype \<noteq> T_AES \<and> newkeyver < 0x100
         then DesfireDESKeySetVersion e nkeybuf1 newkeytype (ucast newkeyver) else nkeybuf1)"

definition ChangeKey_nkeylen :: "DesfireCryptoAlgorythm \<Rightarrow> nat" where
  "ChangeKey_nkeylen newkeytype =
     (if newkeytype = T_DES then desfire_get_key_length T_3DES else desfire_get_key_length newkeytype)"

definition ChangeKey_keynodata :: "env \<Rightarrow> bool \<Rightarrow> u8 \<Rightarrow> DesfireCryptoAlgorythm \<Rightarrow> u8" where
  "ChangeKey_keynodata e change_master_key newkeynum newkeytype =
     (let keynodata = newkeynum AND 0x3F
      in if change_master_key
         then keynodata OR push_bit 6 (DesfireKeyAlgoToType e newkeytype AND 0x03)
         else keynodata)"

definition ChangeKey_build :: "env \<Rightarrow> DesfireContext \<Rightarrow> bool \<Rightarrow> u8 \<Rightarrow> DesfireCryptoAlgorythm \<Rightarrow> u32 \<Rightarrow> bytes \<Rightarrow> DesfireCryptoAlgorythm \<Rightarrow> bytes \<Rightarrow> bytes \<times> nat" where
  "ChangeKey_build e dctx change_master_key newkeynum newkeytype newkeyver newkey oldkeytype oldkey =
     (let okeybuf = ChangeKey_okeybuf oldkeytype oldkey;
          nkeybuf = ChangeKey_nkeybuf e newkeytype newkeyver newkey;
          nkeylen = ChangeKey_nkeylen newkeytype;
          keynodata = ChangeKey_keynodata e change_master_key newkeynum newkeytype;
          pckcdata = memcpy (replicate (DESFIRE_MAX_KEY_SIZE + 10) 0) [MFDES_CHANGE_KEY, keynodata] 2;
          pckcdata1 = memcpy_at pckcdata 2 nkeybuf nkeylen;
          pckcdata2 = (if newkeynum = keyNum dctx then pckcdata1
                       else take 2 pckcdata1 @ bin_xor (drop 2 pckcdata1) okeybuf nkeylen);
          cdatalen = nkeylen;
          pckcdata3 = (if newkeytype = T_AES
                       then memcpy_at pckcdata2 (2 + cdatalen) [ucast newkeyver] 1 else pckcdata2);
          cdatalen1 = (if newkeytype = T_AES then cdatalen + 1 else cdatalen)
      in if secureChannel dctx = DACd40 then
           (let pckcdata4 = memcpy_at pckcdata3 (2 + cdatalen1)
                              (iso14443a_crc e (take cdatalen1 (drop 2 pckcdata3))) 2;
                cdatalen2 = cdatalen1 + 2
            in if newkeynum \<noteq> keyNum dctx
               then (memcpy_at pckcdata4 (2 + cdatalen2) (iso14443a_crc e (take nkeylen nkeybuf)) 2,
                     cdatalen2 + 2)
               else (pckcdata4, cdatalen2))
         else
           (let pckcdata4 = memcpy_at pckcdata3 (cdatalen1 + 2)
                              (desfire_crc32 e (take (cdatalen1 + 2) pckcdata3)) 4;
                cdatalen2 = cdatalen1 + 4
            in if newkeynum \<noteq> keyNum dctx
               then (memcpy_at pckcdata4 (2 + cdatalen2) (desfire_crc32 e (take nkeylen nkeybuf)) 4,
                     cdatalen2 + 4)
               else (pckcdata4, cdatalen2)))"

text \<open>
  The second half, from \<^verbatim>\<open>// check response\<close> on, applied to what the command gave:
  \<open>ChangeKey_check\<close>. The command gets the pointer \<^verbatim>\<open>&pckcdata[1]\<close> with the length
  \<open>cdatalen\<close>, which counts the bytes from \<^verbatim>\<open>&pckcdata[2]\<close> on: the bytes designated are
  all of \<open>pckcdata\<close> after the command byte, the length one less than those written.
\<close>

definition ChangeKey_check :: "u8 \<Rightarrow> (int \<times> bytes \<times> nat \<times> DesfireContext) option \<times> world \<Rightarrow> (int \<times> DesfireContext) option \<times> world" where
  "ChangeKey_check newkeynum r =
     (case r of
        (None, w1) \<Rightarrow> (None, w1)
      | (Some (res, resp, resplen, dctx1), w1) \<Rightarrow>
          (let res1 = (if res = 0 \<and> resplen > 0 then - 20 else res);
               dctx2 = (if newkeynum = keyNum dctx1 then DesfireClearSession dctx1 else dctx1)
           in (Some (res1, dctx2), w1)))"

definition DesfireChangeKey :: "env \<Rightarrow> DesfireContext \<Rightarrow> bool \<Rightarrow> u8 \<Rightarrow> DesfireCryptoAlgorythm \<Rightarrow> u32 \<Rightarrow> bytes \<Rightarrow> DesfireCryptoAlgorythm \<Rightarrow> bytes \<Rightarrow> world \<Rightarrow> (int \<times> DesfireContext) option \<times> world" where
  "DesfireChangeKey e dctx change_master_key newkeynum newkeytype newkeyver newkey oldkeytype oldkey w =
     (let (pckcdata, cdatalen) = ChangeKey_build e dctx change_master_key newkeynum newkeytype
                                   newkeyver newkey oldkeytype oldkey
      in ChangeKey_check newkeynum
           (DesfireChangeKeyCmd e dctx (drop 1 pckcdata) cdatalen (replicate 257 0) w))"

text \<open>
  The data of the key-change command in the words of the spec, for comparison with what
  \<open>ChangeKey_build\<close> writes: the command byte and key-number byte, the plaintext (the new
  key, combined with the old key by exclusive or when another key than the authenticated
  one is changed, then the key version for AES), its checksum and, for another key, the
  checksum of the new key. \<open>hdr\<close> says whether the CRC16 of the legacy channel covers the
  command byte and key-number byte too, as the spec has it, or the plaintext alone.
\<close>

definition spec_changekey_plaintext :: "bool \<Rightarrow> bool \<Rightarrow> bytes \<Rightarrow> bytes \<Rightarrow> u8 \<Rightarrow> bytes" where
  "spec_changekey_plaintext same aes nk ok ver =
     (if same then nk else map2 (XOR) nk ok) @ (if aes then [ver] else [])"

definition spec_changekey_data :: "bool \<Rightarrow> env \<Rightarrow> bool \<Rightarrow> bool \<Rightarrow> bool \<Rightarrow> u8 \<Rightarrow> bytes \<Rightarrow> bytes \<Rightarrow> u8 \<Rightarrow> bytes" where
  "spec_changekey_data hdr e d40 same aes keyno nk ok ver =
     (let p = spec_changekey_plaintext same aes nk ok ver
      in [MFDES_CHANGE_KEY, keyno] @ p @
         (if d40 then iso14443a_crc e (if hdr then [MFDES_CHANGE_KEY, keyno] @ p else p)
          else desfire_crc32 e ([MFDES_CHANGE_KEY, keyno] @ p)) @
         (if same then [] else if d40 then iso14443a_crc e nk else desfire_crc32 e nk))"

text \<open>The codec leaves a field of the context alone.\<close>

definition codec_keeps :: "(DesfireContext \<Rightarrow> 'a) \<Rightarrow> env \<Rightarrow> bool" where
  "codec_keeps f e \<longleftrightarrow>
     (\<forall>ctx cmd srcdata srcdatalen.
        f (fst (DesfireSecureChannelEncode e ctx cmd srcdata srcdatalen)) = f ctx) \<and>
     (\<forall>ctx srcdata srcdatalen respcode.
        f (fst (DesfireSecureChannelDecode e ctx srcdata srcdatalen respcode)) = f ctx)"

subsection \<open>DesfireFillFileSettings\<close>

text \<open>
  Modelled from the spec: the structure \<^verbatim>\<open>FileSettingsS\<close> (\<^verbatim>\<open>desfirecore.h\<close>) and the
  readers \<^verbatim>\<open>MemLeToUint2byte\<close>, \<^verbatim>\<open>MemLeToUint3byte\<close> and \<^verbatim>\<open>MemLeToUint4byte\<close>
  (\<^verbatim>\<open>commonutil.c\<close>) are not under src/. The record has the members the source assigns
  (\<open>commMode\<close>, \<open>value\<close> and \<open>keyType\<close> with a suffix); the readers are the
  little-endian values of the spec's \<open>LE16\<close>, \<open>LE24\<close> and \<open>LE32\<close>.
\<close>

record FileSettingsS =
  fileType :: u8
  fileOption :: u8
  fileCommMode :: u8
  commMode_fs :: DesfireCommunicationMode
  additionalAccessRightsEn :: bool
  rawAccessRights :: u16
  rAccess :: u8
  wAccess :: u8
  rwAccess :: u8
  chAccess :: u8
  fileSize :: u32
  lowerLimit :: u32
  upperLimit :: u32
  value_fs :: u32
  limitedCredit :: u8
  recordSize :: u32
  maxRecordCount :: u32
  curRecordCount :: u32
  keyType_fs :: u8
  keyVersion :: u8
  additionalAccessRightsLength :: u8
  additionalAccessRights :: "u16 list"

definition MemLeToUint2byte :: "bytes \<Rightarrow> u16" where
  "MemLeToUint2byte d = foldr (\<lambda>b acc. ucast b OR push_bit 8 acc) (take 2 d) 0"

definition MemLeToUint3byte :: "bytes \<Rightarrow> u32" where
  "MemLeToUint3byte d = foldr (\<lambda>b acc. ucast b OR push_bit 8 acc) (take 3 d) 0"

definition MemLeToUint4byte :: "bytes \<Rightarrow> u32" where
  "MemLeToUint4byte d = foldr (\<lambda>b acc. ucast b OR push_bit 8 acc) (take 4 d) 0"

text \<open>
  The source reads \<^verbatim>\<open>data\<close> at fixed offsets and checks \<^verbatim>\<open>datalen\<close> against 4 only.
  \<open>data\<close> is the bytes that the pointer designates and \<^verbatim>\<open>&data[i]\<close> is \<open>drop i data\<close>.
  \<open>within data n r\<close> is \<open>r\<close> when the first \<open>n\<close> bytes are all there and \<open>None\<close>
  otherwise: a read outside the array.
\<close>

definition within :: "bytes \<Rightarrow> nat \<Rightarrow> 'a \<Rightarrow> 'a option" where
  "within data n r = (if n \<le> length data then Some r else None)"

definition FileSettings_zero :: FileSettingsS where
  "FileSettings_zero =
     \<lparr>fileType = 0, fileOption = 0, fileCommMode = 0, commMode_fs = DCMNone,
      additionalAccessRightsEn = False, rawAccessRights = 0,
      rAccess = 0, wAccess = 0, rwAccess = 0, chAccess = 0,
      fileSize = 0, lowerLimit = 0, upperLimit = 0, value_fs = 0, limitedCredit = 0,
      recordSize = 0, maxRecordCount = 0, curRecordCount = 0,
      keyType_fs = 0, keyVersion = 0,
      additionalAccessRightsLength = 0, additionalAccessRights = []\<rparr>"

text \<open>The part up to the \<^verbatim>\<open>switch\<close>, the \<^verbatim>\<open>switch\<close> (it gives \<open>reclen\<close> too), and the whole.\<close>

definition FillFileSettings_head :: "env \<Rightarrow> bytes \<Rightarrow> FileSettingsS" where
  "FillFileSettings_head e data =
     FileSettings_zero
       \<lparr>fileType := data ! 0,
        fileOption := data ! 1,
        fileCommMode := data ! 1 AND 0x03,
        commMode_fs := DesfireFileCommModeToCommMode e (data ! 1 AND 0x03),
        additionalAccessRightsEn := (data ! 1 AND 0x80 \<noteq> 0),
        rawAccessRights := MemLeToUint2byte (drop 2 data),
        rAccess := drop_bit 4 (data ! 3) AND 0x0F,
        wAccess := data ! 3 AND 0x0F,
        rwAccess := drop_bit 4 (data ! 2) AND 0x0F,
        chAccess := data ! 2 AND 0x0F\<rparr>"

definition FillFileSettings_body :: "FileSettingsS \<Rightarrow> bytes \<Rightarrow> (FileSettingsS \<times> nat) option" where
  "FillFileSettings_body fs data =
     (if fileType fs = 0x00 \<or> fileType fs = 0x01 then
        within data (4 + 3) (fs\<lparr>fileSize := MemLeToUint3byte (drop 4 data)\<rparr>, 4 + 3)
      else if fileType fs = 0x02 then
        within data (16 + 1)
          (fs\<lparr>lowerLimit := MemLeToUint4byte (drop 4 data),
              upperLimit := MemLeToUint4byte (drop 8 data),
              value_fs := MemLeToUint4byte (drop 12 data),
              limitedCredit := data ! 16\<rparr>, 4 + 13)
      else if fileType fs = 0x03 \<or> fileType fs = 0x04 then
        within data (10 + 3)
          (fs\<lparr>recordSize := MemLeToUint3byte (drop 4 data),
              maxRecordCount := MemLeToUint3byte (drop 7 data),
              curRecordCount := MemLeToUint3byte (drop 10 data)\<rparr>, 4 + 9)
      else if fileType fs = 0x05 then
        within data (5 + 1) (fs\<lparr>keyType_fs := data ! 4, keyVersion := data ! 5\<rparr>, 0)
      else Some (fs, 0))"

definition DesfireFillFileSettings :: "env \<Rightarrow> bytes \<Rightarrow> nat \<Rightarrow> FileSettingsS option" where
  "DesfireFillFileSettings e data datalen =
     (if datalen < 4 then Some FileSettings_zero
      else
        do { h \<leftarrow> within data 4 (FillFileSettings_head e data);
             (fs, reclen) \<leftarrow> FillFileSettings_body h data;
             if additionalAccessRightsEn fs \<and> reclen > 0 \<and> datalen > reclen then
               do { n \<leftarrow> within data (reclen + 1) (data ! reclen);
                    if datalen = reclen + unat n * 2 then
                      within data (reclen + 1 + unat n * 2)
                        (fs\<lparr>additionalAccessRightsLength := n,
                            additionalAccessRights :=
                              map (\<lambda>i. MemLeToUint2byte (drop (reclen + 1 + i * 2) data)) [0..<unat n]\<rparr>)
                    else Some fs }
             else Some fs })"

subsection \<open>DesfireAuthenticateEV1\<close>

text \<open>
  \<^verbatim>\<open>rol(data, len)\<close> (\<^verbatim>\<open>util.c\<close>, not under src/) is the spec's left rotation by one
  byte. \<open>RndA_init\<close> is the initialiser of the local \<open>RndA\<close>, the same in both
  functions.
\<close>

definition rol :: "bytes \<Rightarrow> nat \<Rightarrow> bytes" where
  "rol data len = (case take len data of [] \<Rightarrow> data | b # bs \<Rightarrow> bs @ [b] @ drop len data)"

definition RndA_init :: bytes where
  "RndA_init = [0x01, 0x02, 0x03, 0x04, 0x05, 0x06, 0x07, 0x08,
                0x09, 0x10, 0x11, 0x12, 0x13, 0x14, 0x15, 0x16]"

text \<open>
  \<^verbatim>\<open>// Part 1\<close>: the key structure, diversified when the context asks for it. The
  Gallagher branch writes \<^verbatim>\<open>dctx->kdfInputLen\<close>.
\<close>

definition EV1_key :: "env \<Rightarrow> DesfireContext \<Rightarrow> desfire_key \<times> DesfireContext" where
  "EV1_key e dctx =
     (let keybytes = memcpy (replicate 24 0) (key dctx) (desfire_get_key_length (keyType dctx));
          key0 = (case keyType dctx of
                    T_AES \<Rightarrow> Desfire_aes_key_new e keybytes
                  | T_3DES \<Rightarrow> Desfire_3des_key_new_with_version e keybytes
                  | T_DES \<Rightarrow> Desfire_des_key_new e keybytes
                  | T_3K3DES \<Rightarrow> Desfire_3k3des_key_new_with_version e keybytes)
      in if kdfAlgo dctx = MFDES_KDF_ALGO_AN10922
         then (mifare_kdf_an10922 e key0 (kdfInput dctx) (kdfInputLen dctx), dctx)
         else if kdfAlgo dctx = MFDES_KDF_ALGO_GALLAGHER
         then (mifare_kdf_an10922 e key0 (kdfInput dctx) 11, dctx\<lparr>kdfInputLen := 11\<rparr>)
         else (key0, dctx))"

definition EV1_subcommand :: "DesfireSecureChannel \<Rightarrow> DesfireCryptoAlgorythm \<Rightarrow> u8" where
  "EV1_subcommand secure_channel keytype =
     (if secure_channel = DACEV1
      then (if keytype = T_AES then MFDES_AUTHENTICATE_AES else MFDES_AUTHENTICATE_ISO)
      else MFDES_AUTHENTICATE)"

text \<open>
  \<^verbatim>\<open>// Part 3\<close>, first the decryption of \<open>RndB\<close>: the new IV and \<open>RndB\<close>, or \<open>None\<close>
  for \<^verbatim>\<open>return 5\<close>.
\<close>

definition EV1_decrypt_RndB :: "env \<Rightarrow> DesfireSecureChannel \<Rightarrow> DesfireCryptoAlgorythm \<Rightarrow> desfire_key \<Rightarrow> bytes \<Rightarrow> bytes \<Rightarrow> nat \<Rightarrow> (bytes \<times> bytes) option" where
  "EV1_decrypt_RndB e secure_channel keytype k iv encRndB rndlen =
     (case keytype of
        T_AES \<Rightarrow>
          (case mbedtls_aes_setkey_dec e (kdata k) of
             None \<Rightarrow> None
           | Some actx \<Rightarrow> Some (mbedtls_aes_crypt_cbc e actx False rndlen iv encRndB))
      | T_DES \<Rightarrow>
          (let RndB = (if secure_channel = DACd40 then des_decrypt e encRndB (kdata k)
                       else replicate 16 0)
           in if secure_channel = DACEV1 then Some (des_decrypt_cbc e encRndB rndlen (kdata k) iv)
              else Some (iv, RndB))
      | T_3DES \<Rightarrow> Some (tdes_nxp_receive e encRndB rndlen (kdata k) iv 2)
      | T_3K3DES \<Rightarrow> Some (tdes_nxp_receive e encRndB rndlen (kdata k) iv 3))"

text \<open>
  Then \<^verbatim>\<open>// - Encrypt our response\<close>: the new IV, \<open>both\<close> and the local \<open>encRndA\<close>, or
  \<open>None\<close> for \<^verbatim>\<open>return 6\<close>. The loop \<^verbatim>\<open>rotRndB[x] = rotRndB[x] ^ encRndA[x]\<close> over
  \<open>x < rndlen\<close> is \<open>bin_xor\<close>.
\<close>

definition EV1_encrypt_both :: "env \<Rightarrow> DesfireSecureChannel \<Rightarrow> DesfireCryptoAlgorythm \<Rightarrow> desfire_key \<Rightarrow> bytes \<Rightarrow> bytes \<Rightarrow> bytes \<Rightarrow> nat \<Rightarrow> (bytes \<times> bytes \<times> bytes) option" where
  "EV1_encrypt_both e secure_channel keytype k iv RndA rotRndB rndlen =
     (let both = replicate 33 0;
          encRndA = replicate 16 0;
          tmp16 = memcpy_at (memcpy (replicate 16 0) RndA rndlen) rndlen rotRndB rndlen;
          tmp32 = memcpy_at (memcpy (replicate 32 0) RndA rndlen) rndlen rotRndB rndlen
      in if secure_channel = DACd40 then
           (if keytype = T_DES then
              (let encRndA1 = des_decrypt e RndA (kdata k);
                   both1 = memcpy both encRndA1 rndlen;
                   rotRndB1 = bin_xor rotRndB encRndA1 rndlen;
                   encRndB1 = des_decrypt e rotRndB1 (kdata k)
               in Some (iv, memcpy_at both1 rndlen encRndB1 rndlen, encRndA1))
            else if keytype = T_3DES then
              (let encRndA1 = des3_decrypt e RndA (kdata k) 2;
                   both1 = memcpy both encRndA1 rndlen;
                   rotRndB1 = bin_xor rotRndB encRndA1 rndlen;
                   encRndB1 = des3_decrypt e rotRndB1 (kdata k) 2
               in Some (iv, memcpy_at both1 rndlen encRndB1 rndlen, encRndA1))
            else Some (iv, both, encRndA))
         else if secure_channel = DACEV1 \<and> keytype \<noteq> T_AES then
           (if keytype = T_DES then
              (let (IV1, both1) = des_encrypt_cbc e tmp16 16 (kdata k) iv in Some (IV1, both1, encRndA))
            else if keytype = T_3DES then
              (let (IV1, both1) = tdes_nxp_send e tmp16 16 (kdata k) iv 2 in Some (IV1, both1, encRndA))
            else if keytype = T_3K3DES then
              (let (IV1, both1) = tdes_nxp_send e tmp32 32 (kdata k) iv 3 in Some (IV1, both1, encRndA))
            else Some (iv, both, encRndA))
         else if secure_channel = DACEV1 \<and> keytype = T_AES then
           (case mbedtls_aes_setkey_enc e (kdata k) of
              None \<Rightarrow> None
            | Some actx \<Rightarrow>
                (let (IV1, both1) = mbedtls_aes_crypt_cbc e actx True 32 iv tmp32
                 in Some (IV1, both1, encRndA)))
         else Some (iv, both, encRndA))"

text \<open>
  In \<^verbatim>\<open>// Part 4\<close>, the decryption of the card's \<open>RndA'\<close>, in place in \<open>encRndA\<close>: the
  array, or \<open>None\<close> for \<^verbatim>\<open>return 10\<close>.
\<close>

definition EV1_decrypt_RndA :: "env \<Rightarrow> DesfireSecureChannel \<Rightarrow> DesfireCryptoAlgorythm \<Rightarrow> desfire_key \<Rightarrow> bytes \<Rightarrow> bytes \<Rightarrow> nat \<Rightarrow> bytes option" where
  "EV1_decrypt_RndA e secure_channel keytype k iv encRndA rndlen =
     (case keytype of
        T_DES \<Rightarrow>
          (let encRndA1 = (if secure_channel = DACd40 then des_decrypt e encRndA (kdata k) else encRndA)
           in Some (if secure_channel = DACEV1 then snd (des_decrypt_cbc e encRndA1 rndlen (kdata k) iv)
                    else encRndA1))
      | T_3DES \<Rightarrow>
          Some (if secure_channel = DACd40 then des3_decrypt e encRndA (kdata k) 2
                else snd (tdes_nxp_receive e encRndA rndlen (kdata k) iv 2))
      | T_3K3DES \<Rightarrow> Some (snd (tdes_nxp_receive e encRndA rndlen (kdata k) iv 3))
      | T_AES \<Rightarrow>
          (case mbedtls_aes_setkey_dec e (kdata k) of
             None \<Rightarrow> None
           | Some actx \<Rightarrow> Some (snd (mbedtls_aes_crypt_cbc e actx False rndlen iv encRndA))))"

text \<open>
  The function from its second exchange on. \<open>recv_data\<close> is the receive buffer: what an
  exchange returns lies over what was there before. The session key goes into
  \<^verbatim>\<open>dctx->sessionKeyEnc\<close> before the card's \<open>RndA'\<close> is decrypted and compared.
  \<^verbatim>\<open>cmac_generate_subkeys\<close> works on the local \<open>sesskey\<close>, which nothing reads afterwards.
\<close>

definition EV1_finish :: "env \<Rightarrow> DesfireContext \<Rightarrow> DesfireSecureChannel \<Rightarrow> desfire_key \<Rightarrow> bytes \<Rightarrow> bytes \<Rightarrow> bytes \<Rightarrow> bytes \<Rightarrow> bytes \<Rightarrow> nat \<Rightarrow> bytes \<Rightarrow> xout \<Rightarrow> world \<Rightarrow> (int \<times> DesfireContext) option \<times> world" where
  "EV1_finish e dctx1 secure_channel k iv RndA RndB both encRndA rndlen recv_data out w1 =
     (let bothlen = (if keyType dctx1 = T_AES \<or> keyType dctx1 = T_3K3DES then 32 else 16)
      in case DesfireExchangeEx e False dctx1 MFDES_ADDITIONAL_FRAME both bothlen out False w1 of
           (None, w2) \<Rightarrow> (None, w2)
         | (Some (res, out2, dctx2), w2) \<Rightarrow>
         if res \<noteq> PM3_SUCCESS then (Some (7, dctx2), w2)
         else if x_resplen out2 = 0 then (Some (8, dctx2), w2)
         else if x_respcode out2 \<noteq> MFDES_S_OPERATION_OK then (Some (9, dctx2), w2)
         else
           (let recv_data2 = memcpy recv_data (x_resp out2) (x_resplen out2);
                encRndA1 = memcpy encRndA recv_data2 rndlen;
                sesskey = Desfire_session_key_new e RndA RndB k;
                dctx3 = dctx2\<lparr>sessionKeyEnc :=
                          memcpy (sessionKeyEnc dctx2) (kdata sesskey)
                            (desfire_get_key_length (keyType dctx2))\<rparr>
            in case EV1_decrypt_RndA e secure_channel (keyType dctx3) k iv encRndA1 rndlen of
                 None \<Rightarrow> (Some (10, dctx3), w2)
               | Some encRndA2 \<Rightarrow>
                   (let RndA1 = rol RndA rndlen
                    in if take rndlen RndA1 \<noteq> take rndlen encRndA2 then (Some (11, dctx3), w2)
                       else
                         (let dctx4 = (if keyType dctx3 = T_3DES \<and>
                                          take 8 (kdata k) = take 8 (drop 8 (kdata k))
                                       then dctx3\<lparr>sessionKeyEnc :=
                                              memcpy_at (sessionKeyEnc dctx3) 8 (sessionKeyEnc dctx3) 8\<rparr>
                                       else dctx3);
                              dctx5 = dctx4\<lparr>IV := replicate DESFIRE_MAX_KEY_SIZE 0,
                                            secureChannel := secure_channel\<rparr>
                          in (Some (PM3_SUCCESS,
                                    dctx5\<lparr>sessionKeyMAC :=
                                            memcpy (sessionKeyMAC dctx5) (sessionKeyEnc dctx5)
                                              (desfire_get_key_length (keyType dctx5))\<rparr>),
                              w2)))))"

definition DesfireAuthenticateEV1 :: "env \<Rightarrow> DesfireContext \<Rightarrow> DesfireSecureChannel \<Rightarrow> world \<Rightarrow> (int \<times> DesfireContext) option \<times> world" where
  "DesfireAuthenticateEV1 e dctx0 secure_channel w =
     (let dctx = DesfireClearSession dctx0
      in if secure_channel = DACNone then (Some (PM3_SUCCESS, dctx), w)
         else
           (let iv = replicate 16 0;
                RndA = RndA_init;
                (k, dctxk) = EV1_key e dctx;
                subcommand = EV1_subcommand secure_channel (keyType dctxk)
            in case DesfireExchangeEx e False dctxk subcommand [keyNum dctxk] 1
                      \<lparr>x_respcode = 0, x_resp = replicate 256 0, x_resplen = 0\<rparr> False w of
                 (None, w1) \<Rightarrow> (None, w1)
               | (Some (res, out, dctx1), w1) \<Rightarrow>
               if res \<noteq> PM3_SUCCESS then (Some (1, dctx1), w1)
               else if x_resplen out = 0 then (Some (2, dctx1), w1)
               else if x_respcode out \<noteq> MFDES_ADDITIONAL_FRAME then (Some (3, dctx1), w1)
               else if x_resplen out \<noteq>
                         (if keyType dctx1 = T_AES \<or> keyType dctx1 = T_3K3DES then 16 else 8)
                    then (Some (4, dctx1), w1)
               else
                 (let rndlen = x_resplen out;
                      recv_data = memcpy (replicate 256 0) (x_resp out) (x_resplen out);
                      encRndB = memcpy (replicate 16 0) recv_data rndlen
                  in case EV1_decrypt_RndB e secure_channel (keyType dctx1) k iv encRndB rndlen of
                       None \<Rightarrow> (Some (5, dctx1), w1)
                     | Some (IV1, RndB) \<Rightarrow>
                         (let rotRndB = rol (memcpy (replicate 16 0) RndB rndlen) rndlen
                          in case EV1_encrypt_both e secure_channel (keyType dctx1) k IV1 RndA
                                    rotRndB rndlen of
                               None \<Rightarrow> (Some (6, dctx1), w1)
                             | Some (IV2, both, encRndA) \<Rightarrow>
                                 EV1_finish e dctx1 secure_channel k IV2 RndA RndB both encRndA
                                   rndlen recv_data out w1))))"

subsection \<open>DesfireAuthenticateEV2\<close>

text \<open>
  \<open>key\<close> is the pointer \<^verbatim>\<open>dctx->key\<close>, read where it is used. The function from its second
  exchange on comes first. \<open>data\<close> is what \<^verbatim>\<open>aes_decode\<close> leaves in the local array; the
  copy of the response into \<open>encRndA\<close> is never read. The session keys are generated from
  \<open>RndA\<close> as rotated for the comparison.
\<close>

definition EV2_finish :: "env \<Rightarrow> DesfireContext \<Rightarrow> DesfireSecureChannel \<Rightarrow> bool \<Rightarrow> bytes \<Rightarrow> bytes \<Rightarrow> bytes \<Rightarrow> bytes \<Rightarrow> bytes \<Rightarrow> xout \<Rightarrow> world \<Rightarrow> (int \<times> DesfireContext) option \<times> world" where
  "EV2_finish e dctx1 secure_channel firstauth iv RndA RndB both recv_data out w1 =
     (case DesfireExchangeEx e False dctx1 MFDES_ADDITIONAL_FRAME both 32 out False w1 of
        (None, w2) \<Rightarrow> (None, w2)
      | (Some (res, out2, dctx2), w2) \<Rightarrow>
         if res \<noteq> PM3_SUCCESS then (Some (7, dctx2), w2)
         else if x_resplen out2 = 0 then (Some (8, dctx2), w2)
         else if x_respcode out2 \<noteq> MFDES_S_OPERATION_OK then (Some (9, dctx2), w2)
         else
           (case aes_decode e iv (key dctx2)
                   (memcpy recv_data (x_resp out2) (x_resplen out2)) (x_resplen out2) of
              None \<Rightarrow> (Some (10, dctx2), w2)
            | Some (IV1, data) \<Rightarrow>
                (let RndA1 = rol RndA 16;
                     recRndA = (if firstauth then drop 4 data else data)
                 in if take 16 RndA1 \<noteq> take 16 recRndA then (Some (11, dctx2), w2)
                    else
                      (let dctx3 = (if firstauth
                                    then dctx2\<lparr>cmdCntr := 0, TI := memcpy (TI dctx2) data 4\<rparr>
                                    else dctx2);
                           dctx4 = DesfireClearIV dctx3;
                           dctx5 = dctx4\<lparr>sessionKeyEnc :=
                                     DesfireGenSessionKeyEV2 e (key dctx4) RndA1 RndB True
                                       (sessionKeyEnc dctx4)\<rparr>;
                           dctx6 = dctx5\<lparr>sessionKeyMAC :=
                                     DesfireGenSessionKeyEV2 e (key dctx5) RndA1 RndB False
                                       (sessionKeyMAC dctx5)\<rparr>
                       in (Some (PM3_SUCCESS, dctx6\<lparr>secureChannel := secure_channel\<rparr>), w2)))))"

definition DesfireAuthenticateEV2 :: "env \<Rightarrow> DesfireContext \<Rightarrow> DesfireSecureChannel \<Rightarrow> bool \<Rightarrow> world \<Rightarrow> (int \<times> DesfireContext) option \<times> world" where
  "DesfireAuthenticateEV2 e dctx secure_channel firstauth w =
     (let iv = replicate 16 0;
          RndA = RndA_init;
          subcommand = (if firstauth then MFDES_AUTHENTICATE_EV2F else MFDES_AUTHENTICATE_EV2NF);
          cdata = [keyNum dctx, 0x00]
      in case DesfireExchangeEx e False dctx subcommand cdata (if firstauth then 2 else 1)
                \<lparr>x_respcode = 0, x_resp = replicate 256 0, x_resplen = 0\<rparr> False w of
           (None, w1) \<Rightarrow> (None, w1)
         | (Some (res, out, dctx1), w1) \<Rightarrow>
         if res \<noteq> PM3_SUCCESS then (Some (1, dctx1), w1)
         else if x_resplen out = 0 then (Some (2, dctx1), w1)
         else if x_respcode out \<noteq> MFDES_ADDITIONAL_FRAME then (Some (3, dctx1), w1)
         else if x_resplen out \<noteq> 16 then (Some (4, dctx1), w1)
         else
           (let recv_data = memcpy (replicate 256 0) (x_resp out) (x_resplen out);
                encRndB = memcpy (replicate 16 0) recv_data 16
            in case aes_decode e iv (key dctx1) encRndB 16 of
                 None \<Rightarrow> (Some (5, dctx1), w1)
               | Some (IV1, RndB) \<Rightarrow>
                   (let rotRndB = rol (memcpy (replicate 16 0) RndB 16) 16;
                        tmp = memcpy_at (memcpy (replicate 32 0) RndA 16) 16 rotRndB 16
                    in case aes_encode e IV1 (key dctx1) tmp 32 of
                         None \<Rightarrow> (Some (6, dctx1), w1)
                       | Some (IV2, both) \<Rightarrow>
                           EV2_finish e dctx1 secure_channel firstauth IV2 RndA RndB both recv_data
                             out w1)))"

section \<open>A card without secure channel, for the closed instances\<close>

text \<open>
  The closed instances below run the functions on explicit inputs, so they need values
  for what \<open>env\<close> leaves open. The frame limit is 54. The codec passes the payload
  through and leaves the context alone, as for a command sent in plain. The APDU is
  the ISO 7816 short form. The CRC16 is that of ISO/IEC 14443-3 type A (preset
  \<open>0x6363\<close>), the CRC32 the reflected polynomial \<open>0xEDB88320\<close> with preset
  \<open>0xFFFFFFFF\<close> and no final inversion, both low byte first. The instances change
  keys with a key version of \<open>0x100\<close> or more, so the version encoding is never called.
\<close>

definition crc_14443_a_byte :: "u16 \<Rightarrow> u8 \<Rightarrow> u16" where
  "crc_14443_a_byte crc b =
     (let b1 = b XOR ucast (crc AND 0xFF);
          b2 = b1 XOR push_bit 4 b1
      in drop_bit 8 crc XOR push_bit 8 (ucast b2) XOR push_bit 3 (ucast b2) XOR drop_bit 4 (ucast b2))"

definition crc_14443_a :: "bytes \<Rightarrow> bytes" where
  "crc_14443_a xs =
     (let crc = foldl crc_14443_a_byte 0x6363 xs in [ucast (crc AND 0xFF), ucast (drop_bit 8 crc)])"

definition crc32_bit :: "u32 \<Rightarrow> u32" where
  "crc32_bit crc = (if crc AND 1 = 1 then drop_bit 1 crc XOR 0xEDB88320 else drop_bit 1 crc)"

definition crc32_byte :: "u32 \<Rightarrow> u8 \<Rightarrow> u32" where
  "crc32_byte crc v =
     crc32_bit (crc32_bit (crc32_bit (crc32_bit (crc32_bit (crc32_bit (crc32_bit (crc32_bit
       (crc XOR ucast v))))))))"

definition crc32_desfire :: "bytes \<Rightarrow> bytes" where
  "crc32_desfire xs =
     (let crc = foldl crc32_byte 0xFFFFFFFF xs
      in [ucast (crc AND 0xFF), ucast (drop_bit 8 crc AND 0xFF),
          ucast (drop_bit 16 crc AND 0xFF), ucast (drop_bit 24 crc)])"

text \<open>
  The ciphers of the instances are not ciphers: each gives its input back, and a key is
  its bytes. An instance that depends on an encryption says what the card's reply
  decrypts to by giving that as the reply.
\<close>

definition plain_env :: env where
  "plain_env =
     \<lparr>DESFIRE_TX_FRAME_MAX_LEN = 54,
      DesfireSecureChannelEncode = (\<lambda>ctx cmd srcdata srcdatalen. (ctx, take srcdatalen srcdata)),
      DesfireSecureChannelDecode = (\<lambda>ctx srcdata srcdatalen respcode. (ctx, take srcdatalen srcdata)),
      APDUEncodeS = (\<lambda>apdu extended le.
         Some ([CLA apdu, INS apdu, P1 apdu, P2 apdu] @
               (if Lc apdu = 0 then [] else Lc apdu # take (unat (Lc apdu)) (apdu_data apdu)) @
               [0x00])),
      iso14443a_crc = crc_14443_a,
      desfire_crc32 = crc32_desfire,
      DesfireKeyAlgoToType = (\<lambda>t. case t of T_DES \<Rightarrow> 0x00 | T_3DES \<Rightarrow> 0x00 | T_3K3DES \<Rightarrow> 0x01 | T_AES \<Rightarrow> 0x02),
      DesfireDESKeySetVersion = (\<lambda>keybuf keytype version. keybuf),
      DesfireFileCommModeToCommMode = (\<lambda>m. if m = 0x01 then DCMMACed else if m = 0x03 then DCMEncrypted else DCMPlain),
      Desfire_aes_key_new = (\<lambda>k. \<lparr>kdata = k, kother = []\<rparr>),
      Desfire_3des_key_new_with_version = (\<lambda>k. \<lparr>kdata = k, kother = []\<rparr>),
      Desfire_des_key_new = (\<lambda>k. \<lparr>kdata = k, kother = []\<rparr>),
      Desfire_3k3des_key_new_with_version = (\<lambda>k. \<lparr>kdata = k, kother = []\<rparr>),
      mifare_kdf_an10922 = (\<lambda>k input len. k),
      mbedtls_aes_setkey_dec = (\<lambda>k. Some k),
      mbedtls_aes_setkey_enc = (\<lambda>k. Some k),
      mbedtls_aes_crypt_cbc = (\<lambda>actx encrypt len iv input. (iv, take len input)),
      des_decrypt = (\<lambda>input k. take 8 input),
      des_decrypt_cbc = (\<lambda>input len k iv. (iv, take len input)),
      des_encrypt_cbc = (\<lambda>input len k iv. (iv, take len input)),
      des3_decrypt = (\<lambda>input k keymode. take 8 input),
      tdes_nxp_receive = (\<lambda>input len k iv keymode. (iv, take len input)),
      tdes_nxp_send = (\<lambda>input len k iv keymode. (iv, take len input)),
      Desfire_session_key_new = (\<lambda>rnda rndb k. \<lparr>kdata = take 4 rnda @ take 4 rndb @ take 4 rnda @ take 4 rndb @ replicate 8 0, kother = []\<rparr>),
      aes_decode = (\<lambda>iv k input len. Some (iv, take len input)),
      aes_encode = (\<lambda>iv k input len. Some (iv, take len input)),
      DesfireGenSessionKeyEV2 = (\<lambda>k rnda rndb enckey old. take 8 rnda @ take 8 rndb @ drop 16 old)\<rparr>"

text \<open>A context authenticated under EV1 with AES key 0 and session keys that are not zero.\<close>

definition ctx_ev1 :: DesfireContext where
  "ctx_ev1 =
     \<lparr>keyNum = 0, keyType = T_AES, key = replicate 16 0x00 @ replicate 8 0x00,
      kdfAlgo = MFDES_KDF_ALGO_NONE, kdfInputLen = 0, kdfInput = [],
      secureChannel = DACEV1, cmdSet = DCCNative, commMode = DCMPlain, appSelected = True,
      IV = replicate 24 0x00,
      sessionKeyMAC = [0x01, 0x02, 0x03, 0x04] @ replicate 20 0xAA,
      sessionKeyEnc = [0x01, 0x02, 0x03, 0x04] @ replicate 20 0xAA,
      TI = [0x00, 0x00, 0x00, 0x00], cmdCntr = 0\<rparr>"

text \<open>A card whose answers are the given raw replies, each with the result code of success.\<close>

definition card_of :: "bytes list \<Rightarrow> world" where
  "card_of rs = \<lparr>replies = map (Pair PM3_SUCCESS) rs, sent = [], exchanged = []\<rparr>"

text \<open>
  A context authenticated on the legacy channel with 2TDEA key 0, and two 2TDEA keys.
\<close>

definition ctx_d40 :: DesfireContext where
  "ctx_d40 =
     \<lparr>keyNum = 0, keyType = T_3DES, key = replicate 24 0x00,
      kdfAlgo = MFDES_KDF_ALGO_NONE, kdfInputLen = 0, kdfInput = [],
      secureChannel = DACd40, cmdSet = DCCNative, commMode = DCMPlain, appSelected = True,
      IV = replicate 24 0x00,
      sessionKeyMAC = [0x01, 0x02, 0x03, 0x04] @ replicate 20 0xBB,
      sessionKeyEnc = [0x01, 0x02, 0x03, 0x04] @ replicate 20 0xBB,
      TI = [0x00, 0x00, 0x00, 0x00], cmdCntr = 0\<rparr>"

definition key_new16 :: bytes where
  "key_new16 = [0x00, 0x11, 0x22, 0x33, 0x44, 0x55, 0x66, 0x77,
                0x88, 0x99, 0xAA, 0xBB, 0xCC, 0xDD, 0xEE, 0xFF]"

definition key_old16 :: bytes where
  "key_old16 = [0x0F, 0x0F, 0x0F, 0x0F, 0x0F, 0x0F, 0x0F, 0x0F,
                0x0F, 0x0F, 0x0F, 0x0F, 0x0F, 0x0F, 0x0F, 0x0F]"

text \<open>The file settings of the spec's scenario 6.\<close>

definition fs_example :: bytes where
  "fs_example = [0x02, 0x03, 0xEE, 0xEE, 0x10, 0x00, 0x00, 0x00, 0x00, 0x00, 0x00, 0x00,
                 0x10, 0x00, 0x00, 0x00, 0x00]"

text \<open>
  A context authenticated under EV2 with AES key 2, a transaction identifier and a command
  counter that is not zero; the card's \<open>RndB\<close>; \<open>RndA\<close> rotated left by one byte, which
  is what the card has to return.
\<close>

definition ctx_ev2 :: DesfireContext where
  "ctx_ev2 =
     \<lparr>keyNum = 0x02, keyType = T_AES, key = replicate 16 0x00 @ replicate 8 0x00,
      kdfAlgo = MFDES_KDF_ALGO_NONE, kdfInputLen = 0, kdfInput = [],
      secureChannel = DACEV2, cmdSet = DCCNative, commMode = DCMPlain, appSelected = True,
      IV = replicate 24 0x00,
      sessionKeyMAC = [0x01, 0x02, 0x03, 0x04] @ replicate 20 0xCC,
      sessionKeyEnc = [0x01, 0x02, 0x03, 0x04] @ replicate 20 0xCC,
      TI = [0x11, 0x22, 0x33, 0x44], cmdCntr = 5\<rparr>"

definition RndB_card :: bytes where
  "RndB_card = [0xB0, 0xB1, 0xB2, 0xB3, 0xB4, 0xB5, 0xB6, 0xB7,
                0xB8, 0xB9, 0xBA, 0xBB, 0xBC, 0xBD, 0xBE, 0xBF]"

definition RndA_rotated :: bytes where
  "RndA_rotated = [0x02, 0x03, 0x04, 0x05, 0x06, 0x07, 0x08, 0x09,
                   0x10, 0x11, 0x12, 0x13, 0x14, 0x15, 0x16, 0x01]"

text \<open>
  Two cards. Each first answers \<open>0xAF\<close> with \<open>RndB\<close>. The first then answers a first
  EV2 authentication: a transaction identifier, \<open>RndA'\<close> and twelve more bytes. The second
  answers with \<open>RndB\<close> where \<open>RndA'\<close> is due. A raw reply ends with two CRC bytes, which
  the code drops without a look.
\<close>

definition card_ev2_first :: world where
  "card_ev2_first =
     card_of [0xAF # RndB_card @ [0x00, 0x00],
              0x00 # [0xA1, 0xA2, 0xA3, 0xA4] @ RndA_rotated @ replicate 12 0xEE @ [0x00, 0x00]]"

definition card_wrong_RndA :: world where
  "card_wrong_RndA =
     card_of [0xAF # RndB_card @ [0x00, 0x00], 0x00 # RndB_card @ [0x00, 0x00]]"

text \<open>
  A context in the command set \<^verbatim>\<open>DCCISO\<close>, not authenticated: \<^verbatim>\<open>DesfireAuthenticate\<close>
  hands such a context to \<^verbatim>\<open>DesfireAuthenticateEV2\<close> with \<open>firstauth\<close> when the channel
  asked for is \<^verbatim>\<open>DACEV2\<close>.
\<close>

definition ctx_iso :: DesfireContext where
  "ctx_iso = ctx_ev2\<lparr>secureChannel := DACNone, cmdSet := DCCISO\<rparr>"

section \<open>The secure channel of EV2 in the words of the spec\<close>

text \<open>
  Modelled from the spec: the codec of \<^verbatim>\<open>desfiresecurechan.c\<close> is not under src/. The
  spec, for EV2 in any mode: the MAC input of a command is
  \<open>cmd || counterLE || TI || payload\<close>, the MAC is computed under the MAC session key,
  truncated to 8 bytes and appended; the MAC input of a response is
  \<open>status || counterLE || TI || responseData\<close>; the counter (16 bits, little-endian, in
  the MAC input) increments after successful verification; on failure the counter does not
  advance and the session transitions to unauthenticated. In Plain mode the payload passes
  through unchanged in both directions, and EV2 still appends and verifies the MAC. Without
  an EV2 session the codec below passes the payload through and leaves the context alone.
  The encryption of the Enciphered mode is not modelled: the instances are in Plain mode.
  The MAC is a stand-in, as the ciphers of the instances are: four bytes of the key and the
  first four bytes of the input. A response that fails verification is delivered empty.
\<close>

definition spec_counterLE :: "u32 \<Rightarrow> bytes" where
  "spec_counterLE c = [ucast c, ucast (drop_bit 8 c)]"

definition spec_mac8 :: "bytes \<Rightarrow> bytes \<Rightarrow> bytes" where
  "spec_mac8 k msg = take 4 k @ take 4 (msg @ replicate 4 0)"

definition spec_ev2_encode :: "DesfireContext \<Rightarrow> u8 \<Rightarrow> bytes \<Rightarrow> nat \<Rightarrow> DesfireContext \<times> bytes" where
  "spec_ev2_encode ctx cmd srcdata srcdatalen =
     (let payload = take srcdatalen srcdata
      in if secureChannel ctx = DACEV2
         then (ctx, payload @ spec_mac8 (sessionKeyMAC ctx)
                                (cmd # spec_counterLE (cmdCntr ctx) @ TI ctx @ payload))
         else (ctx, payload))"

definition spec_ev2_decode :: "DesfireContext \<Rightarrow> bytes \<Rightarrow> nat \<Rightarrow> u8 \<Rightarrow> DesfireContext \<times> bytes" where
  "spec_ev2_decode ctx srcdata srcdatalen respcode =
     (let src = take srcdatalen srcdata;
          responseData = take (length src - 8) src;
          mac = drop (length src - 8) src
      in if secureChannel ctx = DACEV2
         then (if 8 \<le> length src \<and>
                  mac = spec_mac8 (sessionKeyMAC ctx)
                          (respcode # spec_counterLE (cmdCntr ctx) @ TI ctx @ responseData)
               then (ctx\<lparr>cmdCntr := cmdCntr ctx + 1\<rparr>, responseData)
               else (DesfireClearSession ctx, []))
         else (ctx, src))"

definition ev2_env :: env where
  "ev2_env = plain_env\<lparr>DesfireSecureChannelEncode := spec_ev2_encode,
                       DesfireSecureChannelDecode := spec_ev2_decode\<rparr>"

text \<open>
  Two cards for a non-first authentication in the session of \<open>ctx_ev2\<close> (MAC session key
  \<open>01 02 03 04 \<dots>\<close>, transaction identifier \<open>11 22 33 44\<close>, counter 5). Both answer with
  the MACs that this codec verifies: status, counter 5 and then 6, and the first byte of
  the transaction identifier. The first card returns \<open>RndA'\<close>; the second returns \<open>RndB\<close>
  in its place.
\<close>

definition card_ev2_counted :: world where
  "card_ev2_counted =
     card_of [0xAF # RndB_card @ [0x01, 0x02, 0x03, 0x04, 0xAF, 0x05, 0x00, 0x11] @ [0x00, 0x00],
              0x00 # RndA_rotated @ [0x01, 0x02, 0x03, 0x04, 0x00, 0x06, 0x00, 0x11] @ [0x00, 0x00]]"





section \<open>Properties\<close>

subsection \<open>Replies and 32-bit lengths\<close>

lemma unat_length32:
  "length xs \<le> 1275 \<Longrightarrow> unat (word_of_nat (length xs) :: u32) = length xs"
  by (rule of_nat_inverse [OF refl]) simp

lemma of_nat_length32_0:
  assumes "length xs \<le> 1275"
  shows "(word_of_nat (length xs) :: u32) = 0 \<longleftrightarrow> xs = []"
proof
  assume "(word_of_nat (length xs) :: u32) = 0"
  then have "unat (word_of_nat (length xs) :: u32) = 0" by simp
  then show "xs = []" using unat_length32 [OF assms] by simp
qed simp

lemma short_length32:
  "(word_of_nat (Suc 0) :: u32) - 3 = 0xFFFFFFFE" "(word_of_nat (Suc (Suc 0)) :: u32) - 3 = 0xFFFFFFFF"
  by simp_all

lemma short_unat32:
  "unat ((word_of_nat (Suc 0) :: u32) - 3) = 4294967294"
  "unat ((word_of_nat (Suc (Suc 0)) :: u32) - 3) = 4294967295"
proof -
  have "unat (0xFFFFFFFE :: u32) = 4294967294" "unat (0xFFFFFFFF :: u32) = 4294967295"
    by (simp_all del: word_numeral_alt)
  moreover have "(word_of_nat (Suc 0) :: u32) - 3 = 0xFFFFFFFE"
    "(word_of_nat (Suc (Suc 0)) :: u32) - 3 = 0xFFFFFFFF"
    by simp_all
  ultimately show "unat ((word_of_nat (Suc 0) :: u32) - 3) = 4294967294"
    "unat ((word_of_nat (Suc (Suc 0)) :: u32) - 3) = 4294967295"
    by presburger+
qed

lemma long_length32:
  assumes "3 \<le> n" and "n \<le> 1275"
  shows "(word_of_nat n :: u32) - 3 = word_of_nat (n - 3)"
    and "unat ((word_of_nat n :: u32) - 3) = n - 3"
proof -
  from assms(1) have "(word_of_nat n :: u32) = word_of_nat (n - 3) + 3"
    by (metis le_add_diff_inverse2 of_nat_add of_nat_numeral)
  then show a: "(word_of_nat n :: u32) - 3 = word_of_nat (n - 3)" by simp
  have "n - 3 < 2 ^ LENGTH(32)" using assms(2) by simp
  then have "unat (word_of_nat (n - 3) :: u32) = n - 3" by (rule of_nat_inverse [OF refl])
  with a show "unat ((word_of_nat n :: u32) - 3) = n - 3" by simp
qed


text \<open>What \<^verbatim>\<open>DESFIRESendRaw\<close> gives on a reply that fits the array.\<close>

lemma DESFIRESendRaw_reply:
  assumes "replies w = (res, bs) # rest" and "length bs \<le> 1275"
  shows "DESFIRESendRaw af data w =
     (if res \<noteq> PM3_SUCCESS \<or> bs = []
      then Some \<lparr>rr_res = res, rr_result = bs, rr_result_len = word_of_nat (length bs),
                  rr_respcode = 0xFF\<rparr>
      else if length bs < 3 then None
      else Some \<lparr>rr_res = (if hd bs \<noteq> MFDES_S_OPERATION_OK \<and> hd bs \<noteq> MFDES_S_SIGNATURE \<and>
                              hd bs \<noteq> MFDES_S_ADDITIONAL_FRAME \<and> hd bs \<noteq> MFDES_S_NO_CHANGES
                           then PM3_EAPDU_FAIL else PM3_SUCCESS),
                  rr_result = take (length bs - 3) (tl bs),
                  rr_result_len = word_of_nat (length bs - 3),
                  rr_respcode = hd bs\<rparr>,
      w\<lparr>replies := rest, sent := sent w @ [data]\<rparr>)"
proof (cases bs)
  case Nil
  then show ?thesis using assms
    by (simp add: DESFIRESendRaw_def ExchangeRAW14a_def Let_def)
next
  case (Cons b bs')
  have nz: "(word_of_nat (length bs) :: u32) \<noteq> 0"
    using of_nat_length32_0 [OF assms(2)] Cons by simp
  have t: "take (unat (1275 :: u32)) bs = bs" using assms(2) by simp
  show ?thesis
  proof (cases "length bs < 3")
    case True
    moreover from Cons have "0 < length bs" by simp
    ultimately have "length bs = Suc 0 \<or> length bs = Suc (Suc 0)" by arith
    then have "unat ((word_of_nat (length bs) :: u32) - 3) \<ge> 4294967294"
    proof
      assume "length bs = Suc 0"
      then show ?thesis by (simp only: short_unat32)
    next
      assume "length bs = Suc (Suc 0)"
      then show ?thesis by (simp only: short_unat32)
    qed
    then have "unat (1275 :: u32) < 1 + unat ((word_of_nat (length bs) :: u32) - (1 + 2))"
      by simp
    with True nz t assms(1) Cons show ?thesis
      by (simp add: DESFIRESendRaw_def ExchangeRAW14a_def Let_def
               del: of_nat_Suc length_Cons take_Suc_Cons)
  next
    case False
    then have l: "3 \<le> length bs" by simp
    note ll = long_length32 [OF l assms(2)]
    have "\<not> unat (1275 :: u32) < 1 + unat ((word_of_nat (length bs) :: u32) - (1 + 2))"
      using ll(2) assms(2) by simp
    with False nz t assms(1) Cons ll show ?thesis
      by (simp add: DESFIRESendRaw_def ExchangeRAW14a_def Let_def
               del: of_nat_Suc length_Cons take_Suc_Cons)
  qed
qed

subsection \<open>The status byte of a raw reply\<close>

text \<open>
  For a reply of three bytes or more that fits the array, \<^verbatim>\<open>DESFIRESendRaw\<close> returns
  success exactly when the first byte is \<^verbatim>\<open>OPERATION_OK\<close>, \<^verbatim>\<open>ADDITIONAL_FRAME\<close>,
  \<^verbatim>\<open>SIGNATURE\<close> or \<^verbatim>\<open>NO_CHANGES\<close>, and \<^verbatim>\<open>PM3_EAPDU_FAIL\<close> for every other first byte;
  that byte is stored in \<^verbatim>\<open>*respcode\<close>, and the data returned are the bytes after it
  without the last two.
\<close>

lemma DESFIRESendRaw_status_byte_of_long_reply:
  assumes "replies w = (PM3_SUCCESS, b # bs) # rest" and "2 \<le> length bs" and "length bs < 1275"
  shows "\<exists>r. fst (DESFIRESendRaw af data w) = Some r \<and>
             (rr_res r = PM3_SUCCESS \<longleftrightarrow>
                b = MFDES_S_OPERATION_OK \<or> b = MFDES_S_ADDITIONAL_FRAME \<or>
                b = MFDES_S_SIGNATURE \<or> b = MFDES_S_NO_CHANGES) \<and>
             (rr_res r \<noteq> PM3_SUCCESS \<longrightarrow> rr_res r = PM3_EAPDU_FAIL) \<and>
             rr_respcode r = b \<and>
             rr_result r = take (length bs - 2) bs \<and>
             unat (rr_result_len r) = length bs - 2"
proof -
  have l: "length (b # bs) \<le> 1275" "length bs - 2 < 2 ^ LENGTH(32)" using assms(3) by simp_all
  have u: "unat (word_of_nat (length bs - 2) :: u32) = length bs - 2"
    by (rule of_nat_inverse [OF refl]) (rule l(2))
  show ?thesis
    using assms(2) u by (simp add: DESFIRESendRaw_reply [OF assms(1) l(1)])
qed

text \<open>
  Claim C8 holds for those replies only. A non-empty reply may have one or two bytes: a
  reply that is the status byte \<open>0xAF\<close> alone makes \<^verbatim>\<open>*result_len\<close> \<open>0xFFFFFFFE\<close>, the
  \<^verbatim>\<open>memmove\<close> of that many bytes leaves the array of 1275 bytes, and the function reports
  nothing.
\<close>

theorem DESFIRESendRaw_status_byte_alone:
  "DESFIRESendRaw False [0x60] (card_of [[MFDES_S_ADDITIONAL_FRAME]]) =
     (None, \<lparr>replies = [], sent = [[0x60]], exchanged = []\<rparr>) \<and>
   (word_of_nat (length [MFDES_S_ADDITIONAL_FRAME]) :: u32) - (1 + 2) = 0xFFFFFFFE \<and>
   fst (DESFIRESendRaw False [0x60] (card_of [[MFDES_S_ADDITIONAL_FRAME, 0x12, 0x34]])) =
     Some \<lparr>rr_res = PM3_SUCCESS, rr_result = [], rr_result_len = 0,
            rr_respcode = MFDES_S_ADDITIONAL_FRAME\<rparr>"
proof -
  have r: "replies (card_of [[MFDES_S_ADDITIONAL_FRAME]]) = (PM3_SUCCESS, [MFDES_S_ADDITIONAL_FRAME]) # []"
    "replies (card_of [[MFDES_S_ADDITIONAL_FRAME, 0x12, 0x34]]) =
       (PM3_SUCCESS, [MFDES_S_ADDITIONAL_FRAME, 0x12, 0x34]) # []"
    by (simp_all add: card_of_def)
  show ?thesis
    by (simp add: DESFIRESendRaw_reply [OF r(1)] DESFIRESendRaw_reply [OF r(2)]) (simp add: card_of_def)
qed

subsection \<open>The length of a short raw reply\<close>

text \<open>
  Claim C9 describes the subtraction as it is: for a reply of two bytes
  \<^verbatim>\<open>*result_len -= 1 + 2\<close> gives \<open>0xFFFFFFFF\<close>, and only the empty reply is returned with
  length 0. But no length near \<open>2 ^ 32\<close> is reported: the \<^verbatim>\<open>memmove\<close> that follows takes
  that length as its count and leaves the array, for a reply of two bytes as for one of
  a single byte.
\<close>

theorem DESFIRESendRaw_two_byte_reply:
  "fst (DESFIRESendRaw False [0x60] (card_of [[0x00, 0x12]])) = None \<and>
   (word_of_nat (length [0x00, 0x12 :: u8]) :: u32) - (1 + 2) = 0xFFFFFFFF \<and>
   fst (DESFIRESendRaw False [0x60] (card_of [[0x00]])) = None \<and>
   fst (DESFIRESendRaw False [0x60] (card_of [[]])) =
     Some \<lparr>rr_res = PM3_SUCCESS, rr_result = [], rr_result_len = 0, rr_respcode = 0xFF\<rparr>"
proof -
  have r: "replies (card_of [[0x00, 0x12]]) = (PM3_SUCCESS, [0x00, 0x12]) # []"
    "replies (card_of [[0x00]]) = (PM3_SUCCESS, [0x00]) # []"
    "replies (card_of [[]]) = (PM3_SUCCESS, []) # []"
    by (simp_all add: card_of_def)
  show ?thesis
    by (simp add: DESFIRESendRaw_reply [OF r(1)] DESFIRESendRaw_reply [OF r(2)]
                  DESFIRESendRaw_reply [OF r(3)])
qed

subsection \<open>Closed runs\<close>

lemmas run_simps =
  DesfireExchangeEx_def DesfireExchangeNative_def tx_native.simps rx_native.simps
  DESFIRESendRaw_def ExchangeRAW14a_def memcpy_at_def memcpy_def plain_env_def card_of_def Let_def

subsection \<open>Selecting an application clears the session\<close>





subsection \<open>The settings of a value file\<close>

lemmas fs_simps =
  DesfireFillFileSettings_def FillFileSettings_body_def FillFileSettings_head_def within_def
  FileSettings_zero_def

lemma fs_example_run:
  "DesfireFillFileSettings e fs_example 17 =
     Some \<lparr>fileType = 0x02, fileOption = 0x03, fileCommMode = 0x03,
           commMode_fs = DesfireFileCommModeToCommMode e 0x03,
           additionalAccessRightsEn = False, rawAccessRights = 0xEEEE,
           rAccess = 0x0E, wAccess = 0x0E, rwAccess = 0x0E, chAccess = 0x0E,
           fileSize = 0, lowerLimit = 16, upperLimit = 0, value_fs = 16, limitedCredit = 0,
           recordSize = 0, maxRecordCount = 0, curRecordCount = 0,
           keyType_fs = 0, keyVersion = 0,
           additionalAccessRightsLength = 0, additionalAccessRights = []\<rparr>"
  by (simp add: fs_simps fs_example_def MemLeToUint2byte_def MemLeToUint4byte_def)

text \<open>
  Claim C3, as stated, fails at its own example: the bytes after the prefix are read as
  lower limit, upper limit, value, so \<open>10 00 00 00\<close> is the lower limit 16 and
  \<open>00 00 00 00\<close> the upper limit 0, not lower 0 and upper 16.
\<close>

theorem file_settings_example_counterexample:
  "map_option lowerLimit (DesfireFillFileSettings plain_env fs_example 17) = Some 16 \<and>
   map_option upperLimit (DesfireFillFileSettings plain_env fs_example 17) = Some 0 \<and>
   map_option lowerLimit (DesfireFillFileSettings plain_env fs_example 17) \<noteq> Some 0 \<and>
   map_option upperLimit (DesfireFillFileSettings plain_env fs_example 17) \<noteq> Some 16"
  by (simp add: fs_example_run)

text \<open>
  Claim C3, amended. For every file-settings buffer that is passed with a length of at
  least 4 and holds the 17 bytes of a value file's settings (\<open>fileType\<close> \<open>0x02\<close>),
  \<^verbatim>\<open>DesfireFillFileSettings\<close> decodes the fixed prefix
  \<open>[fileType, option, accessRights_LE16]\<close> and the body as
  \<open>lowerLE32 || upperLE32 || currentLE32 || limitedCreditFlags\<close>, and it does return
  settings when no additional access rights are flagged or the buffer holds a byte more
  than the length passed. In particular
  \<open>02 03 EE EE 10 00 00 00 00 00 00 00 10 00 00 00 00\<close> decodes to type Value, file
  communication mode 3 (enciphered), access \<open>0xEEEE\<close>, lower 16, upper 0, current 16 and
  limited credit 0.
\<close>

theorem file_settings_value_layout:
  "(4 \<le> datalen \<and> 17 \<le> length data \<and> data ! 0 = 0x02 \<longrightarrow>
      (\<forall>fs. DesfireFillFileSettings e data datalen = Some fs \<longrightarrow>
         fileType fs = 0x02 \<and> fileOption fs = data ! 1 \<and>
         fileCommMode fs = data ! 1 AND 0x03 \<and>
         commMode_fs fs = DesfireFileCommModeToCommMode e (data ! 1 AND 0x03) \<and>
         additionalAccessRightsEn fs = (data ! 1 AND 0x80 \<noteq> 0) \<and>
         rawAccessRights fs = MemLeToUint2byte (drop 2 data) \<and>
         lowerLimit fs = MemLeToUint4byte (drop 4 data) \<and>
         upperLimit fs = MemLeToUint4byte (drop 8 data) \<and>
         value_fs fs = MemLeToUint4byte (drop 12 data) \<and>
         limitedCredit fs = data ! 16) \<and>
      (data ! 1 AND 0x80 = 0 \<or> datalen < length data \<longrightarrow>
         DesfireFillFileSettings e data datalen \<noteq> None)) \<and>
   map_option fileType (DesfireFillFileSettings e fs_example 17) = Some 0x02 \<and>
   map_option fileCommMode (DesfireFillFileSettings e fs_example 17) = Some 0x03 \<and>
   map_option rawAccessRights (DesfireFillFileSettings e fs_example 17) = Some 0xEEEE \<and>
   map_option lowerLimit (DesfireFillFileSettings e fs_example 17) = Some 16 \<and>
   map_option upperLimit (DesfireFillFileSettings e fs_example 17) = Some 0 \<and>
   map_option value_fs (DesfireFillFileSettings e fs_example 17) = Some 16 \<and>
   map_option limitedCredit (DesfireFillFileSettings e fs_example 17) = Some 0"
proof -
  have "\<forall>fs. DesfireFillFileSettings e data datalen = Some fs \<longrightarrow>
         fileType fs = 0x02 \<and> fileOption fs = data ! 1 \<and>
         fileCommMode fs = data ! 1 AND 0x03 \<and>
         commMode_fs fs = DesfireFileCommModeToCommMode e (data ! 1 AND 0x03) \<and>
         additionalAccessRightsEn fs = (data ! 1 AND 0x80 \<noteq> 0) \<and>
         rawAccessRights fs = MemLeToUint2byte (drop 2 data) \<and>
         lowerLimit fs = MemLeToUint4byte (drop 4 data) \<and>
         upperLimit fs = MemLeToUint4byte (drop 8 data) \<and>
         value_fs fs = MemLeToUint4byte (drop 12 data) \<and>
         limitedCredit fs = data ! 16"
    if "4 \<le> datalen" "17 \<le> length data" "data ! 0 = 0x02"
    using that by (auto simp: fs_simps split: if_splits bind_splits)
  moreover have "DesfireFillFileSettings e data datalen \<noteq> None"
    if "4 \<le> datalen" "17 \<le> length data" "data ! 0 = 0x02"
       "data ! 1 AND 0x80 = 0 \<or> datalen < length data"
    using that by (auto simp: fs_simps split: if_splits bind_splits)
  ultimately show ?thesis
    by (simp add: fs_example_run)
qed

theorem file_settings_value_layout_witness:
  "4 \<le> (17 :: nat) \<and> 17 \<le> length fs_example \<and> fs_example ! 0 = 0x02 \<and>
   DesfireFillFileSettings plain_env fs_example 17 \<noteq> None \<and>
   lowerLimit (the (DesfireFillFileSettings plain_env fs_example 17)) = 16 \<and>
   upperLimit (the (DesfireFillFileSettings plain_env fs_example 17)) = 0 \<and>
   value_fs (the (DesfireFillFileSettings plain_env fs_example 17)) = 16 \<and>
   commMode_fs (the (DesfireFillFileSettings plain_env fs_example 17)) = DCMEncrypted"
proof -
  have h: "4 \<le> (17 :: nat) \<and> 17 \<le> length fs_example \<and> fs_example ! 0 = 0x02"
    by (simp add: fs_example_def)
  have n: "fs_example ! 1 AND 0x80 = 0"
    by (simp add: fs_example_def)
  have v: "MemLeToUint4byte (drop 4 fs_example) = 16" "MemLeToUint4byte (drop 8 fs_example) = 0"
    "MemLeToUint4byte (drop 12 fs_example) = 16" "fs_example ! Suc 0 AND 0x03 = 0x03"
    by (simp_all add: fs_example_def MemLeToUint4byte_def)
  from file_settings_value_layout [of 17 fs_example plain_env] h n
  have ok: "DesfireFillFileSettings plain_env fs_example 17 \<noteq> None"
    and all: "\<And>fs. DesfireFillFileSettings plain_env fs_example 17 = Some fs \<Longrightarrow>
      commMode_fs fs = DesfireFileCommModeToCommMode plain_env (fs_example ! 1 AND 0x03) \<and>
      lowerLimit fs = MemLeToUint4byte (drop 4 fs_example) \<and>
      upperLimit fs = MemLeToUint4byte (drop 8 fs_example) \<and>
      value_fs fs = MemLeToUint4byte (drop 12 fs_example)"
    by blast+
  from ok obtain fs where fs: "DesfireFillFileSettings plain_env fs_example 17 = Some fs"
    by blast
  have cm: "DesfireFileCommModeToCommMode plain_env 0x03 = DCMEncrypted"
    by (simp add: plain_env_def)
  from all [OF fs] show ?thesis
    using h by (simp add: fs v cm)
qed

subsection \<open>The data of a key change\<close>

lemmas ck_simps =
  ChangeKey_build_def ChangeKey_okeybuf_def ChangeKey_nkeybuf_def ChangeKey_nkeylen_def
  ChangeKey_keynodata_def bin_xor_def memcpy_def memcpy_at_def Let_def

lemma okeybuf_length:
  "desfire_get_key_length oldkeytype \<le> length oldkey \<Longrightarrow>
   length (ChangeKey_okeybuf oldkeytype oldkey) = DESFIRE_MAX_KEY_SIZE"
  by (cases oldkeytype) (simp_all add: ChangeKey_okeybuf_def memcpy_def memcpy_at_def Let_def)

lemma nkeybuf_length:
  "desfire_get_key_length newkeytype \<le> length newkey \<Longrightarrow>
   (\<And>k t v. length (DesfireDESKeySetVersion e k t v) = length k) \<Longrightarrow>
   length (ChangeKey_nkeybuf e newkeytype newkeyver newkey) = DESFIRE_MAX_KEY_SIZE"
  by (cases newkeytype) (simp_all add: ChangeKey_nkeybuf_def memcpy_def memcpy_at_def Let_def)

lemma ChangeKey_build_written:
  assumes crc16: "\<And>xs. length (iso14443a_crc e xs) = 2"
    and crc32: "\<And>xs. length (desfire_crc32 e xs) = 4"
    and nk: "length nkeybuf = DESFIRE_MAX_KEY_SIZE"
    and ok: "length okeybuf = DESFIRE_MAX_KEY_SIZE"
    and nkb: "ChangeKey_nkeybuf e newkeytype newkeyver newkey = nkeybuf"
    and okb: "ChangeKey_okeybuf oldkeytype oldkey = okeybuf"
    and b: "ChangeKey_build e dctx cmk newkeynum newkeytype newkeyver newkey oldkeytype oldkey =
              (pckcdata, cdatalen)"
  shows "take (2 + cdatalen) pckcdata =
           spec_changekey_data False e (secureChannel dctx = DACd40) (newkeynum = keyNum dctx)
             (newkeytype = T_AES) (ChangeKey_keynodata e cmk newkeynum newkeytype)
             (take (ChangeKey_nkeylen newkeytype) nkeybuf)
             (take (ChangeKey_nkeylen newkeytype) okeybuf) (ucast newkeyver)"
  using b nk ok crc16 crc32 unfolding ChangeKey_build_def nkb okb
  by (cases newkeytype)
     (auto simp: Let_def ChangeKey_nkeylen_def spec_changekey_data_def spec_changekey_plaintext_def
                 memcpy_def memcpy_at_def bin_xor_def split: if_splits)

lemma crc_14443_a_length: "length (crc_14443_a xs) = 2"
  by (simp add: crc_14443_a_def Let_def)

lemma crc32_desfire_length: "length (crc32_desfire xs) = 4"
  by (simp add: crc32_desfire_def Let_def)

lemma ChangeKey_build_cdatalen:
  "snd (ChangeKey_build e dctx cmk newkeynum newkeytype newkeyver newkey oldkeytype oldkey) =
     ChangeKey_nkeylen newkeytype + (if newkeytype = T_AES then 1 else 0) +
     (if secureChannel dctx = DACd40 then 2 else 4) * (if newkeynum = keyNum dctx then 1 else 2)"
  by (simp add: ChangeKey_build_def Let_def)

lemma plain_env_simps:
  "DESFIRE_TX_FRAME_MAX_LEN plain_env = 54"
  "DesfireSecureChannelEncode plain_env ctx cmd srcdata srcdatalen = (ctx, take srcdatalen srcdata)"
  "DesfireSecureChannelDecode plain_env ctx srcdata srcdatalen respcode = (ctx, take srcdatalen srcdata)"
  "iso14443a_crc plain_env = crc_14443_a"
  "desfire_crc32 plain_env = crc32_desfire"
  "DesfireDESKeySetVersion plain_env keybuf keytype version = keybuf"
  by (simp_all add: plain_env_def)

lemma key16_bufs:
  "ChangeKey_nkeybuf plain_env T_3DES 0x100 key_new16 = key_new16 @ replicate 8 0"
  "ChangeKey_okeybuf T_3DES key_old16 = key_old16 @ replicate 8 0"
  "ChangeKey_keynodata plain_env False 0x01 T_3DES = 0x01"
  "ChangeKey_nkeylen T_3DES = 16"
  "length key_new16 = 16" "length key_old16 = 16"
  by (simp_all add: ChangeKey_nkeybuf_def ChangeKey_okeybuf_def ChangeKey_keynodata_def
                    ChangeKey_nkeylen_def memcpy_def memcpy_at_def key_new16_def key_old16_def
                    plain_env_simps)

lemma ctx_d40_sel:
  "secureChannel ctx_d40 = DACd40" "keyNum ctx_d40 = 0" "cmdSet ctx_d40 = DCCNative"
  by (simp_all add: ctx_d40_def)

lemma key16_crcs:
  "map2 (XOR) key_new16 key_old16 =
     [0x0F, 0x1E, 0x2D, 0x3C, 0x4B, 0x5A, 0x69, 0x78, 0x87, 0x96, 0xA5, 0xB4, 0xC3, 0xD2, 0xE1, 0xF0]"
  "crc_14443_a [0x0F, 0x1E, 0x2D, 0x3C, 0x4B, 0x5A, 0x69, 0x78,
                0x87, 0x96, 0xA5, 0xB4, 0xC3, 0xD2, 0xE1, 0xF0] = [0xCF, 0x53]"
  "crc_14443_a [0xC4, 0x01, 0x0F, 0x1E, 0x2D, 0x3C, 0x4B, 0x5A, 0x69, 0x78,
                0x87, 0x96, 0xA5, 0xB4, 0xC3, 0xD2, 0xE1, 0xF0] = [0x37, 0x9B]"
  "crc_14443_a key_new16 = [0xCC, 0x69]"
  by (simp_all add: crc_14443_a_def crc_14443_a_byte_def key_new16_def key_old16_def)

lemma ChangeKey_build_buffer:
  assumes crc16: "\<And>xs. length (iso14443a_crc e xs) = 2"
    and crc32: "\<And>xs. length (desfire_crc32 e xs) = 4"
    and nk: "length nkeybuf = DESFIRE_MAX_KEY_SIZE"
    and ok: "length okeybuf = DESFIRE_MAX_KEY_SIZE"
    and nkb: "ChangeKey_nkeybuf e newkeytype newkeyver newkey = nkeybuf"
    and okb: "ChangeKey_okeybuf oldkeytype oldkey = okeybuf"
    and b: "ChangeKey_build e dctx cmk newkeynum newkeytype newkeyver newkey oldkeytype oldkey =
              (pckcdata, cdatalen)"
  shows "length pckcdata = DESFIRE_MAX_KEY_SIZE + 10"
    and "drop (2 + cdatalen) pckcdata = replicate (DESFIRE_MAX_KEY_SIZE + 10 - (2 + cdatalen)) 0"
  using b nk ok crc16 crc32 unfolding ChangeKey_build_def nkb okb
  by (cases newkeytype;
      auto simp: Let_def ChangeKey_nkeylen_def memcpy_def memcpy_at_def bin_xor_def split: if_splits)+

lemma DesfireChangeKey_command:
  assumes "\<And>xs. length (iso14443a_crc e xs) = 2"
    and "\<And>xs. length (desfire_crc32 e xs) = 4"
    and "\<And>k t v. length (DesfireDESKeySetVersion e k t v) = length k"
    and "desfire_get_key_length newkeytype \<le> length newkey"
    and "desfire_get_key_length oldkeytype \<le> length oldkey"
    and D: "D = spec_changekey_data False e (secureChannel dctx = DACd40) (newkeynum = keyNum dctx)
                  (newkeytype = T_AES) (ChangeKey_keynodata e cmk newkeynum newkeytype)
                  (take (ChangeKey_nkeylen newkeytype) (ChangeKey_nkeybuf e newkeytype newkeyver newkey))
                  (take (ChangeKey_nkeylen newkeytype) (ChangeKey_okeybuf oldkeytype oldkey))
                  (ucast newkeyver)"
  shows "2 \<le> length D \<and> length D \<le> DESFIRE_MAX_KEY_SIZE + 10 \<and>
         DesfireChangeKey e dctx cmk newkeynum newkeytype newkeyver newkey oldkeytype oldkey w =
           ChangeKey_check newkeynum
             (DesfireChangeKeyCmd e dctx (tl D @ replicate (DESFIRE_MAX_KEY_SIZE + 10 - length D) 0)
                (length D - 2) (replicate 257 0) w)"
proof -
  obtain pckcdata cdatalen where
    b: "ChangeKey_build e dctx cmk newkeynum newkeytype newkeyver newkey oldkeytype oldkey =
          (pckcdata, cdatalen)"
    by (cases "ChangeKey_build e dctx cmk newkeynum newkeytype newkeyver newkey oldkeytype oldkey")
  note nk = nkeybuf_length [OF assms(4,3)] and ok = okeybuf_length [OF assms(5)]
  have t: "take (2 + cdatalen) pckcdata = D"
    unfolding D by (rule ChangeKey_build_written [OF assms(1,2) nk ok refl refl b])
  have l: "length pckcdata = DESFIRE_MAX_KEY_SIZE + 10"
    and z: "drop (2 + cdatalen) pckcdata = replicate (DESFIRE_MAX_KEY_SIZE + 10 - (2 + cdatalen)) 0"
    by (rule ChangeKey_build_buffer [OF assms(1,2) nk ok refl refl b])+
  have n: "cdatalen \<le> DESFIRE_MAX_KEY_SIZE + 8"
    using ChangeKey_build_cdatalen
            [of e dctx cmk newkeynum newkeytype newkeyver newkey oldkeytype oldkey]
    unfolding b snd_conv
    by (cases newkeytype) (auto simp: ChangeKey_nkeylen_def)
  have len: "length D = 2 + cdatalen"
  proof -
    have "length (take (2 + cdatalen) pckcdata) = 2 + cdatalen"
      using l n by simp
    then show ?thesis by (simp only: t)
  qed
  have "pckcdata = D @ replicate (DESFIRE_MAX_KEY_SIZE + 10 - length D) 0"
    using append_take_drop_id [of "2 + cdatalen" pckcdata] by (simp only: t z len)
  then have "drop 1 pckcdata = tl D @ replicate (DESFIRE_MAX_KEY_SIZE + 10 - length D) 0"
    using len by (cases D) (simp_all add: drop_Suc)
  then show ?thesis
    using len n by (simp add: DesfireChangeKey_def b)
qed

lemma plain_env_lengths:
  "\<And>xs. length (iso14443a_crc plain_env xs) = 2"
  "\<And>xs. length (desfire_crc32 plain_env xs) = 4"
  "\<And>k t v. length (DesfireDESKeySetVersion plain_env k t v) = length k"
  by (simp_all add: plain_env_def crc_14443_a_length crc32_desfire_length)

lemma key16_lengths:
  "desfire_get_key_length T_3DES \<le> length key_new16"
  "desfire_get_key_length T_3DES \<le> length key_old16"
  by (simp_all add: key_new16_def key_old16_def)

lemma ChangeKey_other_key_data:
  "spec_changekey_data False plain_env (secureChannel ctx_d40 = DACd40) (0x01 = keyNum ctx_d40)
     (T_3DES = T_AES) (ChangeKey_keynodata plain_env False 0x01 T_3DES)
     (take (ChangeKey_nkeylen T_3DES) (ChangeKey_nkeybuf plain_env T_3DES 0x100 key_new16))
     (take (ChangeKey_nkeylen T_3DES) (ChangeKey_okeybuf T_3DES key_old16)) (ucast (0x100 :: u32)) =
   [0xC4, 0x01,
    0x0F, 0x1E, 0x2D, 0x3C, 0x4B, 0x5A, 0x69, 0x78, 0x87, 0x96, 0xA5, 0xB4, 0xC3, 0xD2, 0xE1, 0xF0,
    0xCF, 0x53, 0xCC, 0x69]"
  by (simp add: key16_bufs ctx_d40_sel spec_changekey_data_def spec_changekey_plaintext_def
                plain_env_simps key16_crcs)

lemma ChangeKey_other_key_run:
  "DesfireChangeKey plain_env ctx_d40 False 0x01 T_3DES 0x100 key_new16 T_3DES key_old16
     (card_of [[0x00, 0x91, 0x00]]) =
   (Some (PM3_SUCCESS, ctx_d40),
    \<lparr>replies = [],
      sent = [[0xC4, 0x01,
               0x0F, 0x1E, 0x2D, 0x3C, 0x4B, 0x5A, 0x69, 0x78,
               0x87, 0x96, 0xA5, 0xB4, 0xC3, 0xD2, 0xE1, 0xF0, 0xCF, 0x53, 0xCC]],
      exchanged = [(0xC4, [0x01,
               0x0F, 0x1E, 0x2D, 0x3C, 0x4B, 0x5A, 0x69, 0x78,
               0x87, 0x96, 0xA5, 0xB4, 0xC3, 0xD2, 0xE1, 0xF0, 0xCF, 0x53, 0xCC], 0x00, [])]\<rparr>)"
proof -
  note c = DesfireChangeKey_command [OF plain_env_lengths key16_lengths refl, THEN conjunct2,
             THEN conjunct2]
  show ?thesis
    unfolding c ChangeKey_other_key_data
    by (simp add: ChangeKey_check_def DesfireChangeKeyCmd_def DesfireCommand_def run_simps ctx_d40_def)
qed

lemma key16_xor:
  "bin_xor key_new16 key_old16 16 =
     [0x0F, 0x1E, 0x2D, 0x3C, 0x4B, 0x5A, 0x69, 0x78, 0x87, 0x96, 0xA5, 0xB4, 0xC3, 0xD2, 0xE1, 0xF0]"
  by (simp add: bin_xor_def key_new16_def key_old16_def)

text \<open>
  Claim C2, as stated, fails on the legacy channel: there the CRC16 covers the plaintext
  alone. Changing key 1 while authenticated with key 0 on the D40 channel, the plaintext
  begins with the sixteen bytes \<open>0F 1E \<dots> F0\<close> of \<open>newKey XOR oldKey\<close>; the checksum that
  follows them in the frame sent to the card is \<open>CF 53\<close>, the CRC16 of these sixteen bytes,
  and not \<open>37 9B\<close>, the CRC16 of the command byte, key-number byte and plaintext.
\<close>

theorem ChangeKey_crc16_counterexample:
  "secureChannel ctx_d40 = DACd40 \<and> keyNum ctx_d40 = 0x00 \<and>
   map (take 2) (map (drop 18) (sent (snd (DesfireChangeKey plain_env ctx_d40 False 0x01 T_3DES 0x100
     key_new16 T_3DES key_old16 (card_of [[0x00, 0x91, 0x00]]))))) = [[0xCF, 0x53]] \<and>
   map (take 16) (map (drop 2) (sent (snd (DesfireChangeKey plain_env ctx_d40 False 0x01 T_3DES 0x100
     key_new16 T_3DES key_old16 (card_of [[0x00, 0x91, 0x00]]))))) = [bin_xor key_new16 key_old16 16] \<and>
   iso14443a_crc plain_env (bin_xor key_new16 key_old16 16) = [0xCF, 0x53] \<and>
   iso14443a_crc plain_env ([MFDES_CHANGE_KEY, 0x01] @ bin_xor key_new16 key_old16 16) = [0x37, 0x9B]"
  unfolding ChangeKey_other_key_run key16_xor
  by (simp add: ctx_d40_sel plain_env_simps key16_crcs)

text \<open>
  Claim C2, amended. For every \<^verbatim>\<open>DesfireChangeKey\<close> call, with key arrays as long as their
  algorithms' keys: when \<open>newkeynum\<close> differs from the authenticated key number the
  plaintext to encipher is \<open>newKey XOR oldKey\<close>, followed by the new key version byte iff
  the new key type is AES, followed by a checksum, followed by a second checksum over the
  new key alone; when \<open>newkeynum\<close> is the authenticated key number the plaintext is the
  new key, then the version byte for AES, followed by one checksum and no second one. The
  checksum is a CRC16 over the plaintext alone when the secure channel is D40, and
  otherwise a CRC32 over command byte, key-number byte and plaintext. The new key is the
  one prepared in \<open>nkeybuf\<close>: a DES key twice, the key version encoded into a DES or TDEA
  key when it is below \<open>0x100\<close>.

  The statement is about the call of \<^verbatim>\<open>DesfireChangeKeyCmd\<close> that \<^verbatim>\<open>DesfireChangeKey\<close>
  makes: the data \<open>D\<close> are the command byte, the key-number byte and the plaintext to
  encipher; the command is handed the bytes of \<open>D\<close> after the command byte, in a buffer
  that is zero behind them, with a length \<open>n\<close> that reaches the last byte of \<open>D\<close> or the
  byte before it (which of the two is not part of the statement).
\<close>

theorem ChangeKey_plaintext_to_encipher:
  assumes "\<And>xs. length (iso14443a_crc e xs) = 2"
    and "\<And>xs. length (desfire_crc32 e xs) = 4"
    and "\<And>k t v. length (DesfireDESKeySetVersion e k t v) = length k"
    and "desfire_get_key_length newkeytype \<le> length newkey"
    and "desfire_get_key_length oldkeytype \<le> length oldkey"
  shows "\<exists>D n.
           D = spec_changekey_data False e (secureChannel dctx = DACd40) (newkeynum = keyNum dctx)
                 (newkeytype = T_AES) (ChangeKey_keynodata e cmk newkeynum newkeytype)
                 (take (ChangeKey_nkeylen newkeytype) (ChangeKey_nkeybuf e newkeytype newkeyver newkey))
                 (take (ChangeKey_nkeylen newkeytype) (ChangeKey_okeybuf oldkeytype oldkey))
                 (ucast newkeyver) \<and>
           DesfireChangeKey e dctx cmk newkeynum newkeytype newkeyver newkey oldkeytype oldkey w =
             ChangeKey_check newkeynum
               (DesfireChangeKeyCmd e dctx (tl D @ replicate (DESFIRE_MAX_KEY_SIZE + 10 - length D) 0)
                  n (replicate 257 0) w) \<and>
           length D - 2 \<le> n \<and> n < length D"
proof -
  define D where
    "D = spec_changekey_data False e (secureChannel dctx = DACd40) (newkeynum = keyNum dctx)
           (newkeytype = T_AES) (ChangeKey_keynodata e cmk newkeynum newkeytype)
           (take (ChangeKey_nkeylen newkeytype) (ChangeKey_nkeybuf e newkeytype newkeyver newkey))
           (take (ChangeKey_nkeylen newkeytype) (ChangeKey_okeybuf oldkeytype oldkey))
           (ucast newkeyver)"
  from DesfireChangeKey_command [OF assms D_def, where w = w]
  have "length D - 2 \<le> length D - 2 \<and> length D - 2 < length D \<and>
        DesfireChangeKey e dctx cmk newkeynum newkeytype newkeyver newkey oldkeytype oldkey w =
          ChangeKey_check newkeynum
            (DesfireChangeKeyCmd e dctx (tl D @ replicate (DESFIRE_MAX_KEY_SIZE + 10 - length D) 0)
               (length D - 2) (replicate 257 0) w)"
    by auto
  then show ?thesis
    unfolding D_def by blast
qed

theorem ChangeKey_plaintext_to_encipher_witness:
  "\<exists>n. DesfireChangeKey plain_env ctx_d40 False 0x01 T_3DES 0x100 key_new16 T_3DES key_old16
       (card_of [[0x00, 0x91, 0x00]]) =
     ChangeKey_check 0x01
       (DesfireChangeKeyCmd plain_env ctx_d40
          ([0x01] @ bin_xor key_new16 key_old16 16 @
           crc_14443_a (bin_xor key_new16 key_old16 16) @ crc_14443_a key_new16 @ replicate 12 0)
          n (replicate 257 0) (card_of [[0x00, 0x91, 0x00]])) \<and>
     20 \<le> n \<and> n < 22"
proof -
  from ChangeKey_plaintext_to_encipher
         [OF plain_env_lengths key16_lengths, where dctx = ctx_d40 and newkeynum = "0x01"
            and cmk = False and newkeyver = "0x100" and w = "card_of [[0x00, 0x91, 0x00]]"]
  obtain D n where
    D: "D = [0xC4, 0x01, 0x0F, 0x1E, 0x2D, 0x3C, 0x4B, 0x5A, 0x69, 0x78, 0x87, 0x96, 0xA5, 0xB4,
             0xC3, 0xD2, 0xE1, 0xF0, 0xCF, 0x53, 0xCC, 0x69 :: u8]"
    and r: "DesfireChangeKey plain_env ctx_d40 False 0x01 T_3DES 0x100 key_new16 T_3DES key_old16
              (card_of [[0x00, 0x91, 0x00]]) =
            ChangeKey_check 0x01
              (DesfireChangeKeyCmd plain_env ctx_d40 (tl D @ replicate (DESFIRE_MAX_KEY_SIZE + 10 - length D) 0)
                 n (replicate 257 0) (card_of [[0x00, 0x91, 0x00]]))"
    and n: "length D - 2 \<le> n" "n < length D"
    unfolding ChangeKey_other_key_data by blast
  have "20 \<le> n" "n < 22"
    using n unfolding D by simp_all
  moreover have "tl D @ replicate (DESFIRE_MAX_KEY_SIZE + 10 - length D) 0 =
      [0x01] @ bin_xor key_new16 key_old16 16 @
      crc_14443_a (bin_xor key_new16 key_old16 16) @ crc_14443_a key_new16 @ replicate 12 0"
    unfolding D key16_xor key16_crcs by simp
  ultimately show ?thesis
    using r by auto
qed

subsection \<open>Changing the authenticated key clears the session\<close>

lemma DesfireExchangeEx_keeps:
  assumes "codec_keeps f e"
    and "DesfireExchangeEx e af ctx cmd data datalen out ch w = (Some (res, out', ctx'), w')"
  shows "f ctx' = f ctx"
  using assms
  by (auto simp: DesfireExchangeEx_def codec_keeps_def Let_def
           split: DesfireCommandSet.splits prod.splits option.splits)
     (metis fst_conv)+

lemma DesfireChangeKey_same_key:
  assumes "DesfireChangeKey e dctx cmk newkeynum newkeytype newkeyver newkey oldkeytype oldkey w =
             (Some (res, dctx'), w')"
    and "newkeynum = keyNum dctx" and "codec_keeps keyNum e"
  shows "\<exists>c. dctx' = DesfireClearSession c"
  using assms
  by (auto simp: DesfireChangeKey_def ChangeKey_check_def DesfireChangeKeyCmd_def DesfireCommand_def
                 Let_def
           split: prod.splits if_splits option.splits dest: DesfireExchangeEx_keeps)

lemma plain_env_keeps: "codec_keeps f plain_env"
  by (simp add: codec_keeps_def plain_env_def)

lemma ChangeKey_same_key_data:
  "spec_changekey_data False plain_env (secureChannel ctx_d40 = DACd40) (0x00 = keyNum ctx_d40)
     (T_3DES = T_AES) (ChangeKey_keynodata plain_env False 0x00 T_3DES)
     (take (ChangeKey_nkeylen T_3DES) (ChangeKey_nkeybuf plain_env T_3DES 0x100 key_new16))
     (take (ChangeKey_nkeylen T_3DES) (ChangeKey_okeybuf T_3DES key_old16)) (ucast (0x100 :: u32)) =
   [0xC4, 0x00] @ key_new16 @ [0xCC, 0x69]"
  by (simp add: key16_bufs ChangeKey_keynodata_def ctx_d40_sel spec_changekey_data_def
                spec_changekey_plaintext_def plain_env_simps key16_crcs)

lemma ChangeKey_same_key_call:
  "DesfireChangeKey plain_env ctx_d40 False 0x00 T_3DES 0x100 key_new16 T_3DES key_old16 w =
     ChangeKey_check 0x00
       (DesfireChangeKeyCmd plain_env ctx_d40
          ([0x00, 0x00, 0x11, 0x22, 0x33, 0x44, 0x55, 0x66, 0x77,
            0x88, 0x99, 0xAA, 0xBB, 0xCC, 0xDD, 0xEE, 0xFF, 0xCC, 0x69] @ replicate 14 0) 18
          (replicate 257 0) w)"
proof -
  have l: "length ([0xC4, 0x00] @ key_new16 @ [0xCC, 0x69]) = 20"
    by (simp add: key_new16_def)
  show ?thesis
    unfolding DesfireChangeKey_command [OF plain_env_lengths key16_lengths refl, THEN conjunct2,
                THEN conjunct2] ChangeKey_same_key_data l
    by (simp add: key_new16_def)
qed

lemma ChangeKey_ok_run:
  "DesfireChangeKey plain_env ctx_d40 False 0x00 T_3DES 0x100 key_new16 T_3DES key_old16
     (card_of [[0x00, 0x91, 0x00]]) =
   (Some (PM3_SUCCESS, DesfireClearSession ctx_d40),
    \<lparr>replies = [],
      sent = [[0xC4, 0x00, 0x00, 0x11, 0x22, 0x33, 0x44, 0x55, 0x66, 0x77,
               0x88, 0x99, 0xAA, 0xBB, 0xCC, 0xDD, 0xEE, 0xFF, 0xCC]],
      exchanged = [(0xC4, [0x00, 0x00, 0x11, 0x22, 0x33, 0x44, 0x55, 0x66, 0x77,
               0x88, 0x99, 0xAA, 0xBB, 0xCC, 0xDD, 0xEE, 0xFF, 0xCC], 0x00, [])]\<rparr>)"
  unfolding ChangeKey_same_key_call
  by (simp add: ChangeKey_check_def DesfireChangeKeyCmd_def DesfireCommand_def run_simps ctx_d40_def
                DesfireClearSession_def)

lemma ChangeKey_failed_run:
  "map_option fst (fst (DesfireChangeKey plain_env ctx_d40 False 0x00 T_3DES 0x100 key_new16 T_3DES
     key_old16 (card_of [[0x1E, 0x91, 0x1E]]))) = Some PM3_EAPDU_FAIL \<and>
   map_option snd (fst (DesfireChangeKey plain_env ctx_d40 False 0x00 T_3DES 0x100 key_new16 T_3DES
     key_old16 (card_of [[0x1E, 0x91, 0x1E]]))) = Some (DesfireClearSession ctx_d40)"
  unfolding ChangeKey_same_key_call
  by (simp add: ChangeKey_check_def DesfireChangeKeyCmd_def DesfireCommand_def run_simps ctx_d40_def
                DesfireClearSession_def)

lemma ChangeKey_extra_data_run:
  "map_option fst (fst (DesfireChangeKey plain_env ctx_d40 False 0x00 T_3DES 0x100 key_new16 T_3DES
     key_old16 (card_of [[0x00, 0x55, 0x91, 0x00]]))) = Some PM3_EAPDU_FAIL \<and>
   map_option snd (fst (DesfireChangeKey plain_env ctx_d40 False 0x00 T_3DES 0x100 key_new16 T_3DES
     key_old16 (card_of [[0x00, 0x55, 0x91, 0x00]]))) = Some (DesfireClearSession ctx_d40)"
  unfolding ChangeKey_same_key_call
  by (simp add: ChangeKey_check_def DesfireChangeKeyCmd_def DesfireCommand_def run_simps ctx_d40_def
                DesfireClearSession_def)

text \<open>
  Claim C7. For every \<^verbatim>\<open>DesfireChangeKey\<close> call in which \<open>newkeynum\<close> is the key number of
  the session context (and the codec leaves that number alone), successful completion
  leaves the session unauthenticated: it is the cleared session, with both session keys
  zero.
\<close>

theorem ChangeKey_success_clears_session:
  assumes "DesfireChangeKey e dctx cmk newkeynum newkeytype newkeyver newkey oldkeytype oldkey w =
             (Some (PM3_SUCCESS, dctx'), w')"
    and "newkeynum = keyNum dctx" and "codec_keeps keyNum e"
  shows "\<not> DesfireIsAuthenticated dctx' \<and> secureChannel dctx' = DACNone \<and>
         sessionKeyEnc dctx' = replicate DESFIRE_MAX_KEY_SIZE 0 \<and>
         sessionKeyMAC dctx' = replicate DESFIRE_MAX_KEY_SIZE 0"
proof -
  from DesfireChangeKey_same_key [OF assms] obtain c where "dctx' = DesfireClearSession c" ..
  then show ?thesis
    by (simp add: DesfireClearSession_def DesfireIsAuthenticated_def)
qed

theorem ChangeKey_success_clears_session_witness:
  "DesfireIsAuthenticated ctx_d40 \<and>
   map_option fst (fst (DesfireChangeKey plain_env ctx_d40 False 0x00 T_3DES 0x100 key_new16 T_3DES
          key_old16 (card_of [[0x00, 0x91, 0x00]]))) = Some PM3_SUCCESS \<and>
   map_option (DesfireIsAuthenticated \<circ> snd) (fst (DesfireChangeKey plain_env ctx_d40 False 0x00
          T_3DES 0x100 key_new16 T_3DES key_old16 (card_of [[0x00, 0x91, 0x00]]))) = Some False \<and>
   map_option (sessionKeyEnc \<circ> snd) (fst (DesfireChangeKey plain_env ctx_d40 False 0x00
          T_3DES 0x100 key_new16 T_3DES key_old16 (card_of [[0x00, 0x91, 0x00]]))) =
     Some (replicate 24 0)"
proof -
  have k: "0x00 = keyNum ctx_d40" and a: "DesfireIsAuthenticated ctx_d40"
    by (simp_all add: ctx_d40_def DesfireIsAuthenticated_def)
  from ChangeKey_success_clears_session [OF ChangeKey_ok_run k plain_env_keeps] a
  show ?thesis by (simp add: ChangeKey_ok_run)
qed

text \<open>
  Claim C10. Whenever \<open>newkeynum\<close> is the context's key number (and the codec leaves that
  number alone), \<^verbatim>\<open>DesfireChangeKey\<close> clears the session after the exchange whatever the
  result it returns: also when the command fails or returns unexpected data. The session
  is unauthenticated with both session keys zero after any such attempt.
\<close>

theorem ChangeKey_always_clears_session:
  assumes "DesfireChangeKey e dctx cmk newkeynum newkeytype newkeyver newkey oldkeytype oldkey w =
             (Some (res, dctx'), w')"
    and "newkeynum = keyNum dctx" and "codec_keeps keyNum e"
  shows "\<not> DesfireIsAuthenticated dctx' \<and> secureChannel dctx' = DACNone \<and>
         sessionKeyEnc dctx' = replicate DESFIRE_MAX_KEY_SIZE 0 \<and>
         sessionKeyMAC dctx' = replicate DESFIRE_MAX_KEY_SIZE 0"
proof -
  from DesfireChangeKey_same_key [OF assms] obtain c where "dctx' = DesfireClearSession c" ..
  then show ?thesis
    by (simp add: DesfireClearSession_def DesfireIsAuthenticated_def)
qed

theorem ChangeKey_always_clears_session_witness:
  "secureChannel ctx_d40 = DACd40 \<and>
   map_option fst (fst (DesfireChangeKey plain_env ctx_d40 False 0x00 T_3DES 0x100 key_new16 T_3DES
          key_old16 (card_of [[0x1E, 0x91, 0x1E]]))) = Some PM3_EAPDU_FAIL \<and>
   map_option (secureChannel \<circ> snd) (fst (DesfireChangeKey plain_env ctx_d40 False 0x00 T_3DES
          0x100 key_new16 T_3DES key_old16 (card_of [[0x1E, 0x91, 0x1E]]))) = Some DACNone \<and>
   map_option fst (fst (DesfireChangeKey plain_env ctx_d40 False 0x00 T_3DES 0x100 key_new16 T_3DES
          key_old16 (card_of [[0x00, 0x55, 0x91, 0x00]]))) = Some PM3_EAPDU_FAIL \<and>
   map_option (secureChannel \<circ> snd) (fst (DesfireChangeKey plain_env ctx_d40 False 0x00 T_3DES
          0x100 key_new16 T_3DES key_old16 (card_of [[0x00, 0x55, 0x91, 0x00]]))) = Some DACNone"
proof -
  have k: "0x00 = keyNum ctx_d40" and a: "secureChannel ctx_d40 = DACd40"
    by (simp_all add: ctx_d40_def)
  obtain r1 w1 where
    r1: "DesfireChangeKey plain_env ctx_d40 False 0x00 T_3DES 0x100 key_new16 T_3DES key_old16
          (card_of [[0x1E, 0x91, 0x1E]]) = (r1, w1)"
    by (cases "DesfireChangeKey plain_env ctx_d40 False 0x00 T_3DES 0x100 key_new16 T_3DES key_old16
          (card_of [[0x1E, 0x91, 0x1E]])")
  obtain r2 w2 where
    r2: "DesfireChangeKey plain_env ctx_d40 False 0x00 T_3DES 0x100 key_new16 T_3DES key_old16
          (card_of [[0x00, 0x55, 0x91, 0x00]]) = (r2, w2)"
    by (cases "DesfireChangeKey plain_env ctx_d40 False 0x00 T_3DES 0x100 key_new16 T_3DES key_old16
          (card_of [[0x00, 0x55, 0x91, 0x00]])")
  from ChangeKey_failed_run obtain c1 where c1: "r1 = Some (PM3_EAPDU_FAIL, c1)"
    unfolding r1 by (cases r1) auto
  from ChangeKey_extra_data_run obtain c2 where c2: "r2 = Some (PM3_EAPDU_FAIL, c2)"
    unfolding r2 by (cases r2) auto
  from ChangeKey_always_clears_session [OF r1 [unfolded c1] k plain_env_keeps]
       ChangeKey_always_clears_session [OF r2 [unfolded c2] k plain_env_keeps] a
  show ?thesis by (simp add: r1 c1 r2 c2)
qed

subsection \<open>The frames of a native exchange\<close>

text \<open>
  \<^verbatim>\<open>DESFIRESendRaw\<close> hands one frame to the transport. The frames of the loop under
  \<^verbatim>\<open>// tx chaining\<close> after the first start with \<open>0xAF\<close>, written over the last byte
  already sent; so do the frames of the receiving loop.
\<close>

lemma DESFIRESendRaw_sent:
  "sent (snd (DESFIRESendRaw af d w)) = sent w @ [d]"
proof -
  obtain res result w1 where x: "ExchangeRAW14a d af sizeof_buf w = ((res, result), w1)"
    by (metis surj_pair)
  then have "sent w1 = sent w @ [d]"
    by (auto simp: ExchangeRAW14a_def split: list.splits)
  then show ?thesis
    by (simp add: DESFIRESendRaw_def x Let_def split: list.splits)
qed

lemma later_frame:
  assumes "0 < sentdatalen" and "sentdatalen \<le> length cdata"
  shows "take (Suc len) (drop (sentdatalen - 1) (cdata[sentdatalen - 1 := c])) \<noteq> [] \<and>
         hd (take (Suc len) (drop (sentdatalen - 1) (cdata[sentdatalen - 1 := c]))) = c"
proof -
  from assms have i: "sentdatalen - 1 < length cdata" by simp
  then have "drop (sentdatalen - 1) (cdata[sentdatalen - 1 := c]) =
             c # drop (Suc (sentdatalen - 1)) (cdata[sentdatalen - 1 := c])"
    by (metis Cons_nth_drop_Suc length_list_update nth_list_update_eq)
  then show ?thesis by simp
qed

lemma tx_native_later_frames:
  assumes "0 < sentdatalen" and "sentdatalen \<le> cdatalen" and "cdatalen \<le> length cdata"
  shows "\<exists>fs. sent (snd (tx_native maxlen af cdata cdatalen sentdatalen r w)) = sent w @ fs \<and>
              (\<forall>g\<in>set fs. g \<noteq> [] \<and> hd g = MFDES_ADDITIONAL_FRAME)"
  using assms
proof (induction maxlen af cdata cdatalen sentdatalen r w rule: tx_native.induct)
  case (1 maxlen af cdata cdatalen sentdatalen r w)
  define len where "len = (if cdatalen - sentdatalen > maxlen then maxlen else cdatalen - sentdatalen)"
  define cdata1 where "cdata1 = cdata[sentdatalen - 1 := MFDES_ADDITIONAL_FRAME]"
  define frame where "frame = take (Suc len) (drop (sentdatalen - 1) cdata1)"
  obtain x w1 where s: "DESFIRESendRaw af frame w = (x, w1)"
    by (metis surj_pair)
  with DESFIRESendRaw_sent [of af frame w]
  have w1: "sent w1 = sent w @ [frame]" by simp
  from "1.prems" have fr: "frame \<noteq> [] \<and> hd frame = MFDES_ADDITIONAL_FRAME"
    unfolding frame_def cdata1_def by (intro later_frame) simp_all
  have unf: "tx_native maxlen af cdata cdatalen sentdatalen r w =
     (case x of None \<Rightarrow> (None, w1)
      | Some r1 \<Rightarrow>
          if rr_res r1 \<noteq> PM3_SUCCESS then (Some r1, w1)
          else if rr_respcode r1 \<noteq> MFDES_ADDITIONAL_FRAME \<or> rr_result_len r1 > 0 then (Some r1, w1)
          else tx_native maxlen af cdata1 cdatalen (sentdatalen + len) r1 w1)"
  proof -
    from s have "DESFIRESendRaw af
        (take (Suc len) (drop (sentdatalen - Suc 0) (cdata[sentdatalen - Suc 0 := MFDES_ADDITIONAL_FRAME])))
        w = (x, w1)"
      by (simp add: frame_def cdata1_def)
    with "1.prems" show ?thesis
      by (subst tx_native.simps)
         (simp add: Let_def len_def [symmetric] cdata1_def split: option.splits)
  qed
  show ?case
  proof (cases "\<exists>r1. x = Some r1 \<and> rr_res r1 = PM3_SUCCESS \<and>
                \<not> (rr_respcode r1 \<noteq> MFDES_ADDITIONAL_FRAME \<or> rr_result_len r1 > 0)")
    case False
    with unf w1 fr show ?thesis by (cases x) auto
  next
    case True
    then obtain r1 where x: "x = Some r1" and True: "rr_res r1 = PM3_SUCCESS \<and>
                \<not> (rr_respcode r1 \<noteq> MFDES_ADDITIONAL_FRAME \<or> rr_result_len r1 > 0)"
      by blast
    have "\<exists>fs. sent (snd (tx_native maxlen af cdata1 cdatalen (sentdatalen + len) r1 w1)) =
                  sent w1 @ fs \<and> (\<forall>g\<in>set fs. g \<noteq> [] \<and> hd g = MFDES_ADDITIONAL_FRAME)"
    proof (rule "1.IH" [OF _ len_def refl refl _ _ _ x _ _])
      show "sentdatalen \<le> cdatalen" using "1.prems" by simp
      show "cdata1 = (if 0 < sentdatalen then cdata[(if 0 < sentdatalen then sentdatalen - 1 else sentdatalen) := MFDES_ADDITIONAL_FRAME] else cdata)"
        using "1.prems" by (simp add: cdata1_def)
      show "(x, w1) = DESFIRESendRaw af
              (take (if 0 < sentdatalen then len + 1 else len)
                 (drop (if 0 < sentdatalen then sentdatalen - 1 else sentdatalen) cdata1)) w"
        using "1.prems" s by (simp add: frame_def)
      show "(x, w1) = (x, w1)" ..
      show "\<not> rr_res r1 \<noteq> PM3_SUCCESS" using True by simp
      show "\<not> (rr_respcode r1 \<noteq> MFDES_ADDITIONAL_FRAME \<or> 0 < rr_result_len r1)" using True by simp
      show "0 < sentdatalen + len" using "1.prems" by simp
      show "sentdatalen + len \<le> cdatalen" using "1.prems" by (auto simp: len_def)
      show "cdatalen \<le> length cdata1" using "1.prems" by (simp add: cdata1_def)
    qed
    then obtain fs where
      fs: "sent (snd (tx_native maxlen af cdata1 cdatalen (sentdatalen + len) r1 w1)) = sent w1 @ fs"
        "\<forall>g\<in>set fs. g \<noteq> [] \<and> hd g = MFDES_ADDITIONAL_FRAME"
      by blast
    with True unf w1 x have "sent (snd (tx_native maxlen af cdata cdatalen sentdatalen r w)) =
        sent w @ (frame # fs)"
      by simp
    with fs(2) fr show ?thesis by (intro exI [of _ "frame # fs"]) simp
  qed
qed


lemma rx_native_frames:
  "\<exists>fs. sent (snd (rx_native splitbysize rcode resp pos i w)) = sent w @ fs \<and>
        (\<forall>g\<in>set fs. g = [MFDES_ADDITIONAL_FRAME])"
proof (induction splitbysize rcode resp pos i w rule: rx_native.induct)
  case (1 splitbysize rcode resp pos i w)
  obtain x w1 where s: "DESFIRESendRaw False [MFDES_ADDITIONAL_FRAME] w = (x, w1)"
    by (metis surj_pair)
  with DESFIRESendRaw_sent [of False "[MFDES_ADDITIONAL_FRAME]" w]
  have w1: "sent w1 = sent w @ [[MFDES_ADDITIONAL_FRAME]]" by simp
  show ?case
  proof (cases "\<exists>r1. x = Some r1 \<and> rcode = MFDES_ADDITIONAL_FRAME \<and> rr_res r1 = PM3_SUCCESS \<and>
                rr_respcode r1 = MFDES_ADDITIONAL_FRAME")
    case True
    then obtain r1 where x: "x = Some r1" and True: "rcode = MFDES_ADDITIONAL_FRAME \<and>
        rr_res r1 = PM3_SUCCESS \<and> rr_respcode r1 = MFDES_ADDITIONAL_FRAME"
      by blast
    from "1.IH" [OF _ s [symmetric] refl x _ refl refl refl refl refl] True
    obtain fs where "sent (snd (rx_native splitbysize (rr_respcode r1)
        (if splitbysize \<noteq> 0
         then memcpy_at (memcpy_at resp (unat i * splitbysize) [ucast (rr_result_len r1)] 1)
                (unat i * splitbysize + 1) (rr_result r1) (unat (rr_result_len r1))
         else memcpy_at resp (unat pos) (rr_result r1) (unat (rr_result_len r1)))
        (pos + rr_result_len r1) (if splitbysize \<noteq> 0 then i + 1 else i) w1)) = sent w1 @ fs"
      and "\<forall>g\<in>set fs. g = [MFDES_ADDITIONAL_FRAME]"
      by auto
    with True w1 x show ?thesis
      by (subst rx_native.simps) (simp add: Let_def s)
  next
    case False
    with w1 show ?thesis
      by (subst rx_native.simps) (cases x; auto simp add: Let_def s)
  qed
qed

lemma first_frame:
  assumes "0 < maxlen" and "datalen \<le> length data"
  shows "take (if maxlen < Suc datalen then maxlen else Suc datalen) (cmd # take datalen data) =
         cmd # take (min (maxlen - 1) datalen) data"
  using assms by (cases maxlen) (auto simp: min_def)

lemma tx_native_frames:
  assumes "0 < maxlen" and "datalen \<le> length data"
  shows "\<exists>fs. sent (snd (tx_native maxlen af (cmd # take datalen data) (Suc datalen) 0 r w)) =
               sent w @ (cmd # take (min (maxlen - 1) datalen) data) # fs \<and>
              (\<forall>g\<in>set fs. g \<noteq> [] \<and> hd g = MFDES_ADDITIONAL_FRAME)"
proof -
  let ?cdata = "cmd # take datalen data"
  let ?frame = "cmd # take (min (maxlen - 1) datalen) data"
  define len where "len = (if maxlen < Suc datalen then maxlen else Suc datalen)"
  have fr: "take len ?cdata = ?frame"
    unfolding len_def by (rule first_frame [OF assms])
  obtain x w1 where s: "DESFIRESendRaw af (take len ?cdata) w = (x, w1)"
    by (metis surj_pair)
  with DESFIRESendRaw_sent [of af "take len ?cdata" w] fr
  have w1: "sent w1 = sent w @ [?frame]" by simp
  have unf: "tx_native maxlen af ?cdata (Suc datalen) 0 r w =
     (case x of None \<Rightarrow> (None, w1)
      | Some r1 \<Rightarrow>
          if rr_res r1 \<noteq> PM3_SUCCESS then (Some r1, w1)
          else if rr_respcode r1 \<noteq> MFDES_ADDITIONAL_FRAME \<or> rr_result_len r1 > 0 then (Some r1, w1)
          else tx_native maxlen af ?cdata (Suc datalen) len r1 w1)"
  proof (cases "maxlen < Suc datalen")
    case True
    with s show ?thesis
      by (subst tx_native.simps) (simp add: Let_def len_def split: option.splits)
  next
    case False
    with s show ?thesis
      by (subst tx_native.simps) (simp add: Let_def len_def split: option.splits)
  qed
  show ?thesis
  proof (cases "\<exists>r1. x = Some r1 \<and> rr_res r1 = PM3_SUCCESS \<and>
                \<not> (rr_respcode r1 \<noteq> MFDES_ADDITIONAL_FRAME \<or> rr_result_len r1 > 0)")
    case False
    with unf w1 show ?thesis by (cases x) auto
  next
    case True
    then obtain r1 where x: "x = Some r1" and True: "rr_res r1 = PM3_SUCCESS \<and>
                \<not> (rr_respcode r1 \<noteq> MFDES_ADDITIONAL_FRAME \<or> rr_result_len r1 > 0)"
      by blast
    have "\<exists>fs. sent (snd (tx_native maxlen af ?cdata (Suc datalen) len r1 w1)) = sent w1 @ fs \<and>
              (\<forall>g\<in>set fs. g \<noteq> [] \<and> hd g = MFDES_ADDITIONAL_FRAME)"
      using assms by (intro tx_native_later_frames) (auto simp: len_def)
    then obtain fs where
      "sent (snd (tx_native maxlen af ?cdata (Suc datalen) len r1 w1)) = sent w1 @ fs"
      "\<forall>g\<in>set fs. g \<noteq> [] \<and> hd g = MFDES_ADDITIONAL_FRAME"
      by blast
    with True unf w1 x show ?thesis by simp
  qed
qed

lemma DesfireExchangeNative_frames:
  assumes "0 < DESFIRE_TX_FRAME_MAX_LEN e" and "datalen \<le> length data"
  shows "\<exists>fs. sent (snd (DesfireExchangeNative e af cmd data datalen resp ch sp w)) =
               sent w @ (cmd # take (min (DESFIRE_TX_FRAME_MAX_LEN e - 1) datalen) data) # fs \<and>
              (\<forall>g\<in>set fs. g \<noteq> [] \<and> hd g = MFDES_ADDITIONAL_FRAME)"
proof -
  let ?r0 = "\<lparr>rr_res = PM3_SUCCESS, rr_result = [], rr_result_len = 0, rr_respcode = 0xFF\<rparr>"
  let ?frame = "cmd # take (min (DESFIRE_TX_FRAME_MAX_LEN e - 1) datalen) data"
  obtain x w1 where t: "tx_native (DESFIRE_TX_FRAME_MAX_LEN e) af (cmd # take datalen data)
                          (Suc datalen) 0 ?r0 w = (x, w1)"
    by (metis surj_pair)
  with tx_native_frames [OF assms, of af cmd ?r0 w] obtain fs where
    fs: "sent w1 = sent w @ ?frame # fs" "\<forall>g\<in>set fs. g \<noteq> [] \<and> hd g = MFDES_ADDITIONAL_FRAME"
    by auto
  have rx: "\<exists>gs. sent w2 = sent w @ ?frame # gs \<and> (\<forall>g\<in>set gs. g \<noteq> [] \<and> hd g = MFDES_ADDITIONAL_FRAME)"
    if "rx_native sp rc rs ps 1 w1 = (y, w2)" for rc rs ps y w2
  proof -
    from rx_native_frames [of sp rc rs ps 1 w1] that obtain hs where
      "sent w2 = sent w1 @ hs" "\<forall>g\<in>set hs. g = [MFDES_ADDITIONAL_FRAME]"
      by auto
    with fs show ?thesis by (intro exI [of _ "fs @ hs"]) auto
  qed
  show ?thesis
  proof (cases "\<exists>r. x = Some r \<and> rr_res r = PM3_SUCCESS \<and> ch")
    case False
    with fs show ?thesis
      by (cases x) (auto simp: DesfireExchangeNative_def t Let_def)
  next
    case True
    then obtain r where x: "x = Some r" and True: "rr_res r = PM3_SUCCESS \<and> ch"
      by blast
    obtain y w2 where
      r: "rx_native sp (rr_respcode r)
            (if sp \<noteq> 0
             then memcpy_at (memcpy_at resp 0 [ucast (rr_result_len r)] 1) 1 (rr_result r)
                    (unat (rr_result_len r))
             else memcpy_at resp 0 (rr_result r) (unat (rr_result_len r)))
            (0 + rr_result_len r) 1 w1 = (y, w2)"
      by (metis surj_pair)
    from rx [OF r] True r x show ?thesis
      by (cases y) (auto simp: DesfireExchangeNative_def t Let_def split: prod.splits)
  qed
qed


lemma second_frame:
  assumes "0 < m" and "m \<le> datalen" and "datalen \<le> length data"
  shows "take (Suc (Suc datalen - m)) (drop (m - 1) ((cmd # take datalen data)[m - 1 := c])) =
         c # drop (m - 1) (take datalen data)"
proof -
  let ?cdata = "cmd # take datalen data"
  from assms have i: "m - 1 < length ?cdata" by simp
  then have "drop (m - 1) (?cdata[m - 1 := c]) = c # drop (Suc (m - 1)) (?cdata[m - 1 := c])"
    by (metis Cons_nth_drop_Suc length_list_update nth_list_update_eq)
  also have "drop (Suc (m - 1)) (?cdata[m - 1 := c]) = drop (Suc (m - 1)) ?cdata"
    by (rule drop_update_cancel) simp
  also have "\<dots> = drop (m - 1) (take datalen data)"
    by simp
  finally show ?thesis using assms by simp
qed

lemma rx_native_stops:
  "rcode \<noteq> MFDES_ADDITIONAL_FRAME \<Longrightarrow>
   rx_native splitbysize rcode resp pos i w = (Some (PM3_SUCCESS, rcode, resp, pos, i), w)"
  by (subst rx_native.simps) simp

text \<open>
  The answer to the last frame: when it starts with \<open>0x00\<close>, the call either gives this
  status or, the answer being shorter than three bytes, does not return; the frame has
  been sent in both cases.
\<close>

lemma DESFIRESendRaw_answered:
  assumes "replies w = (PM3_SUCCESS, bs) # rest" and "bs \<noteq> []" and "hd bs = MFDES_S_OPERATION_OK"
    and "length bs \<le> 1275"
  shows "\<exists>x. DESFIRESendRaw af d w = (x, w\<lparr>replies := rest, sent := sent w @ [d]\<rparr>) \<and>
             (\<forall>r. x = Some r \<longrightarrow> rr_res r = PM3_SUCCESS \<and> rr_respcode r = MFDES_S_OPERATION_OK)"
  using assms(2,3) by (simp add: DESFIRESendRaw_reply [OF assms(1,4)])

lemma tx_native_one_frame:
  assumes "replies w = (PM3_SUCCESS, bs) # rest" and "bs \<noteq> []" and "hd bs = MFDES_S_OPERATION_OK"
    and "length bs \<le> 1275" and "Suc datalen \<le> maxlen"
  shows "\<exists>x. tx_native maxlen af (cmd # take datalen data) (Suc datalen) 0 r w =
               (x, w\<lparr>replies := rest, sent := sent w @ [cmd # take datalen data]\<rparr>) \<and>
             (\<forall>r. x = Some r \<longrightarrow> rr_res r = PM3_SUCCESS \<and> rr_respcode r = MFDES_S_OPERATION_OK)"
proof -
  from DESFIRESendRaw_answered [OF assms(1-4), of af "cmd # take datalen data"]
  obtain x where
    x: "DESFIRESendRaw af (cmd # take datalen data) w =
          (x, w\<lparr>replies := rest, sent := sent w @ [cmd # take datalen data]\<rparr>)"
    and r: "\<forall>r. x = Some r \<longrightarrow> rr_res r = PM3_SUCCESS \<and> rr_respcode r = MFDES_S_OPERATION_OK"
    by blast
  from assms(5) r show ?thesis
    by (subst tx_native.simps) (cases x; simp add: Let_def x)
qed

lemma native_one_frame:
  assumes "replies w = (PM3_SUCCESS, bs) # rest" and "bs \<noteq> []" and "hd bs = MFDES_S_OPERATION_OK"
    and "length bs \<le> 1275" and "Suc datalen \<le> DESFIRE_TX_FRAME_MAX_LEN e"
  shows "sent (snd (DesfireExchangeNative e af cmd data datalen resp ch sp w)) =
           sent w @ [cmd # take datalen data]"
proof -
  let ?r0 = "\<lparr>rr_res = PM3_SUCCESS, rr_result = [], rr_result_len = 0, rr_respcode = 0xFF\<rparr>"
  from tx_native_one_frame [OF assms, of af cmd data ?r0] obtain x where
    t: "tx_native (DESFIRE_TX_FRAME_MAX_LEN e) af (cmd # take datalen data) (Suc datalen) 0 ?r0 w =
          (x, w\<lparr>replies := rest, sent := sent w @ [cmd # take datalen data]\<rparr>)"
    and r: "\<forall>r. x = Some r \<longrightarrow> rr_res r = PM3_SUCCESS \<and> rr_respcode r = MFDES_S_OPERATION_OK"
    by blast
  from r show ?thesis
    by (cases x) (simp_all add: DesfireExchangeNative_def t Let_def rx_native_stops)
qed


lemma tx_native_last_frame:
  assumes "replies w = (PM3_SUCCESS, bs) # rest" and "bs \<noteq> []" and "hd bs = MFDES_S_OPERATION_OK"
    and "length bs \<le> 1275"
    and "0 < sentdatalen" and "sentdatalen \<le> cdatalen" and "cdatalen - sentdatalen \<le> maxlen"
  shows "\<exists>x. tx_native maxlen af cdata cdatalen sentdatalen r w =
               (x, w\<lparr>replies := rest,
                     sent := sent w @ [take (Suc (cdatalen - sentdatalen))
                       (drop (sentdatalen - 1) (cdata[sentdatalen - 1 := MFDES_ADDITIONAL_FRAME]))]\<rparr>) \<and>
             (\<forall>r. x = Some r \<longrightarrow> rr_res r = PM3_SUCCESS \<and> rr_respcode r = MFDES_S_OPERATION_OK)"
proof -
  let ?d = "take (Suc (cdatalen - sentdatalen))
              (drop (sentdatalen - Suc 0) (cdata[sentdatalen - Suc 0 := MFDES_ADDITIONAL_FRAME]))"
  from DESFIRESendRaw_answered [OF assms(1-4), of af ?d]
  obtain x where
    x: "DESFIRESendRaw af ?d w = (x, w\<lparr>replies := rest, sent := sent w @ [?d]\<rparr>)"
    and r: "\<forall>r. x = Some r \<longrightarrow> rr_res r = PM3_SUCCESS \<and> rr_respcode r = MFDES_S_OPERATION_OK"
    by blast
  from assms(5,6,7) r show ?thesis
    by (subst tx_native.simps) (cases x; simp add: Let_def x)
qed

lemma tx_native_acknowledged:
  assumes "replies w = (PM3_SUCCESS, [MFDES_ADDITIONAL_FRAME, c1, c2]) # rest"
    and "maxlen < Suc datalen"
  shows "tx_native maxlen af (cmd # take datalen data) (Suc datalen) 0 r w =
         tx_native maxlen af (cmd # take datalen data) (Suc datalen) maxlen
           \<lparr>rr_res = PM3_SUCCESS, rr_result = [], rr_result_len = 0,
              rr_respcode = MFDES_ADDITIONAL_FRAME\<rparr>
           (w\<lparr>replies := rest, sent := sent w @ [take maxlen (cmd # take datalen data)]\<rparr>)"
proof -
  have m: "length [MFDES_ADDITIONAL_FRAME, c1, c2] \<le> 1275" by simp
  note rw = DESFIRESendRaw_reply [OF assms(1) m]
  from assms(2) show ?thesis
    by (subst tx_native.simps) (simp add: Let_def rw del: take_Suc_Cons)
qed

lemma tx_native_two_frames:
  assumes "replies w = (PM3_SUCCESS, [MFDES_ADDITIONAL_FRAME, c1, c2]) # (PM3_SUCCESS, bs) # rest"
    and "bs \<noteq> []" and "hd bs = MFDES_S_OPERATION_OK" and "length bs \<le> 1275"
    and "0 < maxlen" and "maxlen \<le> datalen" and "Suc datalen \<le> 2 * maxlen"
    and "datalen \<le> length data"
  shows "\<exists>x w1. tx_native maxlen af (cmd # take datalen data) (Suc datalen) 0 r w = (x, w1) \<and>
           sent w1 = sent w @ [cmd # take (maxlen - 1) data,
                     MFDES_ADDITIONAL_FRAME # drop (maxlen - 1) (take datalen data)] \<and>
           (\<forall>r. x = Some r \<longrightarrow> rr_res r = PM3_SUCCESS \<and> rr_respcode r = MFDES_S_OPERATION_OK)"
proof -
  let ?cdata = "cmd # take datalen data"
  let ?r1 = "\<lparr>rr_res = PM3_SUCCESS, rr_result = [], rr_result_len = 0,
              rr_respcode = MFDES_ADDITIONAL_FRAME\<rparr>"
  let ?w1 = "w\<lparr>replies := (PM3_SUCCESS, bs) # rest, sent := sent w @ [take maxlen ?cdata]\<rparr>"
  from assms(6) have lt: "maxlen < Suc datalen" by simp
  have f1: "take maxlen ?cdata = cmd # take (maxlen - 1) data"
    using assms(5,6) by (cases maxlen) (auto simp: min_def)
  have a: "tx_native maxlen af ?cdata (Suc datalen) 0 r w =
           tx_native maxlen af ?cdata (Suc datalen) maxlen ?r1 ?w1"
    by (rule tx_native_acknowledged [OF assms(1) lt])
  have r: "replies ?w1 = (PM3_SUCCESS, bs) # rest" by simp
  have le: "Suc datalen - maxlen \<le> maxlen" using assms(7) by simp
  have le2: "maxlen \<le> Suc datalen" using assms(6) by simp
  note f2 = second_frame [OF assms(5,6,8), of cmd MFDES_ADDITIONAL_FRAME]
  from tx_native_last_frame [OF r assms(2,3,4,5) le2 le, of af ?cdata ?r1]
  obtain x where
    l: "tx_native maxlen af ?cdata (Suc datalen) maxlen ?r1 ?w1 =
          (x, ?w1\<lparr>replies := rest,
                   sent := sent ?w1 @ [take (Suc (Suc datalen - maxlen))
                     (drop (maxlen - 1) (?cdata[maxlen - 1 := MFDES_ADDITIONAL_FRAME]))]\<rparr>)"
    and x: "\<forall>r. x = Some r \<longrightarrow> rr_res r = PM3_SUCCESS \<and> rr_respcode r = MFDES_S_OPERATION_OK"
    by blast
  have "sent (?w1\<lparr>replies := rest,
                   sent := sent ?w1 @ [take (Suc (Suc datalen - maxlen))
                     (drop (maxlen - 1) (?cdata[maxlen - 1 := MFDES_ADDITIONAL_FRAME]))]\<rparr>) =
        sent w @ [cmd # take (maxlen - 1) data,
                  MFDES_ADDITIONAL_FRAME # drop (maxlen - 1) (take datalen data)]"
    by (simp only: f2) (simp add: f1)
  with l x show ?thesis
    unfolding a by blast
qed

lemma native_two_frames:
  assumes "replies w = (PM3_SUCCESS, [MFDES_ADDITIONAL_FRAME, c1, c2]) # (PM3_SUCCESS, bs) # rest"
    and "bs \<noteq> []" and "hd bs = MFDES_S_OPERATION_OK" and "length bs \<le> 1275"
    and "0 < DESFIRE_TX_FRAME_MAX_LEN e" and "DESFIRE_TX_FRAME_MAX_LEN e \<le> datalen"
    and "Suc datalen \<le> 2 * DESFIRE_TX_FRAME_MAX_LEN e"
    and "datalen \<le> length data"
  shows "sent (snd (DesfireExchangeNative e af cmd data datalen resp ch sp w)) =
           sent w @ [cmd # take (DESFIRE_TX_FRAME_MAX_LEN e - 1) data,
                     MFDES_ADDITIONAL_FRAME #
                       drop (DESFIRE_TX_FRAME_MAX_LEN e - 1) (take datalen data)]"
proof -
  let ?r0 = "\<lparr>rr_res = PM3_SUCCESS, rr_result = [], rr_result_len = 0, rr_respcode = 0xFF\<rparr>"
  from tx_native_two_frames [OF assms, of af cmd ?r0] obtain x w1 where
    t: "tx_native (DESFIRE_TX_FRAME_MAX_LEN e) af (cmd # take datalen data) (Suc datalen) 0 ?r0 w =
          (x, w1)"
    and s: "sent w1 = sent w @ [cmd # take (DESFIRE_TX_FRAME_MAX_LEN e - 1) data,
                     MFDES_ADDITIONAL_FRAME #
                       drop (DESFIRE_TX_FRAME_MAX_LEN e - 1) (take datalen data)]"
    and r: "\<forall>r. x = Some r \<longrightarrow> rr_res r = PM3_SUCCESS \<and> rr_respcode r = MFDES_S_OPERATION_OK"
    by blast
  from r s show ?thesis
    by (cases x) (simp_all add: DesfireExchangeNative_def t Let_def rx_native_stops)
qed


lemma plain_env_max: "DESFIRE_TX_FRAME_MAX_LEN plain_env = 54"
  by (simp add: plain_env_def)

lemma card_of_replies:
  "replies (card_of (b # bs)) = (PM3_SUCCESS, b) # map (Pair PM3_SUCCESS) bs"
  "sent (card_of bs) = []"
  by (simp_all add: card_of_def)

text \<open>
  Claim C4 as stated fails. The frame limit counts the command byte:
  \<^verbatim>\<open>cdatalen = datalen + 1\<close>, and the first frame is the first
  \<^verbatim>\<open>DESFIRE_TX_FRAME_MAX_LEN\<close> bytes of the command byte and the payload. With a limit of
  54, a payload of 54 bytes goes out as two frames when the card acknowledges the first:
  the command byte with 53 bytes, then \<open>0xAF\<close> with the last byte.
\<close>

theorem native_tx_counterexample:
  "DESFIRE_TX_FRAME_MAX_LEN plain_env = 54 \<and>
   length (replicate 53 0x11 @ [0x99 :: u8]) = 54 \<and>
   sent (snd (DesfireExchangeNative plain_env False 0x3D (replicate 53 0x11 @ [0x99]) 54 [] False 0
                (card_of [[0xAF, 0x00, 0x00], [0x00, 0x00, 0x00]]))) =
     [0x3D # replicate 53 0x11, [0xAF, 0x99]]"
proof -
  have "sent (snd (DesfireExchangeNative plain_env False 0x3D (replicate 53 0x11 @ [0x99]) 54 [] False 0
                (card_of [[0xAF, 0x00, 0x00], [0x00, 0x00, 0x00]]))) =
        sent (card_of [[0xAF, 0x00, 0x00], [0x00, 0x00, 0x00]]) @
          [0x3D # take (DESFIRE_TX_FRAME_MAX_LEN plain_env - 1) (replicate 53 0x11 @ [0x99]),
           MFDES_ADDITIONAL_FRAME #
             drop (DESFIRE_TX_FRAME_MAX_LEN plain_env - 1) (take 54 (replicate 53 0x11 @ [0x99]))]"
    by (rule native_two_frames [where ?c1.0 = "0x00" and ?c2.0 = "0x00" and bs = "[0x00, 0x00, 0x00]"
                                  and rest = "[]"])
       (simp_all add: card_of_replies plain_env_max)
  then show ?thesis
    by (simp add: card_of_replies plain_env_max)
qed

text \<open>
  Claim C4, amended. For every native exchange with a limit of at least 1 and a payload
  buffer that holds \<open>datalen\<close> bytes: the first frame transmitted is the command byte
  followed by the first \<open>min (limit - 1) datalen\<close> bytes of the payload, and every frame
  after it is not empty and starts with \<open>0xAF\<close>. A payload of \<open>limit - 1\<close> bytes, answered
  with status \<open>0x00\<close>, is transmitted as one frame. A payload of \<open>limit\<close> bytes, or of
  \<open>limit + 1\<close> bytes when the limit is at least 2, whose first frame the card acknowledges
  with \<open>0xAF\<close> and no data and whose second frame it answers with status \<open>0x00\<close>, is
  transmitted as two frames: the command byte with \<open>limit - 1\<close> bytes, then \<open>0xAF\<close> with
  the rest.
\<close>

theorem native_tx_frame_boundary:
  assumes "0 < DESFIRE_TX_FRAME_MAX_LEN e" and "datalen \<le> length data"
  shows "(\<exists>fs. sent (snd (DesfireExchangeNative e af cmd data datalen resp ch sp w)) =
               sent w @ (cmd # take (min (DESFIRE_TX_FRAME_MAX_LEN e - 1) datalen) data) # fs \<and>
              (\<forall>g\<in>set fs. g \<noteq> [] \<and> hd g = MFDES_ADDITIONAL_FRAME)) \<and>
         (replies w = (PM3_SUCCESS, bs) # rest \<and>
          bs \<noteq> [] \<and> hd bs = MFDES_S_OPERATION_OK \<and> length bs \<le> 1275 \<and>
          datalen = DESFIRE_TX_FRAME_MAX_LEN e - 1 \<longrightarrow>
            sent (snd (DesfireExchangeNative e af cmd data datalen resp ch sp w)) =
              sent w @ [cmd # take datalen data]) \<and>
         (replies w = (PM3_SUCCESS, [MFDES_ADDITIONAL_FRAME, c1, c2]) # (PM3_SUCCESS, bs) # rest \<and>
          bs \<noteq> [] \<and> hd bs = MFDES_S_OPERATION_OK \<and> length bs \<le> 1275 \<and>
          (datalen = DESFIRE_TX_FRAME_MAX_LEN e \<or>
           datalen = DESFIRE_TX_FRAME_MAX_LEN e + 1 \<and> 1 < DESFIRE_TX_FRAME_MAX_LEN e) \<longrightarrow>
            sent (snd (DesfireExchangeNative e af cmd data datalen resp ch sp w)) =
              sent w @ [cmd # take (DESFIRE_TX_FRAME_MAX_LEN e - 1) data,
                        MFDES_ADDITIONAL_FRAME #
                          drop (DESFIRE_TX_FRAME_MAX_LEN e - 1) (take datalen data)])"
proof (intro conjI impI)
  show "\<exists>fs. sent (snd (DesfireExchangeNative e af cmd data datalen resp ch sp w)) =
               sent w @ (cmd # take (min (DESFIRE_TX_FRAME_MAX_LEN e - 1) datalen) data) # fs \<and>
              (\<forall>g\<in>set fs. g \<noteq> [] \<and> hd g = MFDES_ADDITIONAL_FRAME)"
    by (rule DesfireExchangeNative_frames [OF assms])
next
  assume a: "replies w = (PM3_SUCCESS, bs) # rest \<and>
          bs \<noteq> [] \<and> hd bs = MFDES_S_OPERATION_OK \<and> length bs \<le> 1275 \<and>
          datalen = DESFIRE_TX_FRAME_MAX_LEN e - 1"
  with assms(1) have "Suc datalen \<le> DESFIRE_TX_FRAME_MAX_LEN e" by simp
  with a show "sent (snd (DesfireExchangeNative e af cmd data datalen resp ch sp w)) =
              sent w @ [cmd # take datalen data]"
    by (intro native_one_frame [where bs = bs and rest = rest]) simp_all
next
  assume a: "replies w = (PM3_SUCCESS, [MFDES_ADDITIONAL_FRAME, c1, c2]) # (PM3_SUCCESS, bs) # rest \<and>
          bs \<noteq> [] \<and> hd bs = MFDES_S_OPERATION_OK \<and> length bs \<le> 1275 \<and>
          (datalen = DESFIRE_TX_FRAME_MAX_LEN e \<or>
           datalen = DESFIRE_TX_FRAME_MAX_LEN e + 1 \<and> 1 < DESFIRE_TX_FRAME_MAX_LEN e)"
  with assms(1) have "DESFIRE_TX_FRAME_MAX_LEN e \<le> datalen"
    "Suc datalen \<le> 2 * DESFIRE_TX_FRAME_MAX_LEN e"
    by auto
  with a assms show "sent (snd (DesfireExchangeNative e af cmd data datalen resp ch sp w)) =
              sent w @ [cmd # take (DESFIRE_TX_FRAME_MAX_LEN e - 1) data,
                        MFDES_ADDITIONAL_FRAME #
                          drop (DESFIRE_TX_FRAME_MAX_LEN e - 1) (take datalen data)]"
    by (intro native_two_frames [where ?c1.0 = c1 and ?c2.0 = c2 and bs = bs and rest = rest])
       simp_all
qed


theorem native_tx_frame_boundary_witness:
  "DESFIRE_TX_FRAME_MAX_LEN plain_env = 54 \<and>
   sent (snd (DesfireExchangeNative plain_env False 0x3D (replicate 53 0x11) 53 [] False 0
                (card_of [[0x00, 0x00, 0x00]]))) =
     [0x3D # replicate 53 0x11] \<and>
   sent (snd (DesfireExchangeNative plain_env False 0x3D (replicate 53 0x11 @ [0x99]) 54 [] False 0
                (card_of [[0xAF, 0x00, 0x00], [0x00, 0x00, 0x00]]))) =
     [0x3D # replicate 53 0x11, [0xAF, 0x99]] \<and>
   sent (snd (DesfireExchangeNative plain_env False 0x3D (replicate 53 0x11 @ [0x99, 0x77]) 55 [] False 0
                (card_of [[0xAF, 0x00, 0x00], [0x00, 0x00, 0x00]]))) =
     [0x3D # replicate 53 0x11, [0xAF, 0x99, 0x77]]"
proof -
  have m: "0 < DESFIRE_TX_FRAME_MAX_LEN plain_env" by (simp add: plain_env_max)
  have l: "53 \<le> length (replicate 53 (0x11 :: u8))"
    "54 \<le> length (replicate 53 0x11 @ [0x99 :: u8])"
    "55 \<le> length (replicate 53 0x11 @ [0x99, 0x77 :: u8])"
    by simp_all
  note t1 = native_tx_frame_boundary [OF m l(1), where af = False and cmd = "0x3D" and resp = "[]"
      and ch = False and sp = 0 and w = "card_of [[0x00, 0x00, 0x00]]"
      and bs = "[0x00, 0x00, 0x00]" and rest = "[]"]
  note t2 = native_tx_frame_boundary [OF m l(2), where af = False and cmd = "0x3D" and resp = "[]"
      and ch = False and sp = 0 and w = "card_of [[0xAF, 0x00, 0x00], [0x00, 0x00, 0x00]]"
      and ?c1.0 = "0x00" and ?c2.0 = "0x00"
      and bs = "[0x00, 0x00, 0x00]" and rest = "[]"]
  note t3 = native_tx_frame_boundary [OF m l(3), where af = False and cmd = "0x3D" and resp = "[]"
      and ch = False and sp = 0 and w = "card_of [[0xAF, 0x00, 0x00], [0x00, 0x00, 0x00]]"
      and ?c1.0 = "0x00" and ?c2.0 = "0x00"
      and bs = "[0x00, 0x00, 0x00]" and rest = "[]"]
  from t1 have "sent (snd (DesfireExchangeNative plain_env False 0x3D (replicate 53 0x11) 53 [] False 0
                (card_of [[0x00, 0x00, 0x00]]))) = [0x3D # replicate 53 0x11]"
    by (simp add: card_of_replies plain_env_max)
  moreover from t2 have "sent (snd (DesfireExchangeNative plain_env False 0x3D
                (replicate 53 0x11 @ [0x99]) 54 [] False 0
                (card_of [[0xAF, 0x00, 0x00], [0x00, 0x00, 0x00]]))) =
     [0x3D # replicate 53 0x11, [0xAF, 0x99]]"
    by (simp add: card_of_replies plain_env_max)
  moreover from t3 have "sent (snd (DesfireExchangeNative plain_env False 0x3D
                (replicate 53 0x11 @ [0x99, 0x77]) 55 [] False 0
                (card_of [[0xAF, 0x00, 0x00], [0x00, 0x00, 0x00]]))) =
     [0x3D # replicate 53 0x11, [0xAF, 0x99, 0x77]]"
    by (simp add: card_of_replies plain_env_max)
  ultimately show ?thesis by (simp add: plain_env_max)
qed

subsection \<open>The log of commands\<close>

text \<open>
  Only \<^verbatim>\<open>DesfireExchangeEx\<close> writes the log: a call in a command set other than
  \<^verbatim>\<open>DCCISO\<close> adds one entry, a call in \<^verbatim>\<open>DCCISO\<close> returns \<^verbatim>\<open>PM3_EAPDU_FAIL\<close> and changes
  nothing.
\<close>

lemma ExchangeRAW14a_exchanged:
  "exchanged (snd (ExchangeRAW14a d af m w)) = exchanged w"
  by (simp add: ExchangeRAW14a_def split: list.splits prod.splits)

lemma DESFIRESendRaw_exchanged:
  "exchanged (snd (DESFIRESendRaw af d w)) = exchanged w"
proof -
  obtain res result w1 where x: "ExchangeRAW14a d af sizeof_buf w = ((res, result), w1)"
    by (metis surj_pair)
  with ExchangeRAW14a_exchanged [of d af sizeof_buf w] have "exchanged w1 = exchanged w" by simp
  then show ?thesis
    by (simp add: DESFIRESendRaw_def x Let_def split: list.splits)
qed

lemma DESFIRESendApdu_exchanged:
  "exchanged (snd (DESFIRESendApdu e af apdu m w)) = exchanged w"
proof (cases "APDUEncodeS e apdu False 0x100")
  case None
  then show ?thesis by (simp add: DESFIRESendApdu_def DESFIRESendApduEx_def)
next
  case (Some d)
  obtain res result w1 where x: "ExchangeRAW14a d af m w = ((res, result), w1)"
    by (metis surj_pair)
  with ExchangeRAW14a_exchanged [of d af m w] have "exchanged w1 = exchanged w" by simp
  then show ?thesis
    by (simp add: DESFIRESendApdu_def DESFIRESendApduEx_def ExchangeAPDU14a_def Some x Let_def)
qed


lemma tx_native_exchanged:
  "exchanged (snd (tx_native maxlen af cdata cdatalen sentdatalen r w)) = exchanged w"
proof (induction maxlen af cdata cdatalen sentdatalen r w rule: tx_native.induct)
  case (1 maxlen af cdata cdatalen sentdatalen r w)
  define len where "len = (if cdatalen - sentdatalen > maxlen then maxlen else cdatalen - sentdatalen)"
  define sendindx where "sendindx = (if sentdatalen > 0 then sentdatalen - 1 else sentdatalen)"
  define sendlen where "sendlen = (if sentdatalen > 0 then len + 1 else len)"
  define cdata1 where "cdata1 = (if sentdatalen > 0 then cdata[sendindx := MFDES_ADDITIONAL_FRAME] else cdata)"
  obtain x w1 where s: "DESFIRESendRaw af (take sendlen (drop sendindx cdata1)) w = (x, w1)"
    by (metis surj_pair)
  with DESFIRESendRaw_exchanged [of af "take sendlen (drop sendindx cdata1)" w]
  have w1: "exchanged w1 = exchanged w" by simp
  have unf: "tx_native maxlen af cdata cdatalen sentdatalen r w =
     (if sentdatalen \<le> cdatalen then
        (case x of None \<Rightarrow> (None, w1)
         | Some r1 \<Rightarrow>
             if rr_res r1 \<noteq> PM3_SUCCESS then (Some r1, w1)
             else if rr_respcode r1 \<noteq> MFDES_ADDITIONAL_FRAME \<or> rr_result_len r1 > 0 then (Some r1, w1)
             else tx_native maxlen af cdata1 cdatalen (sentdatalen + len) r1 w1)
      else (Some r, w))"
    apply (subst tx_native.simps)
    apply (simp add: Let_def len_def [symmetric] sendindx_def [symmetric] sendlen_def [symmetric]
                     cdata1_def [symmetric] s del: One_nat_def)
    apply (simp add: cdata1_def split: option.splits)
    done
  show ?case
  proof (cases "\<exists>r1. x = Some r1 \<and> sentdatalen \<le> cdatalen \<and> rr_res r1 = PM3_SUCCESS \<and>
                \<not> (rr_respcode r1 \<noteq> MFDES_ADDITIONAL_FRAME \<or> rr_result_len r1 > 0)")
    case True
    then obtain r1 where x: "x = Some r1" and True: "sentdatalen \<le> cdatalen \<and>
        rr_res r1 = PM3_SUCCESS \<and>
        \<not> (rr_respcode r1 \<noteq> MFDES_ADDITIONAL_FRAME \<or> rr_result_len r1 > 0)"
      by blast
    with "1.IH" [OF _ len_def sendindx_def sendlen_def cdata1_def s [symmetric] refl x]
    have "exchanged (snd (tx_native maxlen af cdata1 cdatalen (sentdatalen + len) r1 w1)) = exchanged w1"
      by simp
    with True w1 x show ?thesis
      unfolding unf by simp
  next
    case False
    with w1 show ?thesis
      unfolding unf by (cases x) auto
  qed
qed


lemma rx_native_exchanged:
  "exchanged (snd (rx_native splitbysize rcode resp pos i w)) = exchanged w"
proof (induction splitbysize rcode resp pos i w rule: rx_native.induct)
  case (1 splitbysize rcode resp pos i w)
  obtain x w1 where s: "DESFIRESendRaw False [MFDES_ADDITIONAL_FRAME] w = (x, w1)"
    by (metis surj_pair)
  with DESFIRESendRaw_exchanged [of False "[MFDES_ADDITIONAL_FRAME]" w]
  have w1: "exchanged w1 = exchanged w" by simp
  show ?case
  proof (cases "\<exists>r1. x = Some r1 \<and> rcode = MFDES_ADDITIONAL_FRAME \<and> rr_res r1 = PM3_SUCCESS \<and>
                rr_respcode r1 = MFDES_ADDITIONAL_FRAME")
    case True
    then obtain r1 where x: "x = Some r1" and True: "rcode = MFDES_ADDITIONAL_FRAME \<and>
        rr_res r1 = PM3_SUCCESS \<and> rr_respcode r1 = MFDES_ADDITIONAL_FRAME"
      by blast
    with "1.IH" [OF _ s [symmetric] refl x _ refl refl refl refl refl] w1 show ?thesis
      by (subst rx_native.simps) (simp add: Let_def s x)
  next
    case False
    with w1 show ?thesis
      by (subst rx_native.simps) (cases x; auto simp add: Let_def s)
  qed
qed

lemma tx_iso_exchanged:
  "exchanged (snd (tx_iso e af apdu data datalen sentdatalen r w)) = exchanged w"
proof (induction e af apdu data datalen sentdatalen r w rule: tx_iso.induct)
  case (1 e af apdu data datalen sentdatalen r w)
  define apdu1 where "apdu1 = apdu\<lparr>Lc := (if datalen - sentdatalen > DESFIRE_TX_FRAME_MAX_LEN e
                                 then word_of_nat (DESFIRE_TX_FRAME_MAX_LEN e)
                                 else word_of_nat (datalen - sentdatalen)),
                          apdu_data := drop sentdatalen data\<rparr>"
  define apdu2 where "apdu2 = (if sentdatalen > 0 then apdu1\<lparr>INS := MFDES_ADDITIONAL_FRAME\<rparr> else apdu1)"
  obtain r1 w1 where s: "DESFIRESendApdu e af apdu2 1275 w = (r1, w1)"
    by (metis surj_pair)
  with DESFIRESendApdu_exchanged [of e af apdu2 1275 w]
  have w1: "exchanged w1 = exchanged w" by simp
  show ?case
  proof (cases "sentdatalen \<le> datalen \<and> ar_res r1 = PM3_SUCCESS \<and>
                \<not> (ar_sw r1 \<noteq> DESFIRE_GET_ISO_STATUS MFDES_ADDITIONAL_FRAME \<or> ar_result_len r1 > 0)")
    case True
    with "1.IH" [OF _ apdu1_def apdu2_def s [symmetric]]
    have "exchanged (snd (tx_iso e af apdu2 data datalen (sentdatalen + unat (Lc apdu2)) r1 w1)) = exchanged w1"
      by simp
    with True w1 show ?thesis
      by (subst tx_iso.simps)
         (simp add: Let_def apdu1_def [symmetric] apdu2_def [symmetric] s)
  next
    case False
    with w1 show ?thesis
      by (subst tx_iso.simps)
         (auto simp add: Let_def apdu1_def [symmetric] apdu2_def [symmetric] s)
  qed
qed

lemma rx_iso_exchanged:
  "exchanged (snd (rx_iso e splitbysize sw respcode resp pos i w)) = exchanged w"
proof (induction e splitbysize sw respcode resp pos i w rule: rx_iso.induct)
  case (1 e splitbysize sw respcode resp pos i w)
  define apdu where "apdu = \<lparr>CLA = MFDES_NATIVE_ISO7816_WRAP_CLA, INS = MFDES_ADDITIONAL_FRAME,
                     P1 = 0, P2 = 0, Lc = 0, apdu_data = []\<rparr>"
  obtain r1 w1 where s: "DESFIRESendApdu e False apdu 1275 w = (r1, w1)"
    by (metis surj_pair)
  with DESFIRESendApdu_exchanged [of e False apdu 1275 w]
  have w1: "exchanged w1 = exchanged w" by simp
  show ?case
  proof (cases "sw = DESFIRE_GET_ISO_STATUS MFDES_ADDITIONAL_FRAME \<and> ar_res r1 = PM3_SUCCESS \<and>
                ar_sw r1 = DESFIRE_GET_ISO_STATUS MFDES_ADDITIONAL_FRAME")
    case True
    with "1.IH" [OF _ apdu_def s [symmetric] refl _ refl refl refl refl refl refl] w1 show ?thesis
      by (subst rx_iso.simps) (simp add: Let_def apdu_def [symmetric] s)
  next
    case False
    with w1 show ?thesis
      by (subst rx_iso.simps) (auto simp add: Let_def apdu_def [symmetric] s)
  qed
qed


lemma DesfireExchangeNative_exchanged:
  "exchanged (snd (DesfireExchangeNative e af cmd data datalen resp ch sp w)) = exchanged w"
proof -
  let ?r0 = "\<lparr>rr_res = PM3_SUCCESS, rr_result = [], rr_result_len = 0, rr_respcode = 0xFF\<rparr>"
  obtain r w1 where t: "tx_native (DESFIRE_TX_FRAME_MAX_LEN e) af (cmd # take datalen data) (Suc datalen) 0 ?r0 w = (r, w1)"
    by (metis surj_pair)
  with tx_native_exchanged [of "DESFIRE_TX_FRAME_MAX_LEN e" af "cmd # take datalen data" "Suc datalen" 0 ?r0 w]
  have w1: "exchanged w1 = exchanged w" by simp
  have "exchanged w2 = exchanged w" if "rx_native sp rc rs ps 1 w1 = (x, w2)" for rc rs ps x w2
    using rx_native_exchanged [of sp rc rs ps 1 w1] w1 that by simp
  with w1 show ?thesis
    by (simp add: DesfireExchangeNative_def t Let_def split: prod.splits option.splits)
qed

lemma DesfireExchangeISONative_exchanged:
  "exchanged (snd (DesfireExchangeISONative e af cmd data datalen resp ch sp w)) = exchanged w"
proof -
  let ?r0 = "\<lparr>ar_res = PM3_SUCCESS, ar_result = [], ar_result_len = 0, ar_sw = 0\<rparr>"
  let ?apdu = "\<lparr>CLA = MFDES_NATIVE_ISO7816_WRAP_CLA, INS = cmd, P1 = 0, P2 = 0,
                  Lc = word_of_nat datalen, apdu_data = data\<rparr>"
  obtain r w1 where t: "tx_iso e af ?apdu data datalen 0 ?r0 w = (r, w1)"
    by (metis surj_pair)
  with tx_iso_exchanged [of e af ?apdu data datalen 0 ?r0 w]
  have w1: "exchanged w1 = exchanged w" by simp
  have "exchanged w2 = exchanged w" if "rx_iso e sp sw rc rs ps 1 w1 = (x, w2)" for sw rc rs ps x w2
    using rx_iso_exchanged [of e sp sw rc rs ps 1 w1] w1 that by simp
  with w1 show ?thesis
    by (simp add: DesfireExchangeISONative_def t Let_def split: prod.splits)
qed

lemma DesfireExchangeEx_log:
  assumes "DesfireExchangeEx e af ctx cmd data datalen out ch w = (Some (res, out', ctx'), w')"
    and "cmdSet ctx \<noteq> DCCISO"
  shows "exchanged w' = exchanged w @ [(cmd, take datalen data, x_respcode out', x_resp out')]"
proof -
  obtain ctx1 databuf where en: "DesfireSecureChannelEncode e ctx cmd data datalen = (ctx1, databuf)"
    by (metis surj_pair)
  have n: "exchanged w1 = exchanged w"
    if "DesfireExchangeNative e af cmd databuf (length databuf) databuf ch 0 w = (r, w1)" for r w1
    using DesfireExchangeNative_exchanged [of e af cmd databuf "length databuf" databuf ch 0 w] that
    by simp
  have i: "exchanged w1 = exchanged w"
    if "DesfireExchangeISONative e af cmd databuf (length databuf) databuf ch 0 w = (r, w1)" for r w1
    using DesfireExchangeISONative_exchanged [of e af cmd databuf "length databuf" databuf ch 0 w] that
    by simp
  from assms n i show ?thesis
    by (auto simp: DesfireExchangeEx_def en Let_def
             split: DesfireCommandSet.splits prod.splits if_splits option.splits)
qed

lemma DesfireExchangeEx_log_ISO:
  assumes "cmdSet ctx = DCCISO"
  shows "DesfireExchangeEx e af ctx cmd data datalen out ch w = (Some (PM3_EAPDU_FAIL, out, ctx), w)"
  using assms by (simp add: DesfireExchangeEx_def)

lemma DesfireExchangeEx_resplen:
  assumes "DesfireExchangeEx e af ctx cmd data datalen out ch w = (Some (res, out', ctx'), w')"
    and "cmdSet ctx \<noteq> DCCISO"
  shows "x_resplen out' = length (x_resp out')"
  using assms
  by (auto simp: DesfireExchangeEx_def Let_def
           split: DesfireCommandSet.splits prod.splits option.splits if_splits)

lemma DesfireExchangeEx_grows:
  assumes "DesfireExchangeEx e af ctx cmd data datalen out ch w = (Some (res, out', ctx'), w')"
  shows "\<exists>ext. exchanged w' = exchanged w @ ext"
proof (cases "cmdSet ctx = DCCISO")
  case True
  with DesfireExchangeEx_log_ISO [OF True, of e af cmd data datalen out ch w] assms
  show ?thesis by simp
next
  case False
  with DesfireExchangeEx_log [OF assms] show ?thesis by simp
qed

subsection \<open>First and non-first EV2 authentication\<close>

lemma EV2_finish_cases:
  assumes "EV2_finish e dctx1 sc firstauth iv0 RndA RndB both recv_data out w1 = (Some (res, dctx'), w')"
    and "DesfireExchangeEx e False dctx1 MFDES_ADDITIONAL_FRAME both 32 out False w1 = (x, w2)"
  shows "\<exists>res2 out2 dctx2.
           x = Some (res2, out2, dctx2) \<and> w' = w2 \<and>
           (res \<noteq> PM3_SUCCESS \<longrightarrow> dctx' = dctx2) \<and>
           (res = PM3_SUCCESS \<longrightarrow>
              res2 = PM3_SUCCESS \<and> x_respcode out2 = MFDES_S_OPERATION_OK \<and>
              (\<exists>iv' data.
                 aes_decode e iv0 (key dctx2) (memcpy recv_data (x_resp out2) (x_resplen out2))
                   (x_resplen out2) = Some (iv', data) \<and>
                 take 16 (rol RndA 16) = take 16 (if firstauth then drop 4 data else data) \<and>
                 key dctx' = key dctx2 \<and>
                 TI dctx' = (if firstauth then memcpy (TI dctx2) data 4 else TI dctx2) \<and>
                 cmdCntr dctx' = (if firstauth then 0 else cmdCntr dctx2) \<and>
                 secureChannel dctx' = sc))"
  using assms
  by (cases x) (auto simp: EV2_finish_def Let_def DesfireClearIV_def split: if_splits option.splits)

lemma EV2_start_cases:
  assumes "DesfireAuthenticateEV2 e dctx sc firstauth w = (Some (res, dctx'), w')"
    and "DesfireExchangeEx e False dctx
           (if firstauth then MFDES_AUTHENTICATE_EV2F else MFDES_AUTHENTICATE_EV2NF)
           [keyNum dctx, 0x00] (if firstauth then 2 else 1)
           \<lparr>x_respcode = 0, x_resp = replicate 256 0, x_resplen = 0\<rparr> False w = (x, w1)"
  shows "\<exists>res1 out1 dctx1.
           x = Some (res1, out1, dctx1) \<and>
           ((dctx' = dctx1 \<and> w' = w1 \<and> res \<noteq> PM3_SUCCESS) \<or>
            (\<exists>iv2 RndB both.
               EV2_finish e dctx1 sc firstauth iv2 RndA_init RndB both
                 (memcpy (replicate 256 0) (x_resp out1) (x_resplen out1)) out1 w1 =
                 (Some (res, dctx'), w') \<and>
               res1 = PM3_SUCCESS \<and> x_respcode out1 = MFDES_ADDITIONAL_FRAME \<and> x_resplen out1 = 16))"
proof (cases x)
  case None
  with assms show ?thesis
    by (simp add: DesfireAuthenticateEV2_def Let_def)
next
  case (Some p)
  obtain res1 out1 dctx1 where p: "p = (res1, out1, dctx1)" by (cases p)
  note x = Some [unfolded p]
  show ?thesis
  proof (cases "res1 = PM3_SUCCESS \<and> x_respcode out1 = MFDES_ADDITIONAL_FRAME \<and> x_resplen out1 = 16")
    case False
    with assms x show ?thesis
      by (auto simp: DesfireAuthenticateEV2_def Let_def split: if_splits)
  next
    case ok: True
    let ?recv = "memcpy (replicate 256 0) (x_resp out1) (x_resplen out1)"
    show ?thesis
    proof (cases "aes_decode e (replicate 16 0) (key dctx1) (memcpy (replicate 16 0) ?recv 16) 16")
      case None
      with assms ok x show ?thesis
        by (auto simp: DesfireAuthenticateEV2_def Let_def split: if_splits)
    next
      case s1: (Some q1)
      obtain iv1 RndB where q1: "q1 = (iv1, RndB)" by (cases q1)
      show ?thesis
      proof (cases "aes_encode e iv1 (key dctx1)
                      (memcpy_at (memcpy (replicate 32 0) RndA_init 16) 16
                         (rol (memcpy (replicate 16 0) RndB 16) 16) 16) 32")
        case None
        with assms ok x s1 q1 show ?thesis
          by (auto simp: DesfireAuthenticateEV2_def Let_def split: if_splits)
      next
        case s2: (Some q)
        obtain iv2 both where q: "q = (iv2, both)" by (cases q)
        from assms ok x s1 q1 s2 q
        have "EV2_finish e dctx1 sc firstauth iv2 RndA_init RndB both ?recv out1 w1 =
                (Some (res, dctx'), w')"
          by (auto simp: DesfireAuthenticateEV2_def Let_def split: if_splits)
        with ok x show ?thesis by blast
      qed
    qed
  qed
qed

lemmas auth_simps =
  DesfireAuthenticateEV2_def EV2_finish_def rol_def RndA_init_def RndB_card_def RndA_rotated_def
  DesfireClearIV_def DesfireClearSession_def

lemma ev2_env_simps:
  "DESFIRE_TX_FRAME_MAX_LEN ev2_env = 54"
  "DesfireSecureChannelEncode ev2_env = spec_ev2_encode"
  "DesfireSecureChannelDecode ev2_env = spec_ev2_decode"
  "aes_decode ev2_env iv k input len = Some (iv, take len input)"
  "aes_encode ev2_env iv k input len = Some (iv, take len input)"
  "DesfireGenSessionKeyEV2 ev2_env k rnda rndb enckey old = take 8 rnda @ take 8 rndb @ drop 16 old"
  by (simp_all add: ev2_env_def plain_env_def)

lemmas ev2_run_simps =
  DesfireExchangeEx_def DesfireExchangeNative_def tx_native.simps rx_native.simps
  DESFIRESendRaw_def ExchangeRAW14a_def memcpy_at_def memcpy_def ev2_env_simps card_of_def Let_def
  spec_ev2_encode_def spec_ev2_decode_def spec_mac8_def spec_counterLE_def

lemma EV2_first_run:
  "\<exists>c w'. DesfireAuthenticateEV2 plain_env (ctx_ev2\<lparr>secureChannel := DACNone\<rparr>) DACEV2 True
             card_ev2_first = (Some (PM3_SUCCESS, c), w') \<and>
          TI c = [0xA1, 0xA2, 0xA3, 0xA4] \<and> cmdCntr c = 0 \<and> secureChannel c = DACEV2 \<and>
          sent w' = [[0x71, 0x02, 0x00], 0xAF # RndA_init @ tl RndB_card @ [hd RndB_card]]"
  by (simp add: auth_simps run_simps ctx_ev2_def card_ev2_first_def)

lemma EV2_counted_run:
  "\<exists>c w'. DesfireAuthenticateEV2 ev2_env ctx_ev2 DACEV2 False card_ev2_counted =
             (Some (PM3_SUCCESS, c), w') \<and>
          TI c = [0x11, 0x22, 0x33, 0x44] \<and> cmdCntr c = 7 \<and> secureChannel c = DACEV2 \<and>
          map (take 2) (sent w') = [[0x77, 0x02], [0xAF, 0x01]] \<and>
          map (\<lambda>(cmd, payload, rc, resp). (cmd, rc)) (exchanged w') = [(0x77, 0xAF), (0xAF, 0x00)]"
  by (simp add: auth_simps ev2_run_simps ctx_ev2_def card_ev2_counted_def)

lemma EV2_iso_run:
  "DesfireAuthenticateEV2 plain_env ctx_iso DACEV2 True card_ev2_first =
     (Some (1, ctx_iso), card_ev2_first)"
  by (simp add: DesfireAuthenticateEV2_def DesfireExchangeEx_def ctx_iso_def ctx_ev2_def)

lemma ctx_ev2_sel:
  "cmdSet ctx_ev2 = DCCNative" "keyNum ctx_ev2 = 0x02" "cmdCntr ctx_ev2 = 5"
  "TI ctx_ev2 = [0x11, 0x22, 0x33, 0x44]" "secureChannel ctx_ev2 = DACEV2"
  "sessionKeyEnc ctx_ev2 = [0x01, 0x02, 0x03, 0x04] @ replicate 20 0xCC"
  "sessionKeyMAC ctx_ev2 = [0x01, 0x02, 0x03, 0x04] @ replicate 20 0xCC"
  by (simp_all add: ctx_ev2_def)

lemma AuthenticateEV2_ISO:
  "cmdSet dctx = DCCISO \<Longrightarrow>
   DesfireAuthenticateEV2 e dctx sc firstauth w = (Some (1, dctx), w)"
  by (simp add: DesfireAuthenticateEV2_def DesfireExchangeEx_def)

text \<open>
  Claim C6 as stated fails in two places. In the command set \<^verbatim>\<open>DCCISO\<close>, where
  \<^verbatim>\<open>DesfireExchangeEx\<close> returns \<^verbatim>\<open>PM3_EAPDU_FAIL\<close> before anything is encoded, a first
  authentication sends nothing: it returns 1 with the card untouched. And the function
  does not keep the command counter: it is the codec that holds it, and with the codec of
  the spec, which counts every exchange it verifies, a successful non-first
  authentication in a session whose counter is 5 ends with the counter at 7.
\<close>

theorem AuthenticateEV2_counterexample:
  "cmdSet ctx_iso = DCCISO \<and>
   fst (DesfireAuthenticateEV2 plain_env ctx_iso DACEV2 True card_ev2_first) = Some (1, ctx_iso) \<and>
   sent (snd (DesfireAuthenticateEV2 plain_env ctx_iso DACEV2 True card_ev2_first)) = [] \<and>
   cmdCntr ctx_ev2 = 5 \<and>
   map_option fst (fst (DesfireAuthenticateEV2 ev2_env ctx_ev2 DACEV2 False card_ev2_counted)) =
     Some PM3_SUCCESS \<and>
   map_option cmdCntr (map_option snd
     (fst (DesfireAuthenticateEV2 ev2_env ctx_ev2 DACEV2 False card_ev2_counted))) = Some 7"
proof -
  from EV2_counted_run obtain c w' where
    "DesfireAuthenticateEV2 ev2_env ctx_ev2 DACEV2 False card_ev2_counted =
       (Some (PM3_SUCCESS, c), w')" "cmdCntr c = 7"
    by blast
  then show ?thesis
    by (simp add: EV2_iso_run ctx_ev2_sel) (simp add: ctx_iso_def card_ev2_first_def card_of_def)
qed

text \<open>
  Claim C6, amended. In a command set other than \<^verbatim>\<open>DCCISO\<close>, a run of
  \<^verbatim>\<open>DesfireAuthenticateEV2\<close> that returns has first carried out, with \<open>firstauth\<close>,
  command \<open>0x71\<close> with the payload \<open>{keyNo, 0x00}\<close> and, without \<open>firstauth\<close>, command
  \<open>0x77\<close> with the key number alone. The context it returns is the one that its last
  exchange returned, unless it succeeds. When it succeeds there were two exchanges,
  answered \<open>0xAF\<close> and \<open>0x00\<close>, and the receive buffer decrypts under the context's key to
  \<open>data\<close>: with \<open>firstauth\<close> the rotated \<open>RndA\<close> is the 16 bytes of \<open>data\<close> from offset 4,
  the first four bytes of \<open>data\<close> are stored as \<open>TI\<close> and the command counter is 0;
  without \<open>firstauth\<close> the rotated \<open>RndA\<close> is the 16 bytes from offset 0, and \<open>TI\<close> and
  the command counter are not written: they are those of the context that the second
  exchange returned.
\<close>

theorem AuthenticateEV2_first_and_non_first:
  assumes run: "DesfireAuthenticateEV2 e dctx sc firstauth w = (Some (res, dctx'), w')"
    and iso: "cmdSet dctx \<noteq> DCCISO"
  shows "\<exists>res1 out1 dctx1 w1.
           DesfireExchangeEx e False dctx
             (if firstauth then MFDES_AUTHENTICATE_EV2F else MFDES_AUTHENTICATE_EV2NF)
             [keyNum dctx, 0x00] (if firstauth then 2 else 1)
             \<lparr>x_respcode = 0, x_resp = replicate 256 0, x_resplen = 0\<rparr> False w =
             (Some (res1, out1, dctx1), w1) \<and>
           (\<exists>rest. exchanged w' = exchanged w @
              (if firstauth
               then (MFDES_AUTHENTICATE_EV2F, [keyNum dctx, 0x00], x_respcode out1, x_resp out1)
               else (MFDES_AUTHENTICATE_EV2NF, [keyNum dctx], x_respcode out1, x_resp out1)) # rest) \<and>
           (res \<noteq> PM3_SUCCESS \<and> dctx' = dctx1 \<and> w' = w1 \<or>
            (\<exists>both res2 out2 dctx2.
               DesfireExchangeEx e False dctx1 MFDES_ADDITIONAL_FRAME both 32 out1 False w1 =
                 (Some (res2, out2, dctx2), w') \<and>
               (res \<noteq> PM3_SUCCESS \<longrightarrow> dctx' = dctx2) \<and>
               (res = PM3_SUCCESS \<longrightarrow>
                  x_respcode out1 = MFDES_ADDITIONAL_FRAME \<and>
                  x_respcode out2 = MFDES_S_OPERATION_OK \<and>
                  exchanged w' = exchanged w @
                    [((if firstauth then MFDES_AUTHENTICATE_EV2F else MFDES_AUTHENTICATE_EV2NF),
                      (if firstauth then [keyNum dctx, 0x00] else [keyNum dctx]),
                      MFDES_ADDITIONAL_FRAME, x_resp out1),
                     (MFDES_ADDITIONAL_FRAME, take 32 both, MFDES_S_OPERATION_OK, x_resp out2)] \<and>
                  (\<exists>iv iv' data.
                     aes_decode e iv (key dctx2)
                       (memcpy (memcpy (replicate 256 0) (x_resp out1) (length (x_resp out1)))
                          (x_resp out2) (length (x_resp out2)))
                       (length (x_resp out2)) = Some (iv', data) \<and>
                     take 16 (rol RndA_init 16) =
                       take 16 (if firstauth then drop 4 data else data) \<and>
                     (firstauth \<longrightarrow> take 4 (TI dctx') = take 4 data) \<and>
                     TI dctx' = (if firstauth then memcpy (TI dctx2) data 4 else TI dctx2) \<and>
                     cmdCntr dctx' = (if firstauth then 0 else cmdCntr dctx2)))))"
proof -
  let ?cmd = "if firstauth then MFDES_AUTHENTICATE_EV2F else MFDES_AUTHENTICATE_EV2NF"
  let ?n = "if firstauth then 2 else 1 :: nat"
  let ?out0 = "\<lparr>x_respcode = 0, x_resp = replicate 256 0, x_resplen = 0\<rparr>"
  obtain x w1 where
    x1': "DesfireExchangeEx e False dctx ?cmd [keyNum dctx, 0x00] ?n ?out0 False w = (x, w1)"
    by (metis surj_pair)
  from EV2_start_cases [OF run x1'] obtain res1 out1 dctx1 where
    x: "x = Some (res1, out1, dctx1)"
    and c1: "(dctx' = dctx1 \<and> w' = w1 \<and> res \<noteq> PM3_SUCCESS) \<or>
            (\<exists>iv2 RndB both.
               EV2_finish e dctx1 sc firstauth iv2 RndA_init RndB both
                 (memcpy (replicate 256 0) (x_resp out1) (x_resplen out1)) out1 w1 =
                 (Some (res, dctx'), w') \<and>
               res1 = PM3_SUCCESS \<and> x_respcode out1 = MFDES_ADDITIONAL_FRAME \<and> x_resplen out1 = 16)"
    by blast
  note x1 = x1' [unfolded x]
  note l1 = DesfireExchangeEx_log [OF x1 iso]
  note n1 = DesfireExchangeEx_resplen [OF x1 iso]
  have l1': "exchanged w1 = exchanged w @
              [if firstauth
               then (MFDES_AUTHENTICATE_EV2F, [keyNum dctx, 0x00], x_respcode out1, x_resp out1)
               else (MFDES_AUTHENTICATE_EV2NF, [keyNum dctx], x_respcode out1, x_resp out1)]"
    using l1 by simp
  let ?recv = "memcpy (replicate 256 0) (x_resp out1) (x_resplen out1)"
  let ?head = "\<lambda>w'. \<exists>rest. exchanged w' = exchanged w @
              (if firstauth
               then (MFDES_AUTHENTICATE_EV2F, [keyNum dctx, 0x00], x_respcode out1, x_resp out1)
               else (MFDES_AUTHENTICATE_EV2NF, [keyNum dctx], x_respcode out1, x_resp out1)) # rest"
  from c1 show ?thesis
  proof
    assume a: "dctx' = dctx1 \<and> w' = w1 \<and> res \<noteq> PM3_SUCCESS"
    with l1' have "?head w'" by simp
    with a x1 show ?thesis by blast
  next
    assume "\<exists>iv2 RndB both.
               EV2_finish e dctx1 sc firstauth iv2 RndA_init RndB both ?recv out1 w1 =
                 (Some (res, dctx'), w') \<and>
               res1 = PM3_SUCCESS \<and> x_respcode out1 = MFDES_ADDITIONAL_FRAME \<and> x_resplen out1 = 16"
    then obtain iv2 RndB both where
      f: "EV2_finish e dctx1 sc firstauth iv2 RndA_init RndB both ?recv out1 w1 =
            (Some (res, dctx'), w')"
      and ok1: "x_respcode out1 = MFDES_ADDITIONAL_FRAME" "x_resplen out1 = 16"
      by auto
    obtain y w2 where
      x2': "DesfireExchangeEx e False dctx1 MFDES_ADDITIONAL_FRAME both 32 out1 False w1 = (y, w2)"
      by (metis surj_pair)
    from EV2_finish_cases [OF f x2'] obtain res2 out2 dctx2 where
      y: "y = Some (res2, out2, dctx2)" and w2: "w' = w2"
      and fail: "res \<noteq> PM3_SUCCESS \<longrightarrow> dctx' = dctx2"
      and succ: "res = PM3_SUCCESS \<longrightarrow>
              res2 = PM3_SUCCESS \<and> x_respcode out2 = MFDES_S_OPERATION_OK \<and>
              (\<exists>iv' data.
                 aes_decode e iv2 (key dctx2) (memcpy ?recv (x_resp out2) (x_resplen out2))
                   (x_resplen out2) = Some (iv', data) \<and>
                 take 16 (rol RndA_init 16) = take 16 (if firstauth then drop 4 data else data) \<and>
                 key dctx' = key dctx2 \<and>
                 TI dctx' = (if firstauth then memcpy (TI dctx2) data 4 else TI dctx2) \<and>
                 cmdCntr dctx' = (if firstauth then 0 else cmdCntr dctx2) \<and>
                 secureChannel dctx' = sc)"
      by blast
    note x2 = x2' [unfolded y, folded w2]
    from DesfireExchangeEx_grows [OF x2] obtain ext where g: "exchanged w' = exchanged w1 @ ext" ..
    have head: "?head w'"
      using g l1' by simp
    have s: "x_respcode out1 = MFDES_ADDITIONAL_FRAME \<and>
             x_respcode out2 = MFDES_S_OPERATION_OK \<and>
             exchanged w' = exchanged w @
               [(?cmd, (if firstauth then [keyNum dctx, 0x00] else [keyNum dctx]),
                 MFDES_ADDITIONAL_FRAME, x_resp out1),
                (MFDES_ADDITIONAL_FRAME, take 32 both, MFDES_S_OPERATION_OK, x_resp out2)] \<and>
             (\<exists>iv iv' data.
                aes_decode e iv (key dctx2)
                  (memcpy (memcpy (replicate 256 0) (x_resp out1) (length (x_resp out1)))
                     (x_resp out2) (length (x_resp out2)))
                  (length (x_resp out2)) = Some (iv', data) \<and>
                take 16 (rol RndA_init 16) = take 16 (if firstauth then drop 4 data else data) \<and>
                (firstauth \<longrightarrow> take 4 (TI dctx') = take 4 data) \<and>
                TI dctx' = (if firstauth then memcpy (TI dctx2) data 4 else TI dctx2) \<and>
                cmdCntr dctx' = (if firstauth then 0 else cmdCntr dctx2))"
      if r: "res = PM3_SUCCESS"
    proof -
      from succ r have r2: "res2 = PM3_SUCCESS" and rc2: "x_respcode out2 = MFDES_S_OPERATION_OK"
        by auto
      have iso1: "cmdSet dctx1 \<noteq> DCCISO"
      proof
        assume "cmdSet dctx1 = DCCISO"
        from DesfireExchangeEx_log_ISO [OF this, of e False MFDES_ADDITIONAL_FRAME both 32 out1 False w1]
             x2 r2
        show False by simp
      qed
      note l2 = DesfireExchangeEx_log [OF x2 iso1]
      note n2 = DesfireExchangeEx_resplen [OF x2 iso1]
      from succ r obtain iv' data where
        d: "aes_decode e iv2 (key dctx2) (memcpy ?recv (x_resp out2) (x_resplen out2))
                 (x_resplen out2) = Some (iv', data)"
           "take 16 (rol RndA_init 16) = take 16 (if firstauth then drop 4 data else data)"
           "TI dctx' = (if firstauth then memcpy (TI dctx2) data 4 else TI dctx2)"
           "cmdCntr dctx' = (if firstauth then 0 else cmdCntr dctx2)"
        by auto
      have e2: "exchanged w' = exchanged w @
                 [(?cmd, (if firstauth then [keyNum dctx, 0x00] else [keyNum dctx]),
                   MFDES_ADDITIONAL_FRAME, x_resp out1),
                  (MFDES_ADDITIONAL_FRAME, take 32 both, MFDES_S_OPERATION_OK, x_resp out2)]"
        using l1 l2 ok1 rc2 by simp
      have dec: "aes_decode e iv2 (key dctx2)
                 (memcpy (memcpy (replicate 256 0) (x_resp out1) (length (x_resp out1)))
                    (x_resp out2) (length (x_resp out2)))
                 (length (x_resp out2)) = Some (iv', data)"
        using d(1) n1 n2 by simp
      have ti: "take 4 (TI dctx') = take 4 data" if fa: firstauth
      proof -
        from d(2) fa have "length (take 16 (drop 4 data)) = length (take 16 (rol RndA_init 16))"
          by simp
        then have "20 \<le> length data"
          by (simp add: rol_def RndA_init_def)
        with d(3) fa show ?thesis
          by (simp add: memcpy_def)
      qed
      from ok1 rc2 e2 dec d(2,3,4) ti show ?thesis by blast
    qed
    from head x1 x2 fail s show ?thesis by blast
  qed
qed

theorem AuthenticateEV2_first_and_non_first_witness:
  "map_option fst (fst (DesfireAuthenticateEV2 plain_env (ctx_ev2\<lparr>secureChannel := DACNone\<rparr>) DACEV2
      True card_ev2_first)) = Some PM3_SUCCESS \<and>
   (\<exists>rc resp rest.
      exchanged (snd (DesfireAuthenticateEV2 plain_env (ctx_ev2\<lparr>secureChannel := DACNone\<rparr>) DACEV2
        True card_ev2_first)) = (0x71, [0x02, 0x00], rc, resp) # rest) \<and>
   map_option (TI \<circ> snd) (fst (DesfireAuthenticateEV2 plain_env (ctx_ev2\<lparr>secureChannel := DACNone\<rparr>)
      DACEV2 True card_ev2_first)) = Some [0xA1, 0xA2, 0xA3, 0xA4] \<and>
   map_option (cmdCntr \<circ> snd) (fst (DesfireAuthenticateEV2 plain_env
      (ctx_ev2\<lparr>secureChannel := DACNone\<rparr>) DACEV2 True card_ev2_first)) = Some 0 \<and>
   cmdCntr ctx_ev2 = 5 \<and>
   map_option fst (fst (DesfireAuthenticateEV2 ev2_env ctx_ev2 DACEV2 False card_ev2_counted)) =
     Some PM3_SUCCESS \<and>
   (\<exists>rc resp rest.
      exchanged (snd (DesfireAuthenticateEV2 ev2_env ctx_ev2 DACEV2 False card_ev2_counted)) =
        (0x77, [0x02], rc, resp) # rest) \<and>
   map_option (TI \<circ> snd) (fst (DesfireAuthenticateEV2 ev2_env ctx_ev2 DACEV2 False
      card_ev2_counted)) = Some [0x11, 0x22, 0x33, 0x44]"
proof -
  let ?c = "ctx_ev2\<lparr>secureChannel := DACNone\<rparr>"
  from EV2_first_run obtain c1 w1 where
    r1: "DesfireAuthenticateEV2 plain_env ?c DACEV2 True card_ev2_first = (Some (PM3_SUCCESS, c1), w1)"
    and p1: "TI c1 = [0xA1, 0xA2, 0xA3, 0xA4]"
    by blast
  from EV2_counted_run obtain c2 w2 where
    r2: "DesfireAuthenticateEV2 ev2_env ctx_ev2 DACEV2 False card_ev2_counted =
           (Some (PM3_SUCCESS, c2), w2)"
    and p2: "TI c2 = [0x11, 0x22, 0x33, 0x44]"
    by blast
  have c: "cmdSet ?c \<noteq> DCCISO" "cmdSet ctx_ev2 \<noteq> DCCISO" "keyNum ?c = 0x02"
    "exchanged card_ev2_first = []" "exchanged card_ev2_counted = []"
    by (simp_all add: ctx_ev2_sel card_ev2_first_def card_ev2_counted_def card_of_def)
  note t1 = AuthenticateEV2_first_and_non_first [OF r1 c(1)]
  note t2 = AuthenticateEV2_first_and_non_first [OF r2 c(2)]
  from t1 have "\<exists>rc resp rest. exchanged w1 = (0x71, [0x02, 0x00], rc, resp) # rest"
    unfolding c(3,4) by auto
  moreover from t1 have "cmdCntr c1 = 0"
    by auto
  moreover from t2 have "\<exists>rc resp rest. exchanged w2 = (0x77, [0x02], rc, resp) # rest"
    unfolding c(5) ctx_ev2_sel by auto
  ultimately show ?thesis
    by (simp add: r1 r2 p1 p2 ctx_ev2_sel)
qed

subsection \<open>A failed authentication\<close>











lemma EV1_key_cleared:
  "EV1_key ev2_env (DesfireClearSession ctx_ev1) =
     (\<lparr>kdata = replicate 24 0, kother = []\<rparr>, DesfireClearSession ctx_ev1)"
  by (simp add: EV1_key_def ctx_ev1_def DesfireClearSession_def ev2_env_def plain_env_def memcpy_def
           flip: replicate_add)

lemma ctx_ev1_cleared:
  "keyType (DesfireClearSession ctx_ev1) = T_AES" "keyNum (DesfireClearSession ctx_ev1) = 0"
  by (simp_all add: ctx_ev1_def DesfireClearSession_def)


text \<open>
  On the EV1 path the session key is in \<^verbatim>\<open>sessionKeyEnc\<close> before the card's \<open>RndA'\<close> is
  compared: a run that fails there (code 11) returns unauthenticated, with the derived key
  left in the context.
\<close>

lemma EV1_wrong_RndA_run:
  "\<exists>c w'. DesfireAuthenticateEV1 ev2_env ctx_ev1 DACEV1 card_wrong_RndA = (Some (11, c), w') \<and>
          secureChannel c = DACNone \<and>
          sessionKeyMAC c = replicate 24 0 \<and>
          sessionKeyEnc c = [0x01, 0x02, 0x03, 0x04, 0xB0, 0xB1, 0xB2, 0xB3,
                             0x01, 0x02, 0x03, 0x04, 0xB0, 0xB1, 0xB2, 0xB3] @ replicate 8 0"
proof -
  have x1: "DesfireExchangeEx ev2_env False (DesfireClearSession ctx_ev1) MFDES_AUTHENTICATE_AES
              [0x00] (Suc 0) \<lparr>x_respcode = 0, x_resp = replicate 256 0, x_resplen = 0\<rparr> False
              card_wrong_RndA =
            (Some (PM3_SUCCESS, \<lparr>x_respcode = 0xAF, x_resp = RndB_card, x_resplen = 16\<rparr>,
                   DesfireClearSession ctx_ev1),
             \<lparr>replies = [(PM3_SUCCESS, 0x00 # RndB_card @ [0x00, 0x00])],
              sent = [[0xAA, 0x00]], exchanged = [(0xAA, [0x00], 0xAF, RndB_card)]\<rparr>)"
    by (simp add: ev2_run_simps card_wrong_RndA_def RndB_card_def ctx_ev1_def DesfireClearSession_def)
  show ?thesis
    apply (simp add: DesfireAuthenticateEV1_def EV1_key_cleared EV1_subcommand_def x1 ctx_ev1_cleared)
    apply (simp add: Let_def EV1_decrypt_RndB_def EV1_encrypt_both_def ctx_ev1_cleared ev2_env_def
                     plain_env_def memcpy_def memcpy_at_def rol_def RndB_card_def RndA_init_def)
    apply (simp add: EV1_finish_def EV1_decrypt_RndA_def ev2_run_simps rol_def ctx_ev1_def
                     DesfireClearSession_def ev2_env_def plain_env_def)
    done
qed




end
